theory Spec2Isabelle
  imports Complex_Main "HOL-Library.Log_Nat"
begin

section \<open>JavaScript values\<close>

text \<open>
  Request bodies and the bodies of \<^verbatim>\<open>fetch\<close> responses are untyped (\<^verbatim>\<open>any\<close>) in the
  source, so they are modelled as JSON values extended with \<^verbatim>\<open>undefined\<close>. Numbers are
  restricted to integers, strings to 8-bit characters. An object is an association list
  in which the first binding of a key is the one a property read sees.
\<close>

datatype json =
    JUndefined
  | JNull
  | JBool bool
  | JNum int
  | JStr string
  | JArr "json list"
  | JObj "(string \<times> json) list"

text \<open>
  A thrown or rejected value: an \<^verbatim>\<open>Error\<close> with its message, a \<^verbatim>\<open>TypeError\<close> raised by the
  runtime, a bare string (\<^verbatim>\<open>reject("No Canvas Context")\<close>), or the event an image element
  passes to \<^verbatim>\<open>onerror\<close>.
\<close>

datatype thrown = Error string | TypeError string | Reason string | ErrorEvent

text \<open>\<^verbatim>\<open>error.message\<close> in a catch block.\<close>

fun message :: "thrown \<Rightarrow> json" where
  "message (Error m) = JStr m"
| "message (TypeError m) = JStr m"
| "message (Reason s) = JUndefined"
| "message ErrorEvent = JUndefined"

text \<open>Truthiness, as \<^verbatim>\<open>!v\<close>, \<^verbatim>\<open>v || d\<close>, \<^verbatim>\<open>v ? a : b\<close> and \<^verbatim>\<open>if (v)\<close> read it.\<close>

fun truthy :: "json \<Rightarrow> bool" where
  "truthy JUndefined = False"
| "truthy JNull = False"
| "truthy (JBool b) = b"
| "truthy (JNum n) = (n \<noteq> 0)"
| "truthy (JStr s) = (s \<noteq> [])"
| "truthy (JArr xs) = True"
| "truthy (JObj kvs) = True"

text \<open>\<^verbatim>\<open>a || b\<close> on values.\<close>

definition orElse :: "json \<Rightarrow> json \<Rightarrow> json" where
  "orElse a b = (if truthy a then a else b)"

text \<open>
  A property read \<^verbatim>\<open>v.k\<close> (or \<^verbatim>\<open>v[0]\<close> for the key \<^verbatim>\<open>0\<close>): a \<^verbatim>\<open>TypeError\<close> on
  \<^verbatim>\<open>null\<close> and \<^verbatim>\<open>undefined\<close>, the bound value on an object. Of the built-in properties
  of arrays and strings only the two the handlers read are modelled, \<^verbatim>\<open>length\<close> and the
  index \<^verbatim>\<open>0\<close>; every other key the handlers read is no built-in property.
\<close>

fun getProp :: "json \<Rightarrow> string \<Rightarrow> thrown + json" where
  "getProp JUndefined k =
     Inl (TypeError (''Cannot read properties of undefined (reading '' @ k @ '')''))"
| "getProp JNull k =
     Inl (TypeError (''Cannot read properties of null (reading '' @ k @ '')''))"
| "getProp (JObj kvs) k = Inr (case map_of kvs k of None \<Rightarrow> JUndefined | Some v \<Rightarrow> v)"
| "getProp (JArr xs) k =
     Inr (if k = ''length'' then JNum (int (length xs))
          else if k = ''0'' then (case xs of [] \<Rightarrow> JUndefined | x # _ \<Rightarrow> x)
          else JUndefined)"
| "getProp (JStr s) k =
     Inr (if k = ''length'' then JNum (int (length s))
          else if k = ''0'' then (case s of [] \<Rightarrow> JUndefined | c # _ \<Rightarrow> JStr [c])
          else JUndefined)"
| "getProp (JBool b) k = Inr JUndefined"
| "getProp (JNum n) k = Inr JUndefined"

text \<open>Optional chaining \<^verbatim>\<open>v?.k\<close>.\<close>

definition optProp :: "json \<Rightarrow> string \<Rightarrow> json" where
  "optProp v k =
     (case v of JUndefined \<Rightarrow> JUndefined | JNull \<Rightarrow> JUndefined
      | _ \<Rightarrow> (case getProp v k of Inl e \<Rightarrow> JUndefined | Inr x \<Rightarrow> x))"

text \<open>Decimal rendering of a number inside a template literal.\<close>

function showNat :: "nat \<Rightarrow> string" where
  "showNat n =
     (if n < 10 then [''0123456789'' ! n]
      else showNat (n div 10) @ [''0123456789'' ! (n mod 10)])"
  by pat_completeness auto
termination
  by (relation "measure id") auto

declare showNat.simps [simp del]

definition showInt :: "int \<Rightarrow> string" where
  "showInt i = (if i < 0 then CHR ''-'' # showNat (nat (- i)) else showNat (nat i))"

fun joinComma :: "string list \<Rightarrow> string" where
  "joinComma [] = []"
| "joinComma [s] = s"
| "joinComma (s # t # ss) = s @ CHR '','' # joinComma (t # ss)"

text \<open>
  \<^verbatim>\<open>String(v)\<close>, which is what a template literal \<^verbatim>\<open>${v}\<close> and \<^verbatim>\<open>new Error(v)\<close>
  apply. An array joins its elements with commas, \<^verbatim>\<open>null\<close> and \<^verbatim>\<open>undefined\<close> elements
  giving the empty string.
\<close>

fun toStringJS :: "json \<Rightarrow> string" where
  "toStringJS JUndefined = ''undefined''"
| "toStringJS JNull = ''null''"
| "toStringJS (JBool b) = (if b then ''true'' else ''false'')"
| "toStringJS (JNum n) = showInt n"
| "toStringJS (JStr s) = s"
| "toStringJS (JArr xs) =
     joinComma (map (\<lambda>x. if x = JUndefined \<or> x = JNull then [] else toStringJS x) xs)"
| "toStringJS (JObj kvs) = ''[object Object]''"

text \<open>\<^verbatim>\<open>s.split(',')\<close>: never empty, one more piece than there are commas.\<close>

fun splitComma :: "string \<Rightarrow> string list" where
  "splitComma [] = [[]]"
| "splitComma (c # cs) =
     (if c = CHR '','' then [] # splitComma cs
      else (case splitComma cs of [] \<Rightarrow> [[c]] | p # ps \<Rightarrow> (c # p) # ps))"

text \<open>\<^verbatim>\<open>xs[1]\<close> on the result of a split: \<^verbatim>\<open>undefined\<close> when there is no second piece.\<close>

fun second :: "'a list \<Rightarrow> 'a option" where
  "second (x # y # ys) = Some y"
| "second ys = None"

text \<open>
  The expression \<^verbatim>\<open>v.includes(',') ? v.split(',')[1] : v\<close> that both handlers apply to a
  truthy field of the request body. On a string it is as written. An array has
  \<^verbatim>\<open>includes\<close> (strict equality with the string \<^verbatim>\<open>","\<close>) but no \<^verbatim>\<open>split\<close>; a number, a
  boolean and an object have neither, so the call throws. The first argument is the
  name of the variable, for the error message.
\<close>

fun base64Part :: "string \<Rightarrow> json \<Rightarrow> thrown + json" where
  "base64Part nm (JStr s) =
     Inr (if CHR '','' \<in> set s
          then (case second (splitComma s) of None \<Rightarrow> JUndefined | Some p \<Rightarrow> JStr p)
          else JStr s)"
| "base64Part nm (JArr xs) =
     (if JStr '','' \<in> set xs then Inl (TypeError (nm @ ''.split is not a function''))
      else Inr (JArr xs))"
| "base64Part nm v = Inl (TypeError (nm @ ''.includes is not a function''))"

section \<open>HTTP requests and responses of the serverless handlers\<close>

record vercel_request =
  req_method :: string
  req_body :: json

text \<open>
  What a handler leaves in \<^verbatim>\<open>res\<close>: the headers it set, the status, and the JSON body
  (\<^verbatim>\<open>None\<close> for \<^verbatim>\<open>res.status(200).end()\<close>).
\<close>

record vercel_response =
  res_headers :: "(string \<times> string) list"
  res_status :: nat
  res_json :: "json option"

text \<open>A \<^verbatim>\<open>fetch\<close> response: \<^verbatim>\<open>response.ok\<close>, \<^verbatim>\<open>response.status\<close> and what
  \<^verbatim>\<open>await response.json()\<close> gives or throws.\<close>

record fetch_response =
  ok :: bool
  status :: nat
  json_body :: "thrown + json"

text \<open>An environment variable that \<^verbatim>\<open>!v\<close> lets pass: set and not empty.\<close>

fun present :: "string option \<Rightarrow> bool" where
  "present None = False"
| "present (Some s) = (s \<noteq> [])"

section \<open>api/generate-video.ts\<close>

definition video_cors :: "(string \<times> string) list" where
  "video_cors =
     [(''Access-Control-Allow-Credentials'', ''true''),
      (''Access-Control-Allow-Origin'', ''*''),
      (''Access-Control-Allow-Methods'', ''GET,OPTIONS,PATCH,DELETE,POST,PUT''),
      (''Access-Control-Allow-Headers'',
       ''X-CSRF-Token, X-Requested-With, Accept, Accept-Version, Content-Length, Content-MD5, Content-Type, Date, X-Api-Version'')]"

record credentials =
  client_email :: string
  private_key :: string
  project_id :: string

record vertex_request =
  endpoint :: string
  authorization :: string
  vertex_body :: json

text \<open>The outbound calls of the video handler, in the order it makes them.\<close>

datatype video_call =
    GetClient credentials
  | GetAccessToken credentials
  | FetchVertex vertex_request

text \<open>
  The environment of one invocation: the three variables of \<^verbatim>\<open>process.env\<close>, and the
  answers of the outside world. \<^verbatim>\<open>getClient\<close> gives the error \<^verbatim>\<open>auth.getClient()\<close>
  rejects with, if any; \<^verbatim>\<open>getAccessToken\<close> gives the \<^verbatim>\<open>token\<close> field of the access token;
  \<^verbatim>\<open>fetchVertex\<close> is the REST call. \<^verbatim>\<open>numericPositive s\<close> says whether the runtime's
  conversion of the string \<^verbatim>\<open>s\<close> to a number is greater than zero; it is consulted only
  when \<^verbatim>\<open>predictions\<close> is an object (not an array) whose \<^verbatim>\<open>length\<close> is a string or array.
\<close>

record video_env =
  GCP_PROJECT_ID :: "string option"
  GCP_CLIENT_EMAIL :: "string option"
  GCP_PRIVATE_KEY :: "string option"
  getClient :: "credentials \<Rightarrow> thrown option"
  getAccessToken :: "credentials \<Rightarrow> thrown + json"
  fetchVertex :: "vertex_request \<Rightarrow> thrown + fetch_response"
  numericPositive :: "string \<Rightarrow> bool"

text \<open>\<^verbatim>\<open>.replace(/\\n/g, '\n')\<close>: every backslash followed by \<^verbatim>\<open>n\<close> becomes a line feed.\<close>

fun unescapeNewlines :: "string \<Rightarrow> string" where
  "unescapeNewlines (a # b # cs) =
     (if a = CHR 0x5C \<and> b = CHR ''n'' then CHR 0x0A # unescapeNewlines cs
      else a # unescapeNewlines (b # cs))"
| "unescapeNewlines cs = cs"

text \<open>\<^verbatim>\<open>v > 0\<close> on a value read from a response.\<close>

fun greaterZero :: "(string \<Rightarrow> bool) \<Rightarrow> json \<Rightarrow> bool" where
  "greaterZero np (JNum n) = (0 < n)"
| "greaterZero np (JBool b) = b"
| "greaterZero np (JStr s) = np s"
| "greaterZero np (JArr xs) = np (toStringJS (JArr xs))"
| "greaterZero np v = False"

text \<open>
  Step 4 of the handler, the probe of the three response shapes. The result is the value
  of \<^verbatim>\<open>videoBase64\<close>, \<^verbatim>\<open>JNull\<close> when no probe assigned it.
\<close>

definition extractVideo :: "(string \<Rightarrow> bool) \<Rightarrow> json \<Rightarrow> thrown + json" where
  "extractVideo np data =
     (case getProp data ''predictions'' of
        Inl e \<Rightarrow> Inl e
      | Inr predictions \<Rightarrow>
          if truthy predictions
             \<and> (case getProp predictions ''length'' of Inl e \<Rightarrow> False | Inr n \<Rightarrow> greaterZero np n)
          then
            (case getProp predictions ''0'' of
               Inl e \<Rightarrow> Inl e
             | Inr prediction \<Rightarrow>
                 (case prediction of
                    JStr s \<Rightarrow> Inr (JStr s)
                  | _ \<Rightarrow>
                    (case getProp prediction ''bytesBase64Encoded'' of
                       Inl e \<Rightarrow> Inl e
                     | Inr direct \<Rightarrow>
                         if truthy direct then Inr direct
                         else
                           (case getProp prediction ''video'' of
                              Inl e \<Rightarrow> Inl e
                            | Inr video \<Rightarrow>
                                if truthy (optProp video ''bytesBase64Encoded'')
                                then Inr (optProp video ''bytesBase64Encoded'')
                                else Inr JNull))))
          else Inr JNull)"

text \<open>Lines 94 to 126: what the handler makes of the response of Vertex AI.\<close>

definition vertexResult :: "(string \<Rightarrow> bool) \<Rightarrow> fetch_response \<Rightarrow> thrown + nat \<times> json" where
  "vertexResult np response =
     (case json_body response of
        Inl e \<Rightarrow> Inl e
      | Inr data \<Rightarrow>
          if \<not> ok response then
            (case getProp data ''error'' of
               Inl e \<Rightarrow> Inl e
             | Inr err \<Rightarrow>
                 Inl (Error (toStringJS (orElse (optProp err ''message'')
                   (JStr (''Vertex AI API Failed with status '' @ showNat (status response)))))))
          else
            (case extractVideo np data of
               Inl e \<Rightarrow> Inl e
             | Inr videoBase64 \<Rightarrow>
                 if \<not> truthy videoBase64
                 then Inr (500, JObj [(''error'', JStr ''No video data received from Vertex AI.'')])
                 else Inr (200, JObj [(''video'',
                        JStr (''data:video/mp4;base64,'' @ toStringJS videoBase64))])))"

definition vertexEndpoint :: "string \<Rightarrow> string" where
  "vertexEndpoint projectId =
     ''https://'' @ ''us-central1'' @ ''-aiplatform.googleapis.com/v1/projects/'' @ projectId
     @ ''/locations/'' @ ''us-central1'' @ ''/publishers/google/models/''
     @ ''veo-3.1-fast-generate-preview'' @ '':predict''"

definition vertexPayload :: "json \<Rightarrow> json \<Rightarrow> json \<Rightarrow> json" where
  "vertexPayload prompt base64Image aspectRatio =
     JObj [(''instances'',
             JArr [JObj [(''prompt'', prompt),
                         (''image'', JObj [(''bytesBase64Encoded'', base64Image)])]]),
           (''parameters'',
             JObj [(''aspectRatio'', orElse aspectRatio (JStr ''9:16'')),
                   (''sampleCount'', JNum 1)])]"

text \<open>
  Lines 33 to 40: the three variables, the private key with its escaped line feeds
  restored; \<^verbatim>\<open>None\<close> when \<^verbatim>\<open>!projectId || !clientEmail || !privateKey\<close> holds, that
  is, when one of them is unset or empty.
\<close>

definition gcpCredentials :: "video_env \<Rightarrow> credentials option" where
  "gcpCredentials env =
     (let projectId = GCP_PROJECT_ID env;
          clientEmail = GCP_CLIENT_EMAIL env;
          privateKey = map_option unescapeNewlines (GCP_PRIVATE_KEY env)
      in case (projectId, clientEmail, privateKey) of
           (Some p, Some c, Some k) \<Rightarrow>
             if p = [] \<or> c = [] \<or> k = [] then None
             else Some \<lparr>client_email = c, private_key = k, project_id = p\<rparr>
         | _ \<Rightarrow> None)"

text \<open>
  The body of the \<^verbatim>\<open>try\<close> block: the outbound calls made, and either the thrown value
  or the status and JSON body of the response.
\<close>

definition videoTry :: "video_env \<Rightarrow> json \<Rightarrow> video_call list \<times> (thrown + nat \<times> json)" where
  "videoTry env body =
     (case getProp body ''image'' of
        Inl e \<Rightarrow> ([], Inl e)
      | Inr img \<Rightarrow>
     (case getProp body ''prompt'' of
        Inl e \<Rightarrow> ([], Inl e)
      | Inr prompt \<Rightarrow>
     (case getProp body ''aspectRatio'' of
        Inl e \<Rightarrow> ([], Inl e)
      | Inr aspectRatio \<Rightarrow>
     if \<not> truthy img \<or> \<not> truthy prompt
     then ([], Inr (400, JObj [(''error'', JStr ''Missing image or prompt'')]))
     else
     (case gcpCredentials env of
        None \<Rightarrow> ([], Inr (500, JObj [(''error'', JStr
         ''Server configuration error: Missing GCP Credentials. Please set GCP_PROJECT_ID, GCP_CLIENT_EMAIL, and GCP_PRIVATE_KEY in Vercel.'')]))
      | Some creds \<Rightarrow>
     (case getClient env creds of
        Some e \<Rightarrow> ([GetClient creds], Inl e)
      | None \<Rightarrow>
     (case getAccessToken env creds of
        Inl e \<Rightarrow> ([GetClient creds, GetAccessToken creds], Inl e)
      | Inr token \<Rightarrow>
     (case base64Part ''image'' img of
        Inl e \<Rightarrow> ([GetClient creds, GetAccessToken creds], Inl e)
      | Inr base64Image \<Rightarrow>
          let request = \<lparr>endpoint = vertexEndpoint (project_id creds),
                          authorization = ''Bearer '' @ toStringJS token,
                          vertex_body = vertexPayload prompt base64Image aspectRatio\<rparr>;
              calls = [GetClient creds, GetAccessToken creds, FetchVertex request]
          in
          (case fetchVertex env request of
             Inl e \<Rightarrow> (calls, Inl e)
           | Inr response \<Rightarrow> (calls, vertexResult (numericPositive env) response)))))))))"

definition generate_video_handler ::
  "video_env \<Rightarrow> vercel_request \<Rightarrow> video_call list \<times> vercel_response" where
  "generate_video_handler env req =
     (if req_method req = ''OPTIONS''
      then ([], \<lparr>res_headers = video_cors, res_status = 200, res_json = None\<rparr>)
      else if req_method req \<noteq> ''POST''
      then ([], \<lparr>res_headers = video_cors, res_status = 405,
                 res_json = Some (JObj [(''error'', JStr ''Method not allowed'')])\<rparr>)
      else
        (case videoTry env (req_body req) of
           (calls, Inr (code, reply)) \<Rightarrow>
             (calls, \<lparr>res_headers = video_cors, res_status = code, res_json = Some reply\<rparr>)
         | (calls, Inl error) \<Rightarrow>
             (calls, \<lparr>res_headers = video_cors, res_status = 500,
                      res_json = Some (JObj [(''error'',
                        orElse (message error) (JStr ''Internal Server Error''))])\<rparr>)))"

section \<open>api/generate-image-openai.ts\<close>

definition openai_cors :: "(string \<times> string) list" where
  "openai_cors =
     [(''Access-Control-Allow-Credentials'', ''true''),
      (''Access-Control-Allow-Origin'', ''*''),
      (''Access-Control-Allow-Methods'', ''POST,OPTIONS''),
      (''Access-Control-Allow-Headers'', ''Content-Type'')]"

text \<open>
  \<^verbatim>\<open>Buffer.from(v, 'base64')\<close>, kept symbolic: the buffer decoded from a base64 string, or
  the buffer of the entries of an array (for which the encoding argument is ignored).
  The handler applies it only to results of \<^verbatim>\<open>base64Part\<close>.
\<close>

datatype buffer = FromBase64 string | FromArray "json list"

fun bufferFrom :: "json \<Rightarrow> thrown + buffer" where
  "bufferFrom (JStr s) = Inr (FromBase64 s)"
| "bufferFrom (JArr xs) = Inr (FromArray xs)"
| "bufferFrom v =
     Inl (TypeError ''The first argument must be of type string or an instance of Buffer, ArrayBuffer, or Array or an Array-like Object.'')"

text \<open>\<^verbatim>\<open>await toFile(buffer, name)\<close>.\<close>

record upload =
  file_bytes :: buffer
  file_name :: string

record edit_request =
  edit_model :: string
  edit_image :: upload
  edit_mask :: "upload option"
  edit_prompt :: json
  edit_n :: nat
  edit_size :: string
  edit_response_format :: string

text \<open>The SDK's typed \<^verbatim>\<open>ImagesResponse\<close>: \<^verbatim>\<open>data?: Array<Image>\<close>, \<^verbatim>\<open>b64_json?: string\<close>.\<close>

record image_item =
  b64_json :: "string option"

record images_response =
  images_data :: "image_item list option"

datatype openai_call = ImagesEdit string edit_request

text \<open>
  The environment of one invocation: the server credential and the answer of
  \<^verbatim>\<open>openai.images.edit\<close> for a client constructed with that key.
\<close>

record openai_env =
  OPENAI_API_KEY :: "string option"
  imagesEdit :: "string \<Rightarrow> edit_request \<Rightarrow> thrown + images_response"

text \<open>Lines 45 to 50: the optional mask.\<close>

definition maskUpload :: "json \<Rightarrow> thrown + upload option" where
  "maskUpload maskBase64 =
     (if truthy maskBase64 then
        (case base64Part ''req.body.maskBase64'' maskBase64 of
           Inl e \<Rightarrow> Inl e
         | Inr maskData \<Rightarrow>
             (case bufferFrom maskData of
                Inl e \<Rightarrow> Inl e
              | Inr maskBuffer \<Rightarrow> Inr (Some \<lparr>file_bytes = maskBuffer, file_name = ''mask.png''\<rparr>)))
      else Inr None)"

text \<open>\<^verbatim>\<open>response.data?.[0]?.b64_json\<close>.\<close>

definition firstB64 :: "images_response \<Rightarrow> string option" where
  "firstB64 response =
     (case images_data response of
        None \<Rightarrow> None
      | Some [] \<Rightarrow> None
      | Some (x # _) \<Rightarrow> b64_json x)"

text \<open>
  Lines 32 to 70, from the destructuring of the body to the argument of
  \<^verbatim>\<open>openai.images.edit\<close>: the value thrown, or the 400 reply, or the request.
\<close>

definition editRequest :: "json \<Rightarrow> thrown + (nat \<times> json) + edit_request" where
  "editRequest body =
     (case getProp body ''prompt'' of
        Inl e \<Rightarrow> Inl e
      | Inr prompt \<Rightarrow>
     (case getProp body ''imageBase64'' of
        Inl e \<Rightarrow> Inl e
      | Inr imageBase64 \<Rightarrow>
     (case getProp body ''size'' of
        Inl e \<Rightarrow> Inl e
      | Inr sz \<Rightarrow>
     if \<not> truthy prompt \<or> \<not> truthy imageBase64
     then Inr (Inl (400, JObj [(''error'', JStr ''Missing prompt or image'')]))
     else
     (case base64Part ''imageBase64'' imageBase64 of
        Inl e \<Rightarrow> Inl e
      | Inr base64Data \<Rightarrow>
     (case bufferFrom base64Data of
        Inl e \<Rightarrow> Inl e
      | Inr imageBuffer \<Rightarrow>
     (case getProp body ''maskBase64'' of
        Inl e \<Rightarrow> Inl e
      | Inr maskBase64 \<Rightarrow>
     (case maskUpload maskBase64 of
        Inl e \<Rightarrow> Inl e
      | Inr maskFile \<Rightarrow>
          Inr (Inr \<lparr>edit_model = ''gpt-image-1.5'',
                    edit_image = \<lparr>file_bytes = imageBuffer, file_name = ''image.png''\<rparr>,
                    edit_mask = maskFile,
                    edit_prompt = prompt,
                    edit_n = 1,
                    edit_size = (if truthy sz then toStringJS sz @ ''x'' @ toStringJS sz
                                 else ''1024x1024''),
                    edit_response_format = ''b64_json''\<rparr>))))))))"

text \<open>Lines 72 to 75: the reply made of the response of the image edit.\<close>

definition imageReply :: "images_response \<Rightarrow> thrown + nat \<times> json" where
  "imageReply response =
     (case firstB64 response of
        None \<Rightarrow> Inl (Error ''No image returned'')
      | Some outputBase64 \<Rightarrow>
          if outputBase64 = [] then Inl (Error ''No image returned'')
          else Inr (200, JObj [(''imageBase64'',
                 JStr (''data:image/png;base64,'' @ outputBase64))]))"

text \<open>
  The body of the \<^verbatim>\<open>try\<close> block: the key check comes first, then the body is read.
\<close>

definition openaiTry :: "openai_env \<Rightarrow> json \<Rightarrow> openai_call list \<times> (thrown + nat \<times> json)" where
  "openaiTry env body =
     (case OPENAI_API_KEY env of
        None \<Rightarrow>
          ([], Inr (500, JObj [(''error'', JStr ''Server config error: OPENAI_API_KEY missing'')]))
      | Some apiKey \<Rightarrow>
          if apiKey = []
          then ([], Inr (500, JObj [(''error'', JStr ''Server config error: OPENAI_API_KEY missing'')]))
          else
            (case editRequest body of
               Inl e \<Rightarrow> ([], Inl e)
             | Inr (Inl reply) \<Rightarrow> ([], Inr reply)
             | Inr (Inr request) \<Rightarrow>
                 ([ImagesEdit apiKey request],
                  (case imagesEdit env apiKey request of
                     Inl e \<Rightarrow> Inl e
                   | Inr response \<Rightarrow> imageReply response))))"

definition generate_image_openai_handler ::
  "openai_env \<Rightarrow> vercel_request \<Rightarrow> openai_call list \<times> vercel_response" where
  "generate_image_openai_handler env req =
     (if req_method req = ''OPTIONS''
      then ([], \<lparr>res_headers = openai_cors, res_status = 200, res_json = None\<rparr>)
      else if req_method req \<noteq> ''POST''
      then ([], \<lparr>res_headers = openai_cors, res_status = 405,
                 res_json = Some (JObj [(''error'', JStr ''Method not allowed'')])\<rparr>)
      else
        (case openaiTry env (req_body req) of
           (calls, Inr (code, reply)) \<Rightarrow>
             (calls, \<lparr>res_headers = openai_cors, res_status = code, res_json = Some reply\<rparr>)
         | (calls, Inl error) \<Rightarrow>
             (calls, \<lparr>res_headers = openai_cors, res_status = 500,
                      res_json = Some (JObj [(''error'',
                        orElse (message error) (JStr ''OpenAI Generation Failed''))])\<rparr>)))"

section \<open>types.ts\<close>

datatype AspectRatio = Ratio_16_9 | Ratio_9_16 | Ratio_3_2 | Ratio_2_3

text \<open>\<^verbatim>\<open>gptModelSize?: '512' | '720' | '1024'\<close>, as the string it is stored as.\<close>

datatype GptModelSize = Size_512 | Size_720 | Size_1024

fun gptModelSizeString :: "GptModelSize \<Rightarrow> string" where
  "gptModelSizeString Size_512 = ''512''"
| "gptModelSizeString Size_720 = ''720''"
| "gptModelSizeString Size_1024 = ''1024''"

text \<open>The two fields of \<^verbatim>\<open>PhotoboothSettings\<close> that \<^verbatim>\<open>generateAIImage\<close> reads.\<close>

record PhotoboothSettings =
  selectedModel :: string
  gptModelSize :: "GptModelSize option"

section \<open>lib/gemini.ts\<close>

subsection \<open>Strings and numbers\<close>

text \<open>\<^verbatim>\<open>s.includes(sub)\<close> and \<^verbatim>\<open>s.startsWith(p)\<close> on strings.\<close>

fun str_includes :: "string \<Rightarrow> string \<Rightarrow> bool" where
  "str_includes [] sub = (sub = [])"
| "str_includes (c # cs) sub = (take (length sub) (c # cs) = sub \<or> str_includes cs sub)"

definition startsWith :: "string \<Rightarrow> string \<Rightarrow> bool" where
  "startsWith s p = (take (length p) s = p)"

text \<open>White space and line terminators among the 8-bit characters.\<close>

definition isWhiteSpace :: "char \<Rightarrow> bool" where
  "isWhiteSpace c = (c \<in> {CHR 0x09, CHR 0x0A, CHR 0x0B, CHR 0x0C, CHR 0x0D, CHR 0x20, CHR 0xA0})"

definition trim :: "string \<Rightarrow> string" where
  "trim s = rev (dropWhile isWhiteSpace (rev (dropWhile isWhiteSpace s)))"

definition digitValue :: "char \<Rightarrow> nat option" where
  "digitValue c =
     (let n = (of_char c :: nat) in
      if 48 \<le> n \<and> n \<le> 57 then Some (n - 48)
      else if 97 \<le> n \<and> n \<le> 102 then Some (n - 87)
      else if 65 \<le> n \<and> n \<le> 70 then Some (n - 55)
      else None)"

definition isDigitOf :: "nat \<Rightarrow> char \<Rightarrow> bool" where
  "isDigitOf radix c = (case digitValue c of None \<Rightarrow> False | Some d \<Rightarrow> d < radix)"

fun digitsValue :: "nat \<Rightarrow> nat \<Rightarrow> string \<Rightarrow> nat" where
  "digitsValue radix acc [] = acc"
| "digitsValue radix acc (c # cs) =
     digitsValue radix (acc * radix + (case digitValue c of None \<Rightarrow> 0 | Some d \<Rightarrow> d)) cs"

text \<open>
  \<^verbatim>\<open>parseInt(s)\<close> without a radix: leading white space, a sign, a \<^verbatim>\<open>0x\<close> prefix that
  selects base 16, then the longest run of digits; \<^verbatim>\<open>None\<close> stands for \<^verbatim>\<open>NaN\<close>. The value
  is exact (the source rounds it to a double beyond \<^verbatim>\<open>2^53\<close>).
\<close>

definition parseInt :: "string \<Rightarrow> int option" where
  "parseInt s =
     (let s1 = dropWhile isWhiteSpace s;
          negative = (take 1 s1 = ''-'');
          s2 = (if take 1 s1 = ''-'' \<or> take 1 s1 = ''+'' then drop 1 s1 else s1);
          hex = (take 2 s2 = ''0x'' \<or> take 2 s2 = ''0X'');
          radix = (if hex then 16 else 10);
          s3 = (if hex then drop 2 s2 else s2);
          digits = takeWhile (isDigitOf radix) s3
      in if digits = [] then None
         else Some ((if negative then - 1 else 1) * int (digitsValue radix 0 digits)))"

text \<open>
  Numbers are IEEE 754 doubles. A finite double is the rational it denotes; the result of
  \<^verbatim>\<open>/\<close> and \<^verbatim>\<open>*\<close> is the exact result rounded to the nearest double, ties to the even
  significand: \<^verbatim>\<open>toDouble\<close>. With \<open>2^e \<le> |x| < 2^(e+1)\<close> the doubles around \<open>x\<close> are the
  multiples of \<open>2^(e-52)\<close> (53 significant bits). The exponent range is not modelled
  (no overflow to \<^verbatim>\<open>Infinity\<close>, no subnormal numbers): the values rounded below are
  quotients and products of image dimensions.
\<close>

definition roundHalfEven :: "rat \<Rightarrow> int" where
  "roundHalfEven m =
     (let f = \<lfloor>m\<rfloor>; d = m - of_int f
      in if d < 1 / 2 then f
         else if 1 / 2 < d then f + 1
         else if even f then f else f + 1)"

text \<open>The exponent \<open>e\<close> with \<open>2^e \<le> x < 2^(e+1)\<close>, for a positive \<open>x\<close>.\<close>

definition binaryExponent :: "rat \<Rightarrow> int" where
  "binaryExponent x =
     (case quotient_of x of
        (p, q) \<Rightarrow> let k = bitlen p - bitlen q in if 2 powi k \<le> x then k else k - 1)"

definition toDouble :: "rat \<Rightarrow> rat" where
  "toDouble x =
     (if x = 0 then 0
      else let ulp = 2 powi (binaryExponent \<bar>x\<bar> - 52)
           in of_int (roundHalfEven (x / ulp)) * ulp)"

text \<open>\<^verbatim>\<open>Math.round\<close> of a double: the nearest integer, halves upwards.\<close>

definition Math_round :: "rat \<Rightarrow> int" where
  "Math_round r = \<lfloor>r + 1 / 2\<rfloor>"

subsection \<open>resizeImageForOpenAI\<close>

text \<open>The arguments of \<^verbatim>\<open>ctx.drawImage(img, x, y, w, h)\<close>.\<close>

record drawing =
  draw_x :: rat
  draw_y :: rat
  draw_w :: int
  draw_h :: int

text \<open>
  A canvas: its size and what has been drawn on it after \<^verbatim>\<open>clearRect\<close> (\<^verbatim>\<open>None\<close>: every
  pixel is transparent).
\<close>

record canvas =
  canvas_width :: nat
  canvas_height :: nat
  canvas_drawn :: "drawing option"

text \<open>
  The browser: \<^verbatim>\<open>loadImage\<close> gives the width and height of the decoded image
  (\<^verbatim>\<open>None\<close>: \<^verbatim>\<open>onerror\<close> fires), the two flags say whether \<^verbatim>\<open>getContext('2d')\<close> gives a
  context for the image canvas and for the mask canvas, and \<^verbatim>\<open>toDataURL\<close> is the PNG
  encoding of a canvas.
\<close>

record browser =
  loadImage :: "string \<Rightarrow> (nat \<times> nat) option"
  canvasContext :: bool
  maskContext :: bool
  toDataURL :: "canvas \<Rightarrow> string"

text \<open>
  Lines 11 to 26, the resize logic: the width and height the image is drawn with.
  \<^verbatim>\<open>w / h\<close>, \<^verbatim>\<open>maxDim / ratio\<close> and \<^verbatim>\<open>maxDim * ratio\<close> are double operations, each rounded
  by \<^verbatim>\<open>toDouble\<close>. For an image of height 0 and positive width the source has
  \<^verbatim>\<open>ratio = Infinity\<close> and \<^verbatim>\<open>Math.round(maxDim / Infinity) = 0\<close>; here the quotient by 0 is 0
  and the rounded height is 0 as well. For a 0 by 0 image \<^verbatim>\<open>ratio\<close> is \<^verbatim>\<open>NaN\<close> and is not
  used when \<^verbatim>\<open>maxDim\<close> is not negative.
\<close>

definition resizeLogic :: "nat \<Rightarrow> nat \<Rightarrow> nat \<Rightarrow> int \<times> int" where
  "resizeLogic width height maxDim =
     (let w = int width; h = int height;
          ratio = toDouble (of_int w / of_int h)
      in if w > h then
           (if w > int maxDim then (int maxDim, Math_round (toDouble (of_nat maxDim / ratio)))
            else (w, h))
         else
           (if h > int maxDim then (Math_round (toDouble (of_nat maxDim * ratio)), int maxDim)
            else (w, h)))"

text \<open>Lines 8 to 65: the image canvas and the mask canvas, before they are encoded.\<close>

definition resizeCanvases :: "browser \<Rightarrow> string \<Rightarrow> nat \<Rightarrow> thrown + canvas \<times> canvas" where
  "resizeCanvases br base64Str maxDim =
     (case loadImage br base64Str of
        None \<Rightarrow> Inl ErrorEvent
      | Some (width, height) \<Rightarrow>
          (case resizeLogic width height maxDim of
             (w, h) \<Rightarrow>
               if \<not> canvasContext br then Inl (Reason ''No Canvas Context'')
               else
                 let x = (of_nat maxDim - of_int w) / 2;
                     y = (of_nat maxDim - of_int h) / 2;
                     cnv = \<lparr>canvas_width = maxDim, canvas_height = maxDim,
                             canvas_drawn = Some \<lparr>draw_x = x, draw_y = y, draw_w = w, draw_h = h\<rparr>\<rparr>;
                     maskCanvas = \<lparr>canvas_width = maxDim, canvas_height = maxDim,
                                   canvas_drawn = None\<rparr>
                 in if \<not> maskContext br then Inl (Reason ''No Mask Context'')
                    else Inr (cnv, maskCanvas)))"

definition resizeImageForOpenAI :: "browser \<Rightarrow> string \<Rightarrow> nat \<Rightarrow> thrown + string \<times> string" where
  "resizeImageForOpenAI br base64Str maxDim =
     (case resizeCanvases br base64Str maxDim of
        Inl e \<Rightarrow> Inl e
      | Inr (cnv, maskCanvas) \<Rightarrow> Inr (toDataURL br cnv, toDataURL br maskCanvas))"

subsection \<open>The Gemini SDK\<close>

text \<open>
  The SDK's typed values, every optional field an \<^verbatim>\<open>option\<close>: \<^verbatim>\<open>Blob\<close>, \<^verbatim>\<open>Part\<close>,
  \<^verbatim>\<open>Content\<close>, \<^verbatim>\<open>Candidate\<close> and \<^verbatim>\<open>GenerateContentResponse\<close> with its \<^verbatim>\<open>text\<close> getter.
\<close>

record blob =
  blob_data :: "string option"
  blob_mimeType :: "string option"

record part =
  part_text :: "string option"
  inlineData :: "blob option"

record content =
  parts :: "part list option"

record candidate =
  candidate_content :: "content option"

record gen_response =
  response_text :: "string option"
  candidates :: "candidate list option"

record image_config =
  cfg_aspectRatio :: string
  cfg_imageSize :: "string option"

text \<open>The argument of \<^verbatim>\<open>ai.models.generateContent\<close>.\<close>

record gen_request =
  gen_model :: string
  gen_parts :: "part list"
  gen_config :: "image_config option"

text \<open>The JSON body posted to \<^verbatim>\<open>/api/generate-image-openai\<close>.\<close>

record openai_post =
  post_prompt :: string
  post_imageBase64 :: string
  post_maskBase64 :: string
  post_size :: nat

text \<open>The network calls of \<^verbatim>\<open>generateAIImage\<close>, in the order it makes them.\<close>

datatype client_call = FetchOpenAI openai_post | GenerateContent gen_request

text \<open>
  The environment of one run in the browser: what \<^verbatim>\<open>localStorage.getItem('pb_settings')\<close>
  holds (\<^verbatim>\<open>None\<close>: nothing or the empty string; otherwise what \<^verbatim>\<open>JSON.parse\<close> throws or
  gives), \<^verbatim>\<open>process.env.API_KEY\<close>, the browser, and the answers of the two services: the
  \<^verbatim>\<open>fetch\<close> of the OpenAI endpoint, and \<^verbatim>\<open>generateContent\<close> of a client built with a key.
\<close>

record client_env =
  pb_settings :: "(thrown + PhotoboothSettings) option"
  API_KEY :: "string option"
  the_browser :: browser
  fetchOpenAI :: "openai_post \<Rightarrow> thrown + fetch_response"
  generateContent :: "string \<Rightarrow> gen_request \<Rightarrow> thrown + gen_response"

subsection \<open>detectPeopleCount\<close>

definition detectRequest :: "string option \<Rightarrow> string \<Rightarrow> gen_request" where
  "detectRequest base64 mimeType =
     \<lparr>gen_model = ''gemini-2.5-flash'',
      gen_parts =
        [\<lparr>part_text = None,
          inlineData = Some \<lparr>blob_data = base64, blob_mimeType = Some mimeType\<rparr>\<rparr>,
         \<lparr>part_text = Some ''How many humans are visible in this image? Return strictly just the integer number. If unsure or 0, return 1.'',
          inlineData = None\<rparr>],
      gen_config = None\<rparr>"

text \<open>The calls made and the number returned; no error leaves the function.\<close>

definition detectPeopleCount ::
  "client_env \<Rightarrow> string \<Rightarrow> string option \<Rightarrow> string \<Rightarrow> client_call list \<times> int" where
  "detectPeopleCount env apiKey base64 mimeType =
     ([GenerateContent (detectRequest base64 mimeType)],
      (case generateContent env apiKey (detectRequest base64 mimeType) of
         Inl e \<Rightarrow> 1
       | Inr result \<Rightarrow>
           (case response_text result of
              None \<Rightarrow> 1
            | Some txt \<Rightarrow>
                if txt = [] then 1
                else (case parseInt (trim txt) of None \<Rightarrow> 1 | Some num \<Rightarrow> num))))"

subsection \<open>generateAIImage\<close>

text \<open>
  Lines 101 to 113: the selected model and the OpenAI render size. \<^verbatim>\<open>parseInt\<close> of the
  three strings a \<^verbatim>\<open>GptModelSize\<close> stands for is never \<^verbatim>\<open>NaN\<close> (\<open>parseInt_sizes\<close> below),
  so the branch for \<^verbatim>\<open>NaN\<close> is never taken.
\<close>

definition readSettings :: "client_env \<Rightarrow> thrown + string \<times> nat" where
  "readSettings env =
     (case pb_settings env of
        None \<Rightarrow> Inr (''gemini-2.5-flash-image'', 1024)
      | Some (Inl e) \<Rightarrow> Inl e
      | Some (Inr parsedSettings) \<Rightarrow>
          Inr (if selectedModel parsedSettings \<noteq> [] then selectedModel parsedSettings
               else ''gemini-2.5-flash-image'',
               (case gptModelSize parsedSettings of
                  None \<Rightarrow> 1024
                | Some g \<Rightarrow>
                    (case parseInt (gptModelSizeString g) of
                       None \<Rightarrow> 0
                     | Some n \<Rightarrow> nat n))))"

text \<open>
  Lines 133 to 139: what the inner \<^verbatim>\<open>try\<close> makes of the outcome of the \<^verbatim>\<open>fetch\<close>, the
  value returned or the value thrown.
\<close>

definition openaiResult :: "thrown + fetch_response \<Rightarrow> thrown + json" where
  "openaiResult fetched =
     (case fetched of
        Inl e \<Rightarrow> Inl e
      | Inr response \<Rightarrow>
          if \<not> ok response then
            (case json_body response of
               Inl e \<Rightarrow> Inl e
             | Inr errData \<Rightarrow>
                 (case getProp errData ''error'' of
                    Inl e \<Rightarrow> Inl e
                  | Inr err \<Rightarrow>
                      Inl (Error (toStringJS (orElse err (JStr ''OpenAI Generation Failed''))))))
          else
            (case json_body response of
               Inl e \<Rightarrow> Inl e
             | Inr dat \<Rightarrow> getProp dat ''imageBase64''))"

text \<open>
  Lines 119 to 139, the body of the inner \<^verbatim>\<open>try\<close>: the calls made, and the value returned
  or the value thrown.
\<close>

definition openaiFlow ::
  "client_env \<Rightarrow> string \<Rightarrow> string \<Rightarrow> nat \<Rightarrow> client_call list \<times> (thrown + json)" where
  "openaiFlow env base64Source prompt gptSize =
     (case resizeImageForOpenAI (the_browser env) base64Source gptSize of
        Inl e \<Rightarrow> ([], Inl e)
      | Inr (resizedBase64, maskBase64) \<Rightarrow>
          let post = \<lparr>post_prompt = prompt @ '' photorealistic, highly detailed, preserve identity'',
                      post_imageBase64 = resizedBase64,
                      post_maskBase64 = maskBase64,
                      post_size = gptSize\<rparr>
          in ([FetchOpenAI post], openaiResult (fetchOpenAI env post)))"

text \<open>Lines 172 to 176.\<close>

fun apiAspectRatio :: "AspectRatio \<Rightarrow> string" where
  "apiAspectRatio Ratio_16_9 = ''16:9''"
| "apiAspectRatio Ratio_9_16 = ''9:16''"
| "apiAspectRatio Ratio_3_2 = ''4:3''"
| "apiAspectRatio Ratio_2_3 = ''3:4''"

definition finalPrompt :: "string \<Rightarrow> string" where
  "finalPrompt prompt =
     ''*** EDIT MODE: HARD LOCK ENABLED ***'' @ [CHR 0x0A]
     @ ''STRICT CONSTRAINTS:'' @ [CHR 0x0A]
     @ ''1. PRESERVE IDENTITY: Face, features, and skin tone must remain EXACTLY the same.'' @ [CHR 0x0A]
     @ ''2. PRESERVE STRUCTURE: Pose, posture, hand gestures, and body shape must remain EXACTLY the same.'' @ [CHR 0x0A]
     @ ''3. PRESERVE FRAMING: Camera angle, zoom, and composition must remain EXACTLY the same. DO NOT CROP. DO NOT ZOOM.'' @ [CHR 0x0A]
     @ ''4. PRESERVE HAIR/HEAD: Keep hairstyle/hijab shape identical unless explicitly asked to change.'' @ [CHR 0x0A]
     @ [CHR 0x0A]
     @ ''CHANGE REQUEST:'' @ [CHR 0x0A]
     @ prompt"

text \<open>
  The request \<^verbatim>\<open>executeGenAI(model, useProConfig)\<close> sends; the closure's variables are the
  first four arguments.
\<close>

definition genRequest ::
  "string \<Rightarrow> string \<Rightarrow> string option \<Rightarrow> string \<Rightarrow> string \<Rightarrow> bool \<Rightarrow> gen_request" where
  "genRequest ratio prompt cleanBase64 mimeType model useProConfig =
     \<lparr>gen_model = model,
      gen_parts =
        [\<lparr>part_text = Some (finalPrompt prompt), inlineData = None\<rparr>,
         \<lparr>part_text = None,
          inlineData = Some \<lparr>blob_data = cleanBase64, blob_mimeType = Some mimeType\<rparr>\<rparr>],
      gen_config = Some \<lparr>cfg_aspectRatio = ratio,
                          cfg_imageSize = (if useProConfig then Some ''1K'' else None)\<rparr>\<rparr>"

text \<open>The loop of lines 222 to 226: the data URI of the first part that has inline data.\<close>

fun firstInlineData :: "part list \<Rightarrow> string option" where
  "firstInlineData [] = None"
| "firstInlineData (p # ps) =
     (case inlineData p of
        None \<Rightarrow> firstInlineData ps
      | Some b \<Rightarrow>
          Some (''data:image/png;base64,''
                @ (case blob_data b of None \<Rightarrow> ''undefined'' | Some d \<Rightarrow> d)))"

text \<open>Lines 220 to 228: what the function makes of the response that was kept.\<close>

definition readResponse :: "gen_response \<Rightarrow> thrown + json" where
  "readResponse response =
     (case candidates response of
        None \<Rightarrow> Inl (Error ''No image data returned from Gemini'')
      | Some [] \<Rightarrow> Inl (Error ''No image data returned from Gemini'')
      | Some (c # _) \<Rightarrow>
          (case candidate_content c of
             None \<Rightarrow> Inl (TypeError ''Cannot read properties of undefined (reading parts)'')
           | Some ct \<Rightarrow>
               (case parts ct of
                  None \<Rightarrow> Inl (TypeError ''undefined is not iterable'')
                | Some ps \<Rightarrow>
                    (case firstInlineData ps of
                       None \<Rightarrow> Inl (Error ''No image data returned from Gemini'')
                     | Some uri \<Rightarrow> Inr (JStr uri)))))"

text \<open>
  Lines 204 to 228: the first attempt, the retry, and the reading of the response. The
  first argument answers a request (\<^verbatim>\<open>generateContent\<close> of the client), the second builds
  the request of \<^verbatim>\<open>executeGenAI\<close> from the model and the flag.
\<close>

definition runGenAI ::
  "(gen_request \<Rightarrow> thrown + gen_response) \<Rightarrow> (string \<Rightarrow> bool \<Rightarrow> gen_request) \<Rightarrow> string
     \<Rightarrow> client_call list \<times> (thrown + json)" where
  "runGenAI ai mk selected =
     (if str_includes selected ''pro'' then
        (case ai (mk ''gemini-3-pro-image-preview'' True) of
           Inr response \<Rightarrow>
             ([GenerateContent (mk ''gemini-3-pro-image-preview'' True)], readResponse response)
         | Inl err \<Rightarrow>
             (case ai (mk ''gemini-2.5-flash-image'' False) of
                Inl e \<Rightarrow>
                  ([GenerateContent (mk ''gemini-3-pro-image-preview'' True),
                    GenerateContent (mk ''gemini-2.5-flash-image'' False)], Inl e)
              | Inr response \<Rightarrow>
                  ([GenerateContent (mk ''gemini-3-pro-image-preview'' True),
                    GenerateContent (mk ''gemini-2.5-flash-image'' False)], readResponse response)))
      else
        (case ai (mk ''gemini-2.5-flash-image'' False) of
           Inl err \<Rightarrow> ([GenerateContent (mk ''gemini-2.5-flash-image'' False)], Inl err)
         | Inr response \<Rightarrow>
             ([GenerateContent (mk ''gemini-2.5-flash-image'' False)], readResponse response)))"

text \<open>
  Lines 157 to 169, the smart detection: the calls made and the value \<^verbatim>\<open>selectedModel\<close>
  has afterwards.
\<close>

definition smartDetection ::
  "client_env \<Rightarrow> string \<Rightarrow> string option \<Rightarrow> string \<Rightarrow> string \<Rightarrow> client_call list \<times> string" where
  "smartDetection env apiKey cleanBase64 mimeType selected =
     (if selected = ''auto'' then
        (case detectPeopleCount env apiKey cleanBase64 mimeType of
           (calls, personCount) \<Rightarrow>
             (calls, if personCount > 1 then ''gemini-3-pro-image-preview''
                     else ''gemini-2.5-flash-image''))
      else ([], selected))"

text \<open>Line 153 and line 154.\<close>

definition mimeTypeOf :: "string \<Rightarrow> string" where
  "mimeTypeOf base64Source =
     (if startsWith base64Source ''data:image/png'' then ''image/png'' else ''image/jpeg'')"

definition cleanBase64Of :: "string \<Rightarrow> string option" where
  "cleanBase64Of base64Source = second (splitComma base64Source)"

text \<open>
  Lines 149 to 228, entered with the value \<^verbatim>\<open>selectedModel\<close> has after the OpenAI flow:
  the key check, the smart detection, and the generation.
\<close>

definition geminiFlow ::
  "client_env \<Rightarrow> string \<Rightarrow> string \<Rightarrow> AspectRatio \<Rightarrow> string \<Rightarrow> client_call list \<times> (thrown + json)" where
  "geminiFlow env base64Source prompt outputRatio selected =
     (case API_KEY env of
        None \<Rightarrow> ([], Inl (Error ''API Key missing. Please create a .env file with API_KEY=AIzaSy...''))
      | Some apiKey \<Rightarrow>
          if apiKey = []
          then ([], Inl (Error ''API Key missing. Please create a .env file with API_KEY=AIzaSy...''))
          else
            let mimeType = mimeTypeOf base64Source;
                cleanBase64 = cleanBase64Of base64Source;
                detection = smartDetection env apiKey cleanBase64 mimeType selected;
                generation =
                  runGenAI (generateContent env apiKey)
                    (genRequest (apiAspectRatio outputRatio) prompt cleanBase64 mimeType)
                    (snd detection)
            in (fst detection @ fst generation, snd generation))"

text \<open>
  The whole function. The outer \<^verbatim>\<open>catch\<close> logs and rethrows, so a thrown value leaves
  the function as it is.
\<close>

definition generateAIImage ::
  "client_env \<Rightarrow> string \<Rightarrow> string \<Rightarrow> AspectRatio \<Rightarrow> client_call list \<times> (thrown + json)" where
  "generateAIImage env base64Source prompt outputRatio =
     (case readSettings env of
        Inl e \<Rightarrow> ([], Inl e)
      | Inr (selected, gptSize) \<Rightarrow>
          if selected = ''gpt-image-1.5'' then
            (case openaiFlow env base64Source prompt gptSize of
               (calls, Inr v) \<Rightarrow> (calls, Inr v)
             | (calls, Inl err) \<Rightarrow>
                 (case geminiFlow env base64Source prompt outputRatio ''gemini-2.5-flash-image'' of
                    (calls', r) \<Rightarrow> (calls @ calls', r)))
          else geminiFlow env base64Source prompt outputRatio selected)"

section \<open>Concrete runs\<close>

text \<open>A configured video endpoint whose Vertex AI call is answered by \<open>answer\<close>.\<close>

definition example_video_env :: "(thrown + fetch_response) \<Rightarrow> video_env" where
  "example_video_env answer =
     \<lparr>GCP_PROJECT_ID = Some ''booth'',
      GCP_CLIENT_EMAIL = Some ''svc@booth.example'',
      GCP_PRIVATE_KEY = Some ''KEY'',
      getClient = (\<lambda>c. None),
      getAccessToken = (\<lambda>c. Inr (JStr ''tok'')),
      fetchVertex = (\<lambda>r. answer),
      numericPositive = (\<lambda>s. False)\<rparr>"

definition example_video_request :: "string \<Rightarrow> vercel_request" where
  "example_video_request img =
     \<lparr>req_method = ''POST'',
      req_body = JObj [(''image'', JStr img), (''prompt'', JStr ''wave'')]\<rparr>"

text \<open>The service account the handler builds from that environment.\<close>

definition example_credentials :: credentials where
  "example_credentials =
     \<lparr>client_email = ''svc@booth.example'', private_key = ''KEY'', project_id = ''booth''\<rparr>"

section \<open>The three response shapes, as the specification names them\<close>

text \<open>
  The first element of the array \<^verbatim>\<open>predictions\<close> of a response body, and the value found
  at each of the three locations: the element itself when it is a string, its field
  \<^verbatim>\<open>bytesBase64Encoded\<close>, and the field \<^verbatim>\<open>bytesBase64Encoded\<close> of its field \<^verbatim>\<open>video\<close>.
  \<^verbatim>\<open>None\<close> says that nothing is there. These follow the words of the specification, not
  the handler.
\<close>

definition firstPrediction :: "json \<Rightarrow> json option" where
  "firstPrediction d =
     (case d of
        JObj kvs \<Rightarrow> (case map_of kvs ''predictions'' of Some (JArr (x # _)) \<Rightarrow> Some x | _ \<Rightarrow> None)
      | _ \<Rightarrow> None)"

definition atBareString :: "json \<Rightarrow> json option" where
  "atBareString d = (case firstPrediction d of Some (JStr p) \<Rightarrow> Some (JStr p) | _ \<Rightarrow> None)"

definition atField :: "json \<Rightarrow> json option" where
  "atField d =
     (case firstPrediction d of
        Some (JObj kvs) \<Rightarrow> map_of kvs ''bytesBase64Encoded''
      | _ \<Rightarrow> None)"

definition atNestedField :: "json \<Rightarrow> json option" where
  "atNestedField d =
     (case firstPrediction d of
        Some (JObj kvs) \<Rightarrow>
          (case map_of kvs ''video'' of Some (JObj vs) \<Rightarrow> map_of vs ''bytesBase64Encoded'' | _ \<Rightarrow> None)
      | _ \<Rightarrow> None)"

text \<open>
  Nothing is at a location when the field is absent or holds \<^verbatim>\<open>undefined\<close>, \<^verbatim>\<open>null\<close>,
  \<^verbatim>\<open>false\<close>, \<^verbatim>\<open>0\<close> or the empty string.
\<close>

definition noPayloadAt :: "json option \<Rightarrow> bool" where
  "noPayloadAt v =
     (v = None \<or> v = Some JUndefined \<or> v = Some JNull \<or> v = Some (JBool False)
      \<or> v = Some (JNum 0) \<or> v = Some (JStr []))"

text \<open>The request the handler sends in the concrete runs, and an answer with body \<open>d\<close>.\<close>

definition example_vertex_request :: vertex_request where
  "example_vertex_request =
     \<lparr>endpoint = vertexEndpoint ''booth'',
      authorization = ''Bearer tok'',
      vertex_body = vertexPayload (JStr ''wave'') (JStr ''AAAA'') JUndefined\<rparr>"

definition example_answer :: "json \<Rightarrow> thrown + fetch_response" where
  "example_answer d = Inr \<lparr>ok = True, status = 200, json_body = Inr d\<rparr>"

section \<open>Data URIs\<close>

text \<open>
  The portion of a string after its first comma: in a data URI
  \<^verbatim>\<open>data:<mime>;base64,<payload>\<close> this is the payload.
\<close>

definition afterFirstComma :: "string \<Rightarrow> string" where
  "afterFirstComma s = drop 1 (dropWhile (\<lambda>c. c \<noteq> CHR '','') s)"

text \<open>A configured image endpoint whose OpenAI call is answered by \<open>answer\<close>.\<close>

definition example_openai_env :: "(thrown + images_response) \<Rightarrow> openai_env" where
  "example_openai_env answer =
     \<lparr>OPENAI_API_KEY = Some ''sk-test'', imagesEdit = (\<lambda>k r. answer)\<rparr>"

definition example_openai_request :: "string \<Rightarrow> vercel_request" where
  "example_openai_request img =
     \<lparr>req_method = ''POST'',
      req_body = JObj [(''prompt'', JStr ''wave''), (''imageBase64'', JStr img), (''size'', JNum 720)]\<rparr>"

text \<open>The request the image handler sends in the concrete runs.\<close>

definition example_edit_request :: edit_request where
  "example_edit_request =
     \<lparr>edit_model = ''gpt-image-1.5'',
      edit_image = \<lparr>file_bytes = FromBase64 ''AAAA'', file_name = ''image.png''\<rparr>,
      edit_mask = None,
      edit_prompt = JStr ''wave'',
      edit_n = 1,
      edit_size = ''720x720'',
      edit_response_format = ''b64_json''\<rparr>"

text \<open>A browser that decodes every source to an image of the given size and always has a 2d context.\<close>

definition example_browser :: "nat \<times> nat \<Rightarrow> browser" where
  "example_browser dims =
     \<lparr>loadImage = (\<lambda>s. Some dims), canvasContext = True, maskContext = True,
      toDataURL = (\<lambda>c. ''data:image/png;base64,iVBORw0KGgo'')\<rparr>"

section \<open>Reading a run of generateAIImage\<close>

text \<open>
  Of the calls of a run, the image requests are those \<^verbatim>\<open>executeGenAI\<close> sends (they carry
  a \<^verbatim>\<open>config\<close>) and the detector requests are those \<^verbatim>\<open>detectPeopleCount\<close> sends (they
  carry none).
\<close>

definition imageRequests :: "client_call list \<Rightarrow> gen_request list" where
  "imageRequests calls =
     concat (map (\<lambda>c. case c of
                        GenerateContent rq \<Rightarrow> (if gen_config rq = None then [] else [rq])
                      | FetchOpenAI p \<Rightarrow> []) calls)"

definition detectorRequests :: "client_call list \<Rightarrow> gen_request list" where
  "detectorRequests calls =
     concat (map (\<lambda>c. case c of
                        GenerateContent rq \<Rightarrow> (if gen_config rq = None then [rq] else [])
                      | FetchOpenAI p \<Rightarrow> []) calls)"

text \<open>
  The API key and the value \<^verbatim>\<open>selectedModel\<close> has when line 204 is reached, after the
  OpenAI fallback and the smart detection; \<^verbatim>\<open>None\<close> when the run ends before that line.
\<close>

definition resolvedModel :: "client_env \<Rightarrow> string \<Rightarrow> string \<Rightarrow> (string \<times> string) option" where
  "resolvedModel env base64Source prompt =
     (case readSettings env of
        Inl e \<Rightarrow> None
      | Inr (selected, gptSize) \<Rightarrow>
          (case (if selected = ''gpt-image-1.5''
                 then (case snd (openaiFlow env base64Source prompt gptSize) of
                         Inr v \<Rightarrow> None
                       | Inl err \<Rightarrow> Some ''gemini-2.5-flash-image'')
                 else Some selected) of
             None \<Rightarrow> None
           | Some s \<Rightarrow>
               (case API_KEY env of
                  None \<Rightarrow> None
                | Some apiKey \<Rightarrow>
                    if apiKey = [] then None
                    else Some (apiKey,
                      snd (smartDetection env apiKey (cleanBase64Of base64Source)
                             (mimeTypeOf base64Source) s)))))"

text \<open>
  A response with one image, a service that answers by the model asked for, and a
  browser configured with a stored model.
\<close>

definition example_image_response :: "string \<Rightarrow> gen_response" where
  "example_image_response payload =
     \<lparr>response_text = None,
      candidates = Some [\<lparr>candidate_content = Some \<lparr>parts = Some
        [\<lparr>part_text = Some ''Here is the edited image.'', inlineData = None\<rparr>,
         \<lparr>part_text = None,
          inlineData = Some \<lparr>blob_data = Some payload, blob_mimeType = Some ''image/png''\<rparr>\<rparr>]\<rparr>\<rparr>]\<rparr>"


definition example_ai ::
  "(thrown + gen_response) \<Rightarrow> (thrown + gen_response) \<Rightarrow> (thrown + gen_response)
     \<Rightarrow> gen_request \<Rightarrow> thrown + gen_response" where
  "example_ai detector pro flash rq =
     (if gen_model rq = ''gemini-2.5-flash'' then detector
      else if gen_model rq = ''gemini-3-pro-image-preview'' then pro
      else flash)"

definition example_client_env ::
  "string \<Rightarrow> (gen_request \<Rightarrow> thrown + gen_response) \<Rightarrow> client_env" where
  "example_client_env model ai =
     \<lparr>pb_settings = Some (Inr \<lparr>selectedModel = model, gptModelSize = Some Size_720\<rparr>),
      API_KEY = Some ''AIzaSyTest'',
      the_browser = example_browser (1000, 333),
      fetchOpenAI = (\<lambda>p. Inr \<lparr>ok = False, status = 500,
                                json_body = Inr (JObj [(''error'', JStr ''upstream'')])\<rparr>),
      generateContent = (\<lambda>k. ai)\<rparr>"

text \<open>
  The base64 payload a Gemini response carries, as the specification names it: the data
  of the first inline part of the first candidate.
\<close>

definition inlinePayload :: "gen_response \<Rightarrow> string option" where
  "inlinePayload response =
     (case candidates response of
        Some (c # _) \<Rightarrow>
          (case candidate_content c of
             Some ct \<Rightarrow>
               (case parts ct of
                  Some ps \<Rightarrow>
                    (case find (\<lambda>q. inlineData q \<noteq> None) ps of
                       Some q \<Rightarrow> (case inlineData q of Some b \<Rightarrow> blob_data b | None \<Rightarrow> None)
                     | None \<Rightarrow> None)
                | None \<Rightarrow> None)
           | None \<Rightarrow> None)
      | _ \<Rightarrow> None)"

section \<open>Properties of api/generate-video.ts\<close>

lemma getProp_total: "getProp b k = Inr v \<Longrightarrow> \<exists>v'. getProp b k' = Inr v'"
  by (cases b) auto

lemma showNat_720: "showNat 720 = ''720''"
  by (simp add: showNat.simps)

lemma splitComma_no_comma: "CHR '','' \<notin> set s \<Longrightarrow> splitComma s = [s]"
  by (induction s) auto

lemma splitComma_append:
  "CHR '','' \<notin> set a \<Longrightarrow> splitComma (a @ CHR '','' # b) = a # splitComma b"
  by (induction a) auto

lemma splitComma_hd: "\<exists>ps. splitComma s = takeWhile (\<lambda>c. c \<noteq> CHR '','') s # ps"
  by (induction s) (auto split: list.splits)

lemma comma_decompose:
  "CHR '','' \<in> set s \<Longrightarrow>
     s = takeWhile (\<lambda>c. c \<noteq> CHR '','') s @ CHR '','' # afterFirstComma s"
  unfolding afterFirstComma_def
  by (induction s) auto

lemma second_splitComma:
  assumes "CHR '','' \<in> set s"
  shows "second (splitComma s) = Some (takeWhile (\<lambda>c. c \<noteq> CHR '','') (afterFirstComma s))"
proof -
  let ?a = "takeWhile (\<lambda>c. c \<noteq> CHR '','') s"
  have a: "CHR '','' \<notin> set ?a"
    by (metis (mono_tags, lifting) set_takeWhileD)
  obtain ps where ps: "splitComma (afterFirstComma s) =
      takeWhile (\<lambda>c. c \<noteq> CHR '','') (afterFirstComma s) # ps"
    using splitComma_hd by blast
  have "splitComma s = ?a # splitComma (afterFirstComma s)"
    using splitComma_append [OF a, of "afterFirstComma s"] comma_decompose [OF assms] by simp
  then show ?thesis using ps by simp
qed

lemma base64Part_comma:
  "CHR '','' \<in> set s \<Longrightarrow>
     base64Part nm (JStr s) = Inr (JStr (takeWhile (\<lambda>c. c \<noteq> CHR '','') (afterFirstComma s)))"
  by (simp add: second_splitComma)

lemma base64Part_bare: "CHR '','' \<notin> set p \<Longrightarrow> base64Part nm (JStr p) = Inr (JStr p)"
  by simp

lemma base64Part_prefixed:
  assumes "CHR '','' \<notin> set p" and "CHR '','' \<notin> set mime"
  shows "base64Part nm (JStr (''data:'' @ mime @ '';base64,'' @ p)) = Inr (JStr p)"
proof -
  have split: "''data:'' @ mime @ '';base64,'' @ p = (''data:'' @ mime @ '';base64'') @ CHR '','' # p"
    by simp
  have pre: "CHR '','' \<notin> set (''data:'' @ mime @ '';base64'')"
    using assms(2) by simp
  have "splitComma (''data:'' @ mime @ '';base64,'' @ p) = (''data:'' @ mime @ '';base64'') # [p]"
    unfolding split using splitComma_append [OF pre] splitComma_no_comma [OF assms(1)] by simp
  moreover have "CHR '','' \<in> set (''data:'' @ mime @ '';base64,'' @ p)"
    by simp
  ultimately show ?thesis
    by (simp del: append.simps splitComma.simps)
qed

text \<open>
  C6. A POST request that carries a truthy image and a truthy prompt, in an environment
  where one of \<^verbatim>\<open>GCP_PROJECT_ID\<close>, \<^verbatim>\<open>GCP_CLIENT_EMAIL\<close>, \<^verbatim>\<open>GCP_PRIVATE_KEY\<close> is
  unset, is answered with status 500 and the message that names the missing GCP
  credentials, and the handler makes no outbound call: neither the authentication
  calls nor the Vertex AI request.
\<close>

theorem C6_missing_credentials:
  assumes "req_method req = ''POST''"
    and "getProp (req_body req) ''image'' = Inr img" and "truthy img"
    and "getProp (req_body req) ''prompt'' = Inr prompt" and "truthy prompt"
    and "GCP_PROJECT_ID env = None \<or> GCP_CLIENT_EMAIL env = None \<or> GCP_PRIVATE_KEY env = None"
  shows "generate_video_handler env req =
     ([], \<lparr>res_headers = video_cors, res_status = 500,
           res_json = Some (JObj [(''error'', JStr
             ''Server configuration error: Missing GCP Credentials. Please set GCP_PROJECT_ID, GCP_CLIENT_EMAIL, and GCP_PRIVATE_KEY in Vercel.'')])\<rparr>)"
proof -
  obtain ar where ar: "getProp (req_body req) ''aspectRatio'' = Inr ar"
    using getProp_total [OF assms(2)] by blast
  have miss: "gcpCredentials env = None"
    using assms(6) unfolding gcpCredentials_def by (auto simp: Let_def split: option.splits)
  have "videoTry env (req_body req) = ([], Inr (500, JObj [(''error'', JStr
             ''Server configuration error: Missing GCP Credentials. Please set GCP_PROJECT_ID, GCP_CLIENT_EMAIL, and GCP_PRIVATE_KEY in Vercel.'')]))"
    unfolding videoTry_def using assms(2-5) ar miss by simp
  then show ?thesis
    unfolding generate_video_handler_def using assms(1) by simp
qed

theorem C6_missing_credentials_witness:
  "GCP_PRIVATE_KEY ((example_video_env (Inl (Error ''offline'')))\<lparr>GCP_PRIVATE_KEY := None\<rparr>) = None
   \<and> generate_video_handler ((example_video_env (Inl (Error ''offline'')))\<lparr>GCP_PRIVATE_KEY := None\<rparr>)
        (example_video_request ''AAAA'') =
     ([], \<lparr>res_headers = video_cors, res_status = 500,
           res_json = Some (JObj [(''error'', JStr
             ''Server configuration error: Missing GCP Credentials. Please set GCP_PROJECT_ID, GCP_CLIENT_EMAIL, and GCP_PRIVATE_KEY in Vercel.'')])\<rparr>)"
  using C6_missing_credentials [of "example_video_request ''AAAA''" "JStr ''AAAA''" "JStr ''wave''"
      "(example_video_env (Inl (Error ''offline'')))\<lparr>GCP_PRIVATE_KEY := None\<rparr>"]
  by (simp add: example_video_env_def example_video_request_def)

lemma extract_bare:
  assumes "atBareString d = Some (JStr p)"
  shows "extractVideo np d = Inr (JStr p)"
  using assms
  by (auto simp: atBareString_def firstPrediction_def extractVideo_def
      split: json.splits option.splits list.splits)

lemma extract_field:
  assumes "atField d = Some (JStr p)" and "p \<noteq> []"
  shows "extractVideo np d = Inr (JStr p)"
  using assms
  by (auto simp: atField_def firstPrediction_def extractVideo_def
      split: json.splits option.splits list.splits)

lemma extract_nested:
  assumes "atNestedField d = Some (JStr p)" and "noPayloadAt (atField d)" and "p \<noteq> []"
  shows "extractVideo np d = Inr (JStr p)"
proof -
  obtain kvs where d: "d = JObj kvs"
    using assms(1) unfolding atNestedField_def firstPrediction_def by (auto split: json.splits)
  obtain x xs where pr: "map_of kvs ''predictions'' = Some (JArr (x # xs))"
    using assms(1) unfolding atNestedField_def firstPrediction_def d
    by (auto split: json.splits option.splits list.splits)
  have fp: "firstPrediction d = Some x" unfolding firstPrediction_def d using pr by simp
  obtain fs where x: "x = JObj fs"
    using assms(1) unfolding atNestedField_def fp by (auto split: json.splits)
  obtain vs where v: "map_of fs ''video'' = Some (JObj vs)"
    "map_of vs ''bytesBase64Encoded'' = Some (JStr p)"
    using assms(1) unfolding atNestedField_def fp x by (auto split: json.splits option.splits)
  have direct: "\<not> truthy (case map_of fs ''bytesBase64Encoded'' of None \<Rightarrow> JUndefined | Some v \<Rightarrow> v)"
    using assms(2) unfolding atField_def fp x noPayloadAt_def by auto
  show ?thesis
    using pr v direct assms(3) by (simp add: extractVideo_def d x optProp_def)
qed

lemma unescapeNewlines_empty [simp]: "(unescapeNewlines k = []) = (k = [])"
  by (cases k rule: unescapeNewlines.cases) simp_all

lemma vertexResult_payload:
  assumes "ok r" and "json_body r = Inr d" and "p \<noteq> []"
    and "atBareString d = Some (JStr p) \<or> atField d = Some (JStr p)
         \<or> (atNestedField d = Some (JStr p) \<and> noPayloadAt (atField d))"
  shows "extractVideo np d = Inr (JStr p)
     \<and> vertexResult np r = Inr (200, JObj [(''video'', JStr (''data:video/mp4;base64,'' @ p))])"
proof -
  have ex: "extractVideo np d = Inr (JStr p)"
    using assms(3,4) extract_bare extract_field extract_nested by blast
  then show ?thesis unfolding vertexResult_def using assms(1,2,3) by simp
qed

lemma videoTry_run:
  assumes img: "getProp body ''image'' = Inr (JStr s)" and s: "s \<noteq> []"
    and prompt: "getProp body ''prompt'' = Inr prompt" "truthy prompt"
    and ar: "getProp body ''aspectRatio'' = Inr ar"
    and env: "GCP_PROJECT_ID env = Some pid" "pid \<noteq> []"
       "GCP_CLIENT_EMAIL env = Some mail" "mail \<noteq> []"
       "GCP_PRIVATE_KEY env = Some k" "k \<noteq> []"
    and creds: "creds = \<lparr>client_email = mail, private_key = unescapeNewlines k, project_id = pid\<rparr>"
    and auth: "getClient env creds = None" "getAccessToken env creds = Inr token"
    and rq: "rq = \<lparr>endpoint = vertexEndpoint pid, authorization = ''Bearer '' @ toStringJS token,
                 vertex_body = vertexPayload prompt
                   (JStr (if CHR '','' \<in> set s
                          then takeWhile (\<lambda>c. c \<noteq> CHR '','') (afterFirstComma s) else s)) ar\<rparr>"
    and ans: "fetchVertex env rq = Inr r"
  shows "videoTry env body =
     ([GetClient creds, GetAccessToken creds, FetchVertex rq], vertexResult (numericPositive env) r)"
proof -
  have gc: "gcpCredentials env = Some creds"
    unfolding gcpCredentials_def creds using env by (simp add: Let_def)
  have bp: "base64Part ''image'' (JStr s) =
      Inr (JStr (if CHR '','' \<in> set s
                 then takeWhile (\<lambda>c. c \<noteq> CHR '','') (afterFirstComma s) else s))"
    using base64Part_comma [of s "''image''"] base64Part_bare [of s "''image''"] by simp
  have pid: "project_id creds = pid" unfolding creds by simp
  show ?thesis
    unfolding videoTry_def
    using img s prompt ar gc auth ans [unfolded rq]
    by (simp only: sum.case option.case truthy.simps bp pid rq Let_def simp_thms if_False
        prod.case) 
qed

lemma video_handler_run:
  assumes post: "req_method req = ''POST''"
    and img: "getProp (req_body req) ''image'' = Inr (JStr s)" and s: "s \<noteq> []"
    and prompt: "getProp (req_body req) ''prompt'' = Inr prompt" "truthy prompt"
    and ar: "getProp (req_body req) ''aspectRatio'' = Inr ar"
    and env: "GCP_PROJECT_ID env = Some pid" "pid \<noteq> []"
       "GCP_CLIENT_EMAIL env = Some mail" "mail \<noteq> []"
       "GCP_PRIVATE_KEY env = Some k" "k \<noteq> []"
    and creds: "creds = \<lparr>client_email = mail, private_key = unescapeNewlines k, project_id = pid\<rparr>"
    and auth: "getClient env creds = None" "getAccessToken env creds = Inr token"
    and rq: "rq = \<lparr>endpoint = vertexEndpoint pid, authorization = ''Bearer '' @ toStringJS token,
                 vertex_body = vertexPayload prompt
                   (JStr (if CHR '','' \<in> set s
                          then takeWhile (\<lambda>c. c \<noteq> CHR '','') (afterFirstComma s) else s)) ar\<rparr>"
    and ans: "fetchVertex env rq = Inr r"
    and res: "vertexResult (numericPositive env) r = Inr (code, reply)"
  shows "generate_video_handler env req =
     ([GetClient creds, GetAccessToken creds, FetchVertex rq],
      \<lparr>res_headers = video_cors, res_status = code, res_json = Some reply\<rparr>)"
proof -
  have "videoTry env (req_body req) =
     ([GetClient creds, GetAccessToken creds, FetchVertex rq], Inr (code, reply))"
    using videoTry_run [OF img s prompt ar env creds auth rq ans] res by simp
  then show ?thesis
    unfolding generate_video_handler_def using post by simp
qed

text \<open>
  C3. A POST request with a non-empty string image and a truthy prompt, in an environment
  with the three credentials set and an authentication that succeeds, makes the handler
  call Vertex AI once, with the request built from the body. When that call is answered
  with a success response whose payload \<open>p\<close> (a non-empty string) sits at one of the three
  locations: as a bare string at \<^verbatim>\<open>predictions[0]\<close>, at
  \<^verbatim>\<open>predictions[0].bytesBase64Encoded\<close>, or at \<^verbatim>\<open>predictions[0].video.bytesBase64Encoded\<close>
  with nothing at the top-level field (it is absent, or holds \<^verbatim>\<open>null\<close>, \<^verbatim>\<open>undefined\<close>,
  \<^verbatim>\<open>false\<close>, \<^verbatim>\<open>0\<close> or the empty string), the handler extracts \<open>p\<close> and answers 200 with
  \<^verbatim>\<open>data:video/mp4;base64,\<close> followed by \<open>p\<close>. The calls and the response depend on \<open>p\<close>
  only, not on the shape that carried it.
\<close>

theorem C3_three_shapes:
  assumes "req_method req = ''POST''"
    and "getProp (req_body req) ''image'' = Inr (JStr s)" and "s \<noteq> []"
    and "getProp (req_body req) ''prompt'' = Inr prompt" and "truthy prompt"
    and "getProp (req_body req) ''aspectRatio'' = Inr ar"
    and "GCP_PROJECT_ID env = Some pid" and "pid \<noteq> []"
    and "GCP_CLIENT_EMAIL env = Some mail" and "mail \<noteq> []"
    and "GCP_PRIVATE_KEY env = Some k" and "k \<noteq> []"
    and "creds = \<lparr>client_email = mail, private_key = unescapeNewlines k, project_id = pid\<rparr>"
    and "getClient env creds = None" and "getAccessToken env creds = Inr token"
    and "rq = \<lparr>endpoint = vertexEndpoint pid, authorization = ''Bearer '' @ toStringJS token,
                 vertex_body = vertexPayload prompt
                   (JStr (if CHR '','' \<in> set s
                          then takeWhile (\<lambda>c. c \<noteq> CHR '','') (afterFirstComma s) else s)) ar\<rparr>"
    and "fetchVertex env rq = Inr r" and "ok r" and "json_body r = Inr d"
    and "p \<noteq> []"
    and "atBareString d = Some (JStr p) \<or> atField d = Some (JStr p)
         \<or> (atNestedField d = Some (JStr p) \<and> noPayloadAt (atField d))"
  shows "extractVideo (numericPositive env) d = Inr (JStr p)
     \<and> generate_video_handler env req =
         ([GetClient creds, GetAccessToken creds, FetchVertex rq],
          \<lparr>res_headers = video_cors, res_status = 200,
           res_json = Some (JObj [(''video'', JStr (''data:video/mp4;base64,'' @ p))])\<rparr>)"
proof -
  note vr = vertexResult_payload [OF assms(18,19,20,21), of "numericPositive env"]
  show ?thesis
    using vr video_handler_run [OF assms(1-17)] by blast
qed

lemma example_video_run:
  "req_method (example_video_request s) = ''POST''"
  "getProp (req_body (example_video_request s)) ''image'' = Inr (JStr s)"
  "getProp (req_body (example_video_request s)) ''prompt'' = Inr (JStr ''wave'')"
  "getProp (req_body (example_video_request s)) ''aspectRatio'' = Inr JUndefined"
  "GCP_PROJECT_ID (example_video_env a) = Some ''booth''"
  "GCP_CLIENT_EMAIL (example_video_env a) = Some ''svc@booth.example''"
  "GCP_PRIVATE_KEY (example_video_env a) = Some ''KEY''"
  "getClient (example_video_env a) c = None"
  "getAccessToken (example_video_env a) c = Inr (JStr ''tok'')"
  "fetchVertex (example_video_env a) q = a"
  by (simp_all add: example_video_request_def example_video_env_def)

theorem C3_three_shapes_witness:
  "generate_video_handler
         (example_video_env (example_answer (JObj [(''predictions'', JArr [JStr ''QUJD''])])))
         (example_video_request ''data:image/png;base64,AAAA'') =
     ([GetClient example_credentials, GetAccessToken example_credentials,
       FetchVertex example_vertex_request],
      \<lparr>res_headers = video_cors, res_status = 200,
       res_json = Some (JObj [(''video'', JStr ''data:video/mp4;base64,QUJD'')])\<rparr>)
   \<and> generate_video_handler
         (example_video_env (example_answer
            (JObj [(''predictions'', JArr [JObj [(''bytesBase64Encoded'', JStr ''QUJD'')]])])))
         (example_video_request ''data:image/png;base64,AAAA'') =
     ([GetClient example_credentials, GetAccessToken example_credentials,
       FetchVertex example_vertex_request],
      \<lparr>res_headers = video_cors, res_status = 200,
       res_json = Some (JObj [(''video'', JStr ''data:video/mp4;base64,QUJD'')])\<rparr>)
   \<and> generate_video_handler
         (example_video_env (example_answer
            (JObj [(''predictions'',
               JArr [JObj [(''video'', JObj [(''bytesBase64Encoded'', JStr ''QUJD'')])]])])))
         (example_video_request ''data:image/png;base64,AAAA'') =
     ([GetClient example_credentials, GetAccessToken example_credentials,
       FetchVertex example_vertex_request],
      \<lparr>res_headers = video_cors, res_status = 200,
       res_json = Some (JObj [(''video'', JStr ''data:video/mp4;base64,QUJD'')])\<rparr>)
   \<and> generate_video_handler
         (example_video_env (example_answer
            (JObj [(''predictions'',
               JArr [JObj [(''bytesBase64Encoded'', JNull),
                           (''video'', JObj [(''bytesBase64Encoded'', JStr ''QUJD'')])]])])))
         (example_video_request ''data:image/png;base64,AAAA'') =
     ([GetClient example_credentials, GetAccessToken example_credentials,
       FetchVertex example_vertex_request],
      \<lparr>res_headers = video_cors, res_status = 200,
       res_json = Some (JObj [(''video'', JStr ''data:video/mp4;base64,QUJD'')])\<rparr>)"
  using
    C3_three_shapes [of "example_video_request ''data:image/png;base64,AAAA''"
      "''data:image/png;base64,AAAA''" "JStr ''wave''" JUndefined
      "example_video_env (example_answer (JObj [(''predictions'', JArr [JStr ''QUJD''])]))"
      "''booth''" "''svc@booth.example''" "''KEY''" example_credentials "JStr ''tok''"
      example_vertex_request
      "\<lparr>ok = True, status = 200, json_body = Inr (JObj [(''predictions'', JArr [JStr ''QUJD''])])\<rparr>"
      "JObj [(''predictions'', JArr [JStr ''QUJD''])]" "''QUJD''"]
    C3_three_shapes [of "example_video_request ''data:image/png;base64,AAAA''"
      "''data:image/png;base64,AAAA''" "JStr ''wave''" JUndefined
      "example_video_env (example_answer
         (JObj [(''predictions'', JArr [JObj [(''bytesBase64Encoded'', JStr ''QUJD'')]])]))"
      "''booth''" "''svc@booth.example''" "''KEY''" example_credentials "JStr ''tok''"
      example_vertex_request
      "\<lparr>ok = True, status = 200, json_body =
         Inr (JObj [(''predictions'', JArr [JObj [(''bytesBase64Encoded'', JStr ''QUJD'')]])])\<rparr>"
      "JObj [(''predictions'', JArr [JObj [(''bytesBase64Encoded'', JStr ''QUJD'')]])]" "''QUJD''"]
    C3_three_shapes [of "example_video_request ''data:image/png;base64,AAAA''"
      "''data:image/png;base64,AAAA''" "JStr ''wave''" JUndefined
      "example_video_env (example_answer
         (JObj [(''predictions'',
            JArr [JObj [(''video'', JObj [(''bytesBase64Encoded'', JStr ''QUJD'')])]])]))"
      "''booth''" "''svc@booth.example''" "''KEY''" example_credentials "JStr ''tok''"
      example_vertex_request
      "\<lparr>ok = True, status = 200, json_body =
         Inr (JObj [(''predictions'',
            JArr [JObj [(''video'', JObj [(''bytesBase64Encoded'', JStr ''QUJD'')])]])])\<rparr>"
      "JObj [(''predictions'',
            JArr [JObj [(''video'', JObj [(''bytesBase64Encoded'', JStr ''QUJD'')])]])]" "''QUJD''"]
    C3_three_shapes [of "example_video_request ''data:image/png;base64,AAAA''"
      "''data:image/png;base64,AAAA''" "JStr ''wave''" JUndefined
      "example_video_env (example_answer
         (JObj [(''predictions'',
            JArr [JObj [(''bytesBase64Encoded'', JNull),
                        (''video'', JObj [(''bytesBase64Encoded'', JStr ''QUJD'')])]])]))"
      "''booth''" "''svc@booth.example''" "''KEY''" example_credentials "JStr ''tok''"
      example_vertex_request
      "\<lparr>ok = True, status = 200, json_body =
         Inr (JObj [(''predictions'',
            JArr [JObj [(''bytesBase64Encoded'', JNull),
                        (''video'', JObj [(''bytesBase64Encoded'', JStr ''QUJD'')])]])])\<rparr>"
      "JObj [(''predictions'',
            JArr [JObj [(''bytesBase64Encoded'', JNull),
                        (''video'', JObj [(''bytesBase64Encoded'', JStr ''QUJD'')])]])]" "''QUJD''"]
  by (simp add: example_video_run afterFirstComma_def example_credentials_def
        example_vertex_request_def example_answer_def
        atBareString_def atField_def atNestedField_def firstPrediction_def noPayloadAt_def)

section \<open>The data URI prefix in both handlers\<close>

lemma videoTry_prefix:
  assumes p: "p \<noteq> []" "CHR '','' \<notin> set p" "CHR '','' \<notin> set mime"
    and bare: "map_of kvs1 ''image'' = Some (JStr p)"
    and pref: "map_of kvs2 ''image'' = Some (JStr (''data:'' @ mime @ '';base64,'' @ p))"
    and rest: "\<forall>k. k \<noteq> ''image'' \<longrightarrow> map_of kvs1 k = map_of kvs2 k"
  shows "videoTry env (JObj kvs1) = videoTry env (JObj kvs2)"
proof -
  have r1: "map_of kvs1 ''prompt'' = map_of kvs2 ''prompt''"
    and r2: "map_of kvs1 ''aspectRatio'' = map_of kvs2 ''aspectRatio''"
    using rest by simp_all
  have b1: "base64Part ''image'' (JStr p) = Inr (JStr p)"
    using base64Part_bare [OF p(2)] .
  have b2: "base64Part ''image'' (JStr (''data:'' @ mime @ '';base64,'' @ p)) = Inr (JStr p)"
    using base64Part_prefixed [OF p(2,3)] .
  have t2: "truthy (JStr (''data:'' @ mime @ '';base64,'' @ p))" by simp
  have t1: "truthy (JStr p)" using p(1) by simp
  show ?thesis
    unfolding videoTry_def getProp.simps bare pref r1 r2 option.case sum.case b1 b2
    using t1 t2 by (simp only: if_False if_True simp_thms b1 b2 sum.case)
qed


lemma editRequest_prefix:
  assumes p: "p \<noteq> []" "CHR '','' \<notin> set p" "CHR '','' \<notin> set mime"
    and bare: "map_of kvs1 ''imageBase64'' = Some (JStr p)"
    and pref: "map_of kvs2 ''imageBase64'' = Some (JStr (''data:'' @ mime @ '';base64,'' @ p))"
    and rest: "\<forall>k. k \<noteq> ''imageBase64'' \<longrightarrow> map_of kvs1 k = map_of kvs2 k"
  shows "editRequest (JObj kvs1) = editRequest (JObj kvs2)"
proof -
  have r1: "map_of kvs1 ''prompt'' = map_of kvs2 ''prompt''"
    and r2: "map_of kvs1 ''size'' = map_of kvs2 ''size''"
    and r3: "map_of kvs1 ''maskBase64'' = map_of kvs2 ''maskBase64''"
    using rest by simp_all
  have b1: "base64Part ''imageBase64'' (JStr p) = Inr (JStr p)"
    using base64Part_bare [OF p(2)] .
  have b2: "base64Part ''imageBase64'' (JStr (''data:'' @ mime @ '';base64,'' @ p)) = Inr (JStr p)"
    using base64Part_prefixed [OF p(2,3)] .
  have t2: "truthy (JStr (''data:'' @ mime @ '';base64,'' @ p))" by simp
  have t1: "truthy (JStr p)" using p(1) by simp
  show ?thesis
    unfolding editRequest_def getProp.simps bare pref r1 r2 r3 option.case sum.case b1 b2
    using t1 t2 by (simp only: if_False if_True simp_thms b1 b2 sum.case)
qed

lemma videoTry_calls:
  assumes img: "getProp body ''image'' = Inr img" "truthy img"
      "base64Part ''image'' img = Inr forwarded"
    and prompt: "getProp body ''prompt'' = Inr prompt" "truthy prompt"
    and ar: "getProp body ''aspectRatio'' = Inr ar"
    and env: "GCP_PROJECT_ID env = Some pid" "pid \<noteq> []"
       "GCP_CLIENT_EMAIL env = Some mail" "mail \<noteq> []"
       "GCP_PRIVATE_KEY env = Some k" "k \<noteq> []"
    and creds: "creds = \<lparr>client_email = mail, private_key = unescapeNewlines k, project_id = pid\<rparr>"
    and auth: "getClient env creds = None" "getAccessToken env creds = Inr token"
    and rq: "rq = \<lparr>endpoint = vertexEndpoint pid, authorization = ''Bearer '' @ toStringJS token,
                 vertex_body = vertexPayload prompt forwarded ar\<rparr>"
  shows "fst (videoTry env body) = [GetClient creds, GetAccessToken creds, FetchVertex rq]"
proof -
  have gc: "gcpCredentials env = Some creds"
    unfolding gcpCredentials_def creds using env by (simp add: Let_def)
  have pid: "project_id creds = pid" unfolding creds by simp
  show ?thesis
  proof (cases "fetchVertex env rq")
    case (Inl e)
    show ?thesis
      unfolding videoTry_def
      using img prompt ar gc auth Inl [unfolded rq]
      by (simp only: sum.case option.case pid rq Let_def simp_thms if_False prod.case fst_conv)
  next
    case (Inr response)
    show ?thesis
      unfolding videoTry_def
      using img prompt ar gc auth Inr [unfolded rq]
      by (simp only: sum.case option.case pid rq Let_def simp_thms if_False prod.case fst_conv)
  qed
qed

lemma video_handler_calls:
  assumes "req_method req = ''POST''"
    and "getProp (req_body req) ''image'' = Inr img" "truthy img"
      "base64Part ''image'' img = Inr forwarded"
    and "getProp (req_body req) ''prompt'' = Inr prompt" "truthy prompt"
    and "getProp (req_body req) ''aspectRatio'' = Inr ar"
    and "GCP_PROJECT_ID env = Some pid" "pid \<noteq> []"
       "GCP_CLIENT_EMAIL env = Some mail" "mail \<noteq> []"
       "GCP_PRIVATE_KEY env = Some k" "k \<noteq> []"
    and "creds = \<lparr>client_email = mail, private_key = unescapeNewlines k, project_id = pid\<rparr>"
    and "getClient env creds = None" "getAccessToken env creds = Inr token"
    and "rq = \<lparr>endpoint = vertexEndpoint pid, authorization = ''Bearer '' @ toStringJS token,
                 vertex_body = vertexPayload prompt forwarded ar\<rparr>"
  shows "fst (generate_video_handler env req) =
     [GetClient creds, GetAccessToken creds, FetchVertex rq]"
proof -
  note c = videoTry_calls [OF assms(2-17)]
  obtain calls out where vt: "videoTry env (req_body req) = (calls, out)"
    by (cases "videoTry env (req_body req)")
  show ?thesis
    unfolding generate_video_handler_def using assms(1) c vt
    by (simp split: sum.splits prod.splits)
qed

lemma editRequest_forwarded:
  assumes "getProp body ''prompt'' = Inr prompt" and "truthy prompt"
    and "getProp body ''imageBase64'' = Inr img" and "truthy img"
    and "base64Part ''imageBase64'' img = Inr (JStr forwarded)"
    and "getProp body ''size'' = Inr sz"
    and "getProp body ''maskBase64'' = Inr maskValue" and "\<not> truthy maskValue"
  shows "editRequest body =
     Inr (Inr \<lparr>edit_model = ''gpt-image-1.5'',
               edit_image = \<lparr>file_bytes = FromBase64 forwarded, file_name = ''image.png''\<rparr>,
               edit_mask = None,
               edit_prompt = prompt,
               edit_n = 1,
               edit_size = (if truthy sz then toStringJS sz @ ''x'' @ toStringJS sz
                            else ''1024x1024''),
               edit_response_format = ''b64_json''\<rparr>)"
proof -
  have mu: "maskUpload maskValue = Inr None"
    unfolding maskUpload_def using assms(8) by simp
  show ?thesis
    unfolding editRequest_def
    using assms(1-7) mu
    by (simp only: sum.case simp_thms if_False bufferFrom.simps)
qed

lemma openai_handler_calls:
  assumes "req_method req = ''POST''"
    and "OPENAI_API_KEY env = Some apiKey" and "apiKey \<noteq> []"
    and "getProp (req_body req) ''prompt'' = Inr prompt" and "truthy prompt"
    and "getProp (req_body req) ''imageBase64'' = Inr img" and "truthy img"
    and "base64Part ''imageBase64'' img = Inr (JStr forwarded)"
    and "getProp (req_body req) ''size'' = Inr sz"
    and "getProp (req_body req) ''maskBase64'' = Inr maskValue" and "\<not> truthy maskValue"
  shows "fst (generate_image_openai_handler env req) =
     [ImagesEdit apiKey
        \<lparr>edit_model = ''gpt-image-1.5'',
         edit_image = \<lparr>file_bytes = FromBase64 forwarded, file_name = ''image.png''\<rparr>,
         edit_mask = None,
         edit_prompt = prompt,
         edit_n = 1,
         edit_size = (if truthy sz then toStringJS sz @ ''x'' @ toStringJS sz
                      else ''1024x1024''),
         edit_response_format = ''b64_json''\<rparr>]"
proof -
  note er = editRequest_forwarded [OF assms(4-11)]
  have "fst (openaiTry env (req_body req)) =
     [ImagesEdit apiKey
        \<lparr>edit_model = ''gpt-image-1.5'',
         edit_image = \<lparr>file_bytes = FromBase64 forwarded, file_name = ''image.png''\<rparr>,
         edit_mask = None,
         edit_prompt = prompt,
         edit_n = 1,
         edit_size = (if truthy sz then toStringJS sz @ ''x'' @ toStringJS sz
                      else ''1024x1024''),
         edit_response_format = ''b64_json''\<rparr>]"
    unfolding openaiTry_def using assms(2,3) er by simp
  moreover obtain calls out where "openaiTry env (req_body req) = (calls, out)"
    by (cases "openaiTry env (req_body req)")
  ultimately show ?thesis
    unfolding generate_image_openai_handler_def using assms(1)
    by (simp split: sum.splits prod.splits)
qed

lemma afterFirstComma_prefixed:
  assumes "CHR '','' \<notin> set mime"
  shows "afterFirstComma (''data:'' @ mime @ '';base64,'' @ p) = p"
proof -
  have d: "dropWhile (\<lambda>c. c \<noteq> CHR '','') (mime @ '';base64,'' @ p) = CHR '','' # p"
    using assms by (induction mime) auto
  show ?thesis unfolding afterFirstComma_def using d by simp
qed

text \<open>
  C10, as amended. Both handlers apply \<^verbatim>\<open>v.includes(',') ? v.split(',')[1] : v\<close> to the
  image field. A bare base64 string \<open>p\<close> is forwarded as it is, and of a data URI
  \<^verbatim>\<open>data:<mime>;base64,\<close>\<open>p\<close> the portion after the first comma, which is \<open>p\<close>, is
  forwarded. For a non-empty payload, two requests that differ only in that one sends
  the bare payload and the other prefixes it with \<^verbatim>\<open>data:<mime>;base64,\<close> make both
  handlers behave identically: the same outbound calls and the same response. In a
  configured environment both forms of the request make the video handler send \<open>p\<close> as
  \<^verbatim>\<open>bytesBase64Encoded\<close> to Vertex AI, and the image handler upload the buffer decoded
  from \<open>p\<close> to OpenAI.
\<close>

theorem C10_data_uri_prefix:
  "(CHR '','' \<notin> set b \<and> CHR '','' \<notin> set mt \<longrightarrow>
      base64Part nm (JStr b) = Inr (JStr b)
      \<and> base64Part nm (JStr (''data:'' @ mt @ '';base64,'' @ b)) = Inr (JStr b)
      \<and> afterFirstComma (''data:'' @ mt @ '';base64,'' @ b) = b)
   \<and> (p \<noteq> [] \<and> CHR '','' \<notin> set p \<and> CHR '','' \<notin> set mime
        \<and> map_of kvsBare ''image'' = Some (JStr p)
        \<and> map_of kvsUri ''image'' = Some (JStr (''data:'' @ mime @ '';base64,'' @ p))
        \<and> (\<forall>k. k \<noteq> ''image'' \<longrightarrow> map_of kvsBare k = map_of kvsUri k) \<longrightarrow>
      generate_video_handler venv \<lparr>req_method = m, req_body = JObj kvsBare\<rparr> =
      generate_video_handler venv \<lparr>req_method = m, req_body = JObj kvsUri\<rparr>)
   \<and> (q \<noteq> [] \<and> CHR '','' \<notin> set q \<and> CHR '','' \<notin> set mime'
        \<and> map_of jsBare ''imageBase64'' = Some (JStr q)
        \<and> map_of jsUri ''imageBase64'' = Some (JStr (''data:'' @ mime' @ '';base64,'' @ q))
        \<and> (\<forall>k. k \<noteq> ''imageBase64'' \<longrightarrow> map_of jsBare k = map_of jsUri k) \<longrightarrow>
      generate_image_openai_handler oenv \<lparr>req_method = m', req_body = JObj jsBare\<rparr> =
      generate_image_openai_handler oenv \<lparr>req_method = m', req_body = JObj jsUri\<rparr>)
   \<and> (v \<noteq> [] \<and> CHR '','' \<notin> set v \<and> CHR '','' \<notin> set vmime
        \<and> req_method vreq = ''POST''
        \<and> (getProp (req_body vreq) ''image'' = Inr (JStr v)
            \<or> getProp (req_body vreq) ''image'' = Inr (JStr (''data:'' @ vmime @ '';base64,'' @ v)))
        \<and> getProp (req_body vreq) ''prompt'' = Inr vprompt \<and> truthy vprompt
        \<and> getProp (req_body vreq) ''aspectRatio'' = Inr ar
        \<and> GCP_PROJECT_ID env = Some pid \<and> pid \<noteq> []
        \<and> GCP_CLIENT_EMAIL env = Some mail \<and> mail \<noteq> []
        \<and> GCP_PRIVATE_KEY env = Some k \<and> k \<noteq> []
        \<and> creds = \<lparr>client_email = mail, private_key = unescapeNewlines k, project_id = pid\<rparr>
        \<and> getClient env creds = None \<and> getAccessToken env creds = Inr token \<longrightarrow>
      fst (generate_video_handler env vreq) =
        [GetClient creds, GetAccessToken creds,
         FetchVertex \<lparr>endpoint = vertexEndpoint pid,
                      authorization = ''Bearer '' @ toStringJS token,
                      vertex_body = vertexPayload vprompt (JStr v) ar\<rparr>])
   \<and> (u \<noteq> [] \<and> CHR '','' \<notin> set u \<and> CHR '','' \<notin> set umime
        \<and> req_method ureq = ''POST''
        \<and> OPENAI_API_KEY uenv = Some apiKey \<and> apiKey \<noteq> []
        \<and> getProp (req_body ureq) ''prompt'' = Inr uprompt \<and> truthy uprompt
        \<and> (getProp (req_body ureq) ''imageBase64'' = Inr (JStr u)
            \<or> getProp (req_body ureq) ''imageBase64'' =
                 Inr (JStr (''data:'' @ umime @ '';base64,'' @ u)))
        \<and> getProp (req_body ureq) ''size'' = Inr sz
        \<and> getProp (req_body ureq) ''maskBase64'' = Inr maskValue \<and> \<not> truthy maskValue \<longrightarrow>
      fst (generate_image_openai_handler uenv ureq) =
        [ImagesEdit apiKey
           \<lparr>edit_model = ''gpt-image-1.5'',
            edit_image = \<lparr>file_bytes = FromBase64 u, file_name = ''image.png''\<rparr>,
            edit_mask = None,
            edit_prompt = uprompt,
            edit_n = 1,
            edit_size = (if truthy sz then toStringJS sz @ ''x'' @ toStringJS sz
                         else ''1024x1024''),
            edit_response_format = ''b64_json''\<rparr>])"
proof (intro conjI impI)
  assume h: "CHR '','' \<notin> set b \<and> CHR '','' \<notin> set mt"
  show "base64Part nm (JStr b) = Inr (JStr b)"
    using h base64Part_bare by blast
  show "base64Part nm (JStr (''data:'' @ mt @ '';base64,'' @ b)) = Inr (JStr b)"
    using h base64Part_prefixed by blast
  show "afterFirstComma (''data:'' @ mt @ '';base64,'' @ b) = b"
    using h afterFirstComma_prefixed by blast
next
  assume h: "p \<noteq> [] \<and> CHR '','' \<notin> set p \<and> CHR '','' \<notin> set mime
        \<and> map_of kvsBare ''image'' = Some (JStr p)
        \<and> map_of kvsUri ''image'' = Some (JStr (''data:'' @ mime @ '';base64,'' @ p))
        \<and> (\<forall>k. k \<noteq> ''image'' \<longrightarrow> map_of kvsBare k = map_of kvsUri k)"
  then have "videoTry venv (JObj kvsBare) = videoTry venv (JObj kvsUri)"
    using videoTry_prefix [of p mime kvsBare kvsUri venv] by blast
  then show "generate_video_handler venv \<lparr>req_method = m, req_body = JObj kvsBare\<rparr> =
      generate_video_handler venv \<lparr>req_method = m, req_body = JObj kvsUri\<rparr>"
    unfolding generate_video_handler_def by simp
next
  assume h: "q \<noteq> [] \<and> CHR '','' \<notin> set q \<and> CHR '','' \<notin> set mime'
        \<and> map_of jsBare ''imageBase64'' = Some (JStr q)
        \<and> map_of jsUri ''imageBase64'' = Some (JStr (''data:'' @ mime' @ '';base64,'' @ q))
        \<and> (\<forall>k. k \<noteq> ''imageBase64'' \<longrightarrow> map_of jsBare k = map_of jsUri k)"
  then have e: "editRequest (JObj jsBare) = editRequest (JObj jsUri)"
    using editRequest_prefix [of q mime' jsBare jsUri] by blast
  have "openaiTry oenv (JObj jsBare) = openaiTry oenv (JObj jsUri)"
    unfolding openaiTry_def e ..
  then show "generate_image_openai_handler oenv \<lparr>req_method = m', req_body = JObj jsBare\<rparr> =
      generate_image_openai_handler oenv \<lparr>req_method = m', req_body = JObj jsUri\<rparr>"
    unfolding generate_image_openai_handler_def by simp
next
  assume h: "v \<noteq> [] \<and> CHR '','' \<notin> set v \<and> CHR '','' \<notin> set vmime
        \<and> req_method vreq = ''POST''
        \<and> (getProp (req_body vreq) ''image'' = Inr (JStr v)
            \<or> getProp (req_body vreq) ''image'' = Inr (JStr (''data:'' @ vmime @ '';base64,'' @ v)))
        \<and> getProp (req_body vreq) ''prompt'' = Inr vprompt \<and> truthy vprompt
        \<and> getProp (req_body vreq) ''aspectRatio'' = Inr ar
        \<and> GCP_PROJECT_ID env = Some pid \<and> pid \<noteq> []
        \<and> GCP_CLIENT_EMAIL env = Some mail \<and> mail \<noteq> []
        \<and> GCP_PRIVATE_KEY env = Some k \<and> k \<noteq> []
        \<and> creds = \<lparr>client_email = mail, private_key = unescapeNewlines k, project_id = pid\<rparr>
        \<and> getClient env creds = None \<and> getAccessToken env creds = Inr token"
  then obtain img where img: "getProp (req_body vreq) ''image'' = Inr img"
      "img = JStr v \<or> img = JStr (''data:'' @ vmime @ '';base64,'' @ v)"
    by blast
  have t: "truthy img" using img(2) h by auto
  have f: "base64Part ''image'' img = Inr (JStr v)"
    using img(2) h base64Part_bare [of v] base64Part_prefixed [of v vmime] by blast
  show "fst (generate_video_handler env vreq) =
        [GetClient creds, GetAccessToken creds,
         FetchVertex \<lparr>endpoint = vertexEndpoint pid,
                      authorization = ''Bearer '' @ toStringJS token,
                      vertex_body = vertexPayload vprompt (JStr v) ar\<rparr>]"
    by (rule video_handler_calls [where img = img and forwarded = "JStr v" and prompt = vprompt
          and ar = ar and pid = pid and mail = mail and k = k and token = token])
       (use h img(1) t f in blast)+
next
  assume h: "u \<noteq> [] \<and> CHR '','' \<notin> set u \<and> CHR '','' \<notin> set umime
        \<and> req_method ureq = ''POST''
        \<and> OPENAI_API_KEY uenv = Some apiKey \<and> apiKey \<noteq> []
        \<and> getProp (req_body ureq) ''prompt'' = Inr uprompt \<and> truthy uprompt
        \<and> (getProp (req_body ureq) ''imageBase64'' = Inr (JStr u)
            \<or> getProp (req_body ureq) ''imageBase64'' =
                 Inr (JStr (''data:'' @ umime @ '';base64,'' @ u)))
        \<and> getProp (req_body ureq) ''size'' = Inr sz
        \<and> getProp (req_body ureq) ''maskBase64'' = Inr maskValue \<and> \<not> truthy maskValue"
  then obtain img where img: "getProp (req_body ureq) ''imageBase64'' = Inr img"
      "img = JStr u \<or> img = JStr (''data:'' @ umime @ '';base64,'' @ u)"
    by blast
  have t: "truthy img" using img(2) h by auto
  have f: "base64Part ''imageBase64'' img = Inr (JStr u)"
    using img(2) h base64Part_bare [of u] base64Part_prefixed [of u umime] by blast
  show "fst (generate_image_openai_handler uenv ureq) =
        [ImagesEdit apiKey
           \<lparr>edit_model = ''gpt-image-1.5'',
            edit_image = \<lparr>file_bytes = FromBase64 u, file_name = ''image.png''\<rparr>,
            edit_mask = None,
            edit_prompt = uprompt,
            edit_n = 1,
            edit_size = (if truthy sz then toStringJS sz @ ''x'' @ toStringJS sz
                         else ''1024x1024''),
            edit_response_format = ''b64_json''\<rparr>]"
    by (rule openai_handler_calls [where img = img and maskValue = maskValue])
       (use h img(1) t f in blast)+
qed

lemma example_openai_run:
  "req_method (example_openai_request s) = ''POST''"
  "getProp (req_body (example_openai_request s)) ''prompt'' = Inr (JStr ''wave'')"
  "getProp (req_body (example_openai_request s)) ''imageBase64'' = Inr (JStr s)"
  "getProp (req_body (example_openai_request s)) ''size'' = Inr (JNum 720)"
  "getProp (req_body (example_openai_request s)) ''maskBase64'' = Inr JUndefined"
  "OPENAI_API_KEY (example_openai_env a) = Some ''sk-test''"
  "imagesEdit (example_openai_env a) k q = a"
  by (simp_all add: example_openai_request_def example_openai_env_def)

theorem C10_data_uri_prefix_witness:
  "base64Part ''image'' (JStr ''data:image/png;base64,AAAA'') = Inr (JStr ''AAAA'')
   \<and> afterFirstComma ''data:image/png;base64,AAAA'' = ''AAAA''
   \<and> generate_video_handler (example_video_env (Inl (Error ''offline'')))
         (example_video_request ''AAAA'') =
       generate_video_handler (example_video_env (Inl (Error ''offline'')))
         (example_video_request ''data:image/png;base64,AAAA'')
   \<and> generate_image_openai_handler (example_openai_env (Inl (Error ''offline'')))
         (example_openai_request ''AAAA'') =
       generate_image_openai_handler (example_openai_env (Inl (Error ''offline'')))
         (example_openai_request ''data:image/png;base64,AAAA'')
   \<and> fst (generate_video_handler (example_video_env (Inl (Error ''offline'')))
         (example_video_request ''data:image/png;base64,AAAA'')) =
       [GetClient example_credentials, GetAccessToken example_credentials,
        FetchVertex example_vertex_request]
   \<and> fst (generate_image_openai_handler (example_openai_env (Inl (Error ''offline'')))
         (example_openai_request ''data:image/png;base64,AAAA'')) =
       [ImagesEdit ''sk-test'' example_edit_request]"
  using C10_data_uri_prefix [where b = "''AAAA''" and mt = "''image/png''" and nm = "''image''"
      and p = "''AAAA''" and mime = "''image/png''"
      and kvsBare = "[(''image'', JStr ''AAAA''), (''prompt'', JStr ''wave'')]"
      and kvsUri = "[(''image'', JStr ''data:image/png;base64,AAAA''), (''prompt'', JStr ''wave'')]"
      and venv = "example_video_env (Inl (Error ''offline''))" and m = "''POST''"
      and q = "''AAAA''" and mime' = "''image/png''"
      and jsBare = "[(''prompt'', JStr ''wave''), (''imageBase64'', JStr ''AAAA''), (''size'', JNum 720)]"
      and jsUri = "[(''prompt'', JStr ''wave''), (''imageBase64'', JStr ''data:image/png;base64,AAAA''), (''size'', JNum 720)]"
      and oenv = "example_openai_env (Inl (Error ''offline''))" and m' = "''POST''"
      and v = "''AAAA''" and vmime = "''image/png''"
      and vreq = "example_video_request ''data:image/png;base64,AAAA''"
      and vprompt = "JStr ''wave''" and ar = JUndefined
      and env = "example_video_env (Inl (Error ''offline''))"
      and pid = "''booth''" and mail = "''svc@booth.example''" and k = "''KEY''"
      and creds = example_credentials and token = "JStr ''tok''"
      and u = "''AAAA''" and umime = "''image/png''"
      and ureq = "example_openai_request ''data:image/png;base64,AAAA''"
      and uenv = "example_openai_env (Inl (Error ''offline''))"
      and apiKey = "''sk-test''" and uprompt = "JStr ''wave''"
      and sz = "JNum 720" and maskValue = JUndefined]
  by (simp add: example_video_run example_openai_run example_credentials_def
        example_vertex_request_def example_edit_request_def showInt_def showNat_720)
     (simp add: example_video_request_def example_openai_request_def)

text \<open>
  The claim as first stated fails on the empty image. The bare empty string is rejected
  by both handlers with status 400 before any outbound call, while the same image with
  the prefix \<^verbatim>\<open>data:image/png;base64,\<close> passes the check and is forwarded upstream as an
  empty payload: the two requests do not produce the same upstream payload.
\<close>

theorem C10_counterexample:
  "generate_video_handler (example_video_env (Inl (Error ''offline'')))
       (example_video_request []) =
     ([], \<lparr>res_headers = video_cors, res_status = 400,
           res_json = Some (JObj [(''error'', JStr ''Missing image or prompt'')])\<rparr>)
   \<and> fst (generate_video_handler (example_video_env (Inl (Error ''offline'')))
         (example_video_request ''data:image/png;base64,'')) =
       [GetClient example_credentials, GetAccessToken example_credentials,
        FetchVertex \<lparr>endpoint = vertexEndpoint ''booth'', authorization = ''Bearer tok'',
          vertex_body = vertexPayload (JStr ''wave'') (JStr []) JUndefined\<rparr>]
   \<and> generate_image_openai_handler (example_openai_env (Inl (Error ''offline'')))
       (example_openai_request []) =
     ([], \<lparr>res_headers = openai_cors, res_status = 400,
           res_json = Some (JObj [(''error'', JStr ''Missing prompt or image'')])\<rparr>)
   \<and> fst (generate_image_openai_handler (example_openai_env (Inl (Error ''offline'')))
         (example_openai_request ''data:image/png;base64,'')) =
       [ImagesEdit ''sk-test''
          (example_edit_request\<lparr>edit_image :=
             \<lparr>file_bytes = FromBase64 [], file_name = ''image.png''\<rparr>\<rparr>)]"
  by (simp add: generate_video_handler_def videoTry_def gcpCredentials_def
      example_video_env_def example_video_request_def example_credentials_def Let_def
      generate_image_openai_handler_def openaiTry_def editRequest_def maskUpload_def
      example_openai_env_def example_openai_request_def example_edit_request_def
      showInt_def showNat_720)

section \<open>Properties of api/generate-image-openai.ts\<close>

lemma openaiTry_called:
  assumes "ImagesEdit k rq \<in> set (fst (openaiTry env body))"
  shows "snd (openaiTry env body) =
     (case imagesEdit env k rq of Inl e \<Rightarrow> Inl e | Inr response \<Rightarrow> imageReply response)"
  using assms unfolding openaiTry_def
  by (auto split: sum.splits option.splits if_splits)

lemma openai_handler_called:
  assumes "ImagesEdit k rq \<in> set (fst (generate_image_openai_handler env req))"
  shows "snd (generate_image_openai_handler env req) =
     (case (case imagesEdit env k rq of Inl e \<Rightarrow> Inl e | Inr response \<Rightarrow> imageReply response) of
        Inr (code, reply) \<Rightarrow> \<lparr>res_headers = openai_cors, res_status = code, res_json = Some reply\<rparr>
      | Inl error \<Rightarrow>
          \<lparr>res_headers = openai_cors, res_status = 500,
           res_json = Some (JObj [(''error'',
             orElse (message error) (JStr ''OpenAI Generation Failed''))])\<rparr>)"
proof -
  obtain calls out where vt: "openaiTry env (req_body req) = (calls, out)"
    by (cases "openaiTry env (req_body req)")
  have post: "req_method req \<noteq> ''OPTIONS''" "req_method req = ''POST''"
    using assms(1) unfolding generate_image_openai_handler_def by (auto split: if_splits)
  have "fst (generate_image_openai_handler env req) = calls"
    unfolding generate_image_openai_handler_def using post vt by (simp split: sum.splits prod.splits)
  then have "ImagesEdit k rq \<in> set (fst (openaiTry env (req_body req)))"
    using assms(1) vt by simp
  then have "out = (case imagesEdit env k rq of Inl e \<Rightarrow> Inl e | Inr response \<Rightarrow> imageReply response)"
    using openaiTry_called vt by fastforce
  then show ?thesis
    unfolding generate_image_openai_handler_def using post vt by (simp split: sum.splits prod.splits)
qed

lemma getProp_optProp:
  "b \<noteq> JNull \<Longrightarrow> b \<noteq> JUndefined \<Longrightarrow> getProp b k = Inr (optProp b k)"
  by (cases b) (auto simp: optProp_def)

lemma openai_missing_key:
  assumes "req_method req = ''POST''" and "\<not> present (OPENAI_API_KEY env)"
  shows "generate_image_openai_handler env req =
      ([], \<lparr>res_headers = openai_cors, res_status = 500,
            res_json = Some (JObj [(''error'', JStr ''Server config error: OPENAI_API_KEY missing'')])\<rparr>)"
  using assms unfolding generate_image_openai_handler_def openaiTry_def
  by (cases "OPENAI_API_KEY env") simp_all

lemma openai_missing_field:
  assumes "req_method req = ''POST''" and "present (OPENAI_API_KEY env)"
    and "req_body req \<noteq> JNull" and "req_body req \<noteq> JUndefined"
    and "\<not> truthy (optProp (req_body req) ''prompt'')
         \<or> \<not> truthy (optProp (req_body req) ''imageBase64'')"
  shows "generate_image_openai_handler env req =
      ([], \<lparr>res_headers = openai_cors, res_status = 400,
            res_json = Some (JObj [(''error'', JStr ''Missing prompt or image'')])\<rparr>)"
proof -
  have "editRequest (req_body req) =
      Inr (Inl (400, JObj [(''error'', JStr ''Missing prompt or image'')]))"
    unfolding editRequest_def using assms(5)
    by (simp add: getProp_optProp [OF assms(3,4)])
  then have "openaiTry env (req_body req) =
      ([], Inr (400, JObj [(''error'', JStr ''Missing prompt or image'')]))"
    unfolding openaiTry_def using assms(2)
    by (cases "OPENAI_API_KEY env") simp_all
  then show ?thesis
    unfolding generate_image_openai_handler_def using assms(1) by simp
qed

text \<open>
  C7, as amended. For a POST request to the image endpoint: when \<^verbatim>\<open>OPENAI_API_KEY\<close> is
  unset or empty the handler answers 500 with a message, whatever the body holds,
  because the key is checked first; when the key is present and the body is neither
  \<^verbatim>\<open>null\<close> nor \<^verbatim>\<open>undefined\<close>, it answers 400 with a message if \<^verbatim>\<open>prompt\<close> or
  \<^verbatim>\<open>imageBase64\<close> is missing (falsy); and when the call to OpenAI is made and fails,
  it answers 500 with the message of the failure.
\<close>

theorem C7_openai_status_codes:
  "(req_method req = ''POST'' \<and> \<not> present (OPENAI_API_KEY env) \<longrightarrow>
      generate_image_openai_handler env req =
        ([], \<lparr>res_headers = openai_cors, res_status = 500,
              res_json = Some (JObj [(''error'',
                JStr ''Server config error: OPENAI_API_KEY missing'')])\<rparr>))
   \<and> (req_method req = ''POST'' \<and> present (OPENAI_API_KEY env)
        \<and> req_body req \<noteq> JNull \<and> req_body req \<noteq> JUndefined
        \<and> (\<not> truthy (optProp (req_body req) ''prompt'')
             \<or> \<not> truthy (optProp (req_body req) ''imageBase64'')) \<longrightarrow>
      generate_image_openai_handler env req =
        ([], \<lparr>res_headers = openai_cors, res_status = 400,
              res_json = Some (JObj [(''error'', JStr ''Missing prompt or image'')])\<rparr>))
   \<and> (ImagesEdit k rq \<in> set (fst (generate_image_openai_handler env req))
        \<and> imagesEdit env k rq = Inl e \<longrightarrow>
      snd (generate_image_openai_handler env req) =
        \<lparr>res_headers = openai_cors, res_status = 500,
         res_json = Some (JObj [(''error'',
           orElse (message e) (JStr ''OpenAI Generation Failed''))])\<rparr>)"
proof (intro conjI impI)
  assume "req_method req = ''POST'' \<and> \<not> present (OPENAI_API_KEY env)"
  then show "generate_image_openai_handler env req =
        ([], \<lparr>res_headers = openai_cors, res_status = 500,
              res_json = Some (JObj [(''error'',
                JStr ''Server config error: OPENAI_API_KEY missing'')])\<rparr>)"
    using openai_missing_key by blast
next
  assume "req_method req = ''POST'' \<and> present (OPENAI_API_KEY env)
        \<and> req_body req \<noteq> JNull \<and> req_body req \<noteq> JUndefined
        \<and> (\<not> truthy (optProp (req_body req) ''prompt'')
             \<or> \<not> truthy (optProp (req_body req) ''imageBase64''))"
  then show "generate_image_openai_handler env req =
        ([], \<lparr>res_headers = openai_cors, res_status = 400,
              res_json = Some (JObj [(''error'', JStr ''Missing prompt or image'')])\<rparr>)"
    using openai_missing_field by blast
next
  assume "ImagesEdit k rq \<in> set (fst (generate_image_openai_handler env req))
        \<and> imagesEdit env k rq = Inl e"
  then show "snd (generate_image_openai_handler env req) =
        \<lparr>res_headers = openai_cors, res_status = 500,
         res_json = Some (JObj [(''error'',
           orElse (message e) (JStr ''OpenAI Generation Failed''))])\<rparr>"
    using openai_handler_called [of k rq env req] by simp
qed

lemma example_openai_calls:
  "fst (generate_image_openai_handler (example_openai_env a) (example_openai_request ''AAAA''))
     = [ImagesEdit ''sk-test'' example_edit_request]"
  apply (cases a)
  by (simp_all add: generate_image_openai_handler_def openaiTry_def editRequest_def
      example_openai_env_def example_openai_request_def example_edit_request_def maskUpload_def
      showInt_def showNat_720 split: prod.splits sum.splits)

theorem C7_openai_status_codes_witness:
  "generate_image_openai_handler ((example_openai_env (Inl (Error ''offline'')))\<lparr>OPENAI_API_KEY := None\<rparr>)
       (example_openai_request ''AAAA'') =
     ([], \<lparr>res_headers = openai_cors, res_status = 500,
           res_json = Some (JObj [(''error'',
             JStr ''Server config error: OPENAI_API_KEY missing'')])\<rparr>)
   \<and> generate_image_openai_handler (example_openai_env (Inl (Error ''offline'')))
       (example_openai_request '''') =
     ([], \<lparr>res_headers = openai_cors, res_status = 400,
           res_json = Some (JObj [(''error'', JStr ''Missing prompt or image'')])\<rparr>)
   \<and> snd (generate_image_openai_handler (example_openai_env (Inl (Error ''Rate limit reached'')))
       (example_openai_request ''AAAA'')) =
     \<lparr>res_headers = openai_cors, res_status = 500,
      res_json = Some (JObj [(''error'', JStr ''Rate limit reached'')])\<rparr>"
  using
    C7_openai_status_codes [of "example_openai_request ''AAAA''"
      "(example_openai_env (Inl (Error ''offline'')))\<lparr>OPENAI_API_KEY := None\<rparr>"]
    C7_openai_status_codes [of "example_openai_request ''''"
      "example_openai_env (Inl (Error ''offline''))"]
    C7_openai_status_codes [of "example_openai_request ''AAAA''"
      "example_openai_env (Inl (Error ''Rate limit reached''))"
      "''sk-test''" example_edit_request "Error ''Rate limit reached''"]
  by (simp add: example_openai_calls)
     (simp add: example_openai_env_def example_openai_request_def optProp_def orElse_def)

text \<open>
  The claim as first stated asks for 400 whenever the prompt is missing. With the key
  unset, a POST whose body has no prompt is answered 500; so is a POST whose body is
  \<^verbatim>\<open>null\<close>, with the key present.
\<close>

theorem C7_counterexample:
  "optProp (JObj []) ''prompt'' = JUndefined
   \<and> res_status (snd (generate_image_openai_handler
        ((example_openai_env (Inl (Error ''offline'')))\<lparr>OPENAI_API_KEY := None\<rparr>)
        \<lparr>req_method = ''POST'', req_body = JObj []\<rparr>)) = 500
   \<and> res_status (snd (generate_image_openai_handler
        (example_openai_env (Inl (Error ''offline'')))
        \<lparr>req_method = ''POST'', req_body = JNull\<rparr>)) = 500"
  by (simp add: generate_image_openai_handler_def openaiTry_def editRequest_def
      example_openai_env_def optProp_def)

section \<open>Properties of resizeImageForOpenAI\<close>

subsection \<open>Rounding to a double\<close>

lemma roundHalfEven_close: "\<bar>of_int (roundHalfEven m) - m\<bar> \<le> 1 / 2"
proof -
  have f: "of_int \<lfloor>m\<rfloor> \<le> m" "m < of_int \<lfloor>m\<rfloor> + 1" by linarith+
  show ?thesis
    unfolding roundHalfEven_def Let_def using f by (simp split: if_splits)
qed

lemma bitlen_powi:
  assumes "0 < (p::int)"
  shows "(2::rat) powi (bitlen p - 1) \<le> of_int p \<and> (of_int p :: rat) < 2 powi (bitlen p)"
proof -
  have b: "2 ^ nat (bitlen p - 1) \<le> p" "p < 2 ^ nat (bitlen p)"
    using bitlen_bounds [OF assms] by simp_all
  have pos: "1 \<le> bitlen p"
    using assms by (subst compute_bitlen) (simp add: bitlen_nonneg)
  have e1: "(2::rat) powi (bitlen p - 1) = of_int (2 ^ nat (bitlen p - 1))"
    using pos by (simp add: power_int_def)
  have e2: "(2::rat) powi (bitlen p) = of_int (2 ^ nat (bitlen p))"
    using pos by (simp add: power_int_def)
  show ?thesis
    unfolding e1 e2 using b by (simp only: of_int_le_iff of_int_less_iff)
qed

lemma binaryExponent_bounds:
  assumes "0 < x"
  shows "2 powi (binaryExponent x) \<le> x \<and> x < 2 powi (binaryExponent x + 1)"
proof -
  obtain p q where pq: "quotient_of x = (p, q)" by (cases "quotient_of x")
  have q: "0 < q" using quotient_of_denom_pos [OF pq] .
  have x: "x = of_int p / of_int q" using quotient_of_div [OF pq] .
  have p: "0 < p" using assms q unfolding x by (simp add: zero_less_divide_iff)
  let ?k = "bitlen p - bitlen q"
  note bp = bitlen_powi [OF p] and bq = bitlen_powi [OF q]
  have qpos: "(0::rat) < of_int q" using q by simp
  have lo: "2 powi (?k - 1) < x"
  proof -
    have "(2::rat) powi (?k - 1) = 2 powi (bitlen p - 1) / 2 powi (bitlen q)"
      using power_int_diff [of "2::rat" "bitlen p - 1" "bitlen q"] by (simp add: algebra_simps)
    also have "\<dots> \<le> of_int p / 2 powi (bitlen q)"
      using bp by (simp add: divide_right_mono)
    also have "\<dots> < of_int p / of_int q"
      using bq qpos p by (simp add: divide_strict_left_mono)
    finally show ?thesis unfolding x .
  qed
  have hi: "x < 2 powi (?k + 1)"
  proof -
    have "x = of_int p / of_int q" by (fact x)
    also have "\<dots> < 2 powi (bitlen p) / of_int q"
      using bp qpos by (simp add: divide_strict_right_mono)
    also have "\<dots> \<le> 2 powi (bitlen p) / 2 powi (bitlen q - 1)"
    proof (rule divide_left_mono)
      show "(2::rat) powi (bitlen q - 1) \<le> of_int q" using bq by simp
      show "(0::rat) \<le> 2 powi bitlen p" by simp
      show "(0::rat) < of_int q * 2 powi (bitlen q - 1)" using qpos by simp
    qed
    also have "\<dots> = 2 powi (?k + 1)"
      using power_int_diff [of "2::rat" "bitlen p" "bitlen q - 1"] by (simp add: algebra_simps)
    finally show ?thesis .
  qed
  have step: "(2::rat) powi (?k + 1) = 2 powi ?k * 2" "(2::rat) powi ?k = 2 powi (?k - 1) * 2"
    using power_int_add_1 [of "2::rat" ?k] power_int_add_1 [of "2::rat" "?k - 1"] by simp_all
  show ?thesis
  proof (cases "2 powi ?k \<le> x")
    case True
    then have "binaryExponent x = ?k" unfolding binaryExponent_def pq by (simp add: Let_def)
    then show ?thesis using True hi by simp
  next
    case False
    then have "binaryExponent x = ?k - 1" unfolding binaryExponent_def pq by (simp add: Let_def)
    then show ?thesis using False lo by simp
  qed
qed

lemma toDouble_close:
  assumes "0 < x"
  shows "\<bar>toDouble x - x\<bar> \<le> x / 2 ^ 53"
proof -
  let ?e = "binaryExponent x"
  let ?u = "(2::rat) powi (?e - 52)"
  let ?r = "roundHalfEven (x / ?u)"
  have u: "0 < ?u" by (simp add: zero_less_power_int)
  have td: "toDouble x = of_int ?r * ?u"
    using assms unfolding toDouble_def by (simp add: Let_def)
  have "\<bar>of_int ?r - x / ?u\<bar> \<le> 1 / 2" by (fact roundHalfEven_close)
  then have "\<bar>of_int ?r - x / ?u\<bar> * ?u \<le> 1 / 2 * ?u"
    using u by (intro mult_right_mono) simp_all
  moreover have "\<bar>of_int ?r - x / ?u\<bar> * ?u = \<bar>of_int ?r * ?u - x\<bar>"
  proof -
    have "\<bar>of_int ?r - x / ?u\<bar> * ?u = \<bar>(of_int ?r - x / ?u) * ?u\<bar>"
      using u by (simp add: abs_mult)
    also have "(of_int ?r - x / ?u) * ?u = of_int ?r * ?u - x"
      using u by (simp add: field_simps)
    finally show ?thesis .
  qed
  ultimately have a: "\<bar>toDouble x - x\<bar> \<le> ?u / 2" unfolding td by simp
  have "?u = 2 powi ?e / 2 powi 52"
    using power_int_diff [of "2::rat" ?e 52] by simp
  then have "?u / 2 = 2 powi ?e / 2 ^ 53" by simp
  also have "\<dots> \<le> x / 2 ^ 53"
    using binaryExponent_bounds [OF assms] by (simp add: divide_right_mono)
  finally show ?thesis using a by linarith
qed

lemma toDouble_half:
  assumes "0 < x"
  shows "x / 2 \<le> toDouble x"
proof -
  have "\<bar>toDouble x - x\<bar> \<le> x / 2 ^ 53" using toDouble_close [OF assms] .
  moreover have "x / 2 ^ 53 \<le> x / 2" using assms by simp
  ultimately show ?thesis by linarith
qed

lemma toDouble_zero [simp]: "toDouble 0 = 0"
  by (simp add: toDouble_def)

lemma quotient_error:
  fixes r d :: rat
  assumes r: "0 < r" and d: "0 \<le> d"
  shows "\<bar>toDouble (d / toDouble r) - d / r\<bar> \<le> 4 * (d / r) / 2 ^ 53"
proof (cases "d = 0")
  case True
  then show ?thesis by simp
next
  case False
  then have d0: "0 < d" using d by simp
  let ?y = "toDouble r"
  let ?z = "d / ?y"
  have cy: "\<bar>?y - r\<bar> \<le> r / 2 ^ 53" using toDouble_close [OF r] .
  have y2: "r / 2 \<le> ?y" using toDouble_half [OF r] .
  have y0: "0 < ?y" using y2 r by linarith
  have z0: "0 < ?z" using d0 y0 by simp
  have cz: "\<bar>toDouble ?z - ?z\<bar> \<le> ?z / 2 ^ 53" using toDouble_close [OF z0] .
  have zE: "?z - d / r = d * (r - ?y) / (?y * r)"
    using y0 r by (simp add: field_simps)
  have "\<bar>?z - d / r\<bar> = d * \<bar>r - ?y\<bar> / (?y * r)"
    unfolding zE using d0 y0 r by (simp add: abs_mult)
  also have "\<dots> \<le> d * (r / 2 ^ 53) / (?y * r)"
  proof (intro divide_right_mono mult_left_mono)
    show "\<bar>r - ?y\<bar> \<le> r / 2 ^ 53" using cy by (simp add: abs_minus_commute)
    show "0 \<le> d" by (fact d)
    show "0 \<le> ?y * r" using y0 r by simp
  qed
  also have "\<dots> = ?z / 2 ^ 53" using r y0 by simp
  finally have c1: "\<bar>?z - d / r\<bar> \<le> ?z / 2 ^ 53" .
  have z2: "?z \<le> 2 * (d / r)"
  proof -
    have "d / ?y \<le> d / (r / 2)"
    proof (rule divide_left_mono)
      show "r / 2 \<le> ?y" by (fact y2)
      show "0 \<le> d" by (fact d)
      show "0 < ?y * (r / 2)" using y0 r by simp
    qed
    then show ?thesis by (simp add: mult.commute)
  qed
  have "?z / 2 ^ 53 \<le> 2 * (d / r) / 2 ^ 53" using z2 by (intro divide_right_mono) simp_all
  then show ?thesis using c1 cz by linarith
qed

lemma product_error:
  fixes r d :: rat
  assumes r: "0 < r" and d: "0 \<le> d"
  shows "\<bar>toDouble (d * toDouble r) - d * r\<bar> \<le> 4 * (d * r) / 2 ^ 53"
proof (cases "d = 0")
  case True
  then show ?thesis by simp
next
  case False
  then have d0: "0 < d" using d by simp
  let ?y = "toDouble r"
  let ?z = "d * ?y"
  have cy: "\<bar>?y - r\<bar> \<le> r / 2 ^ 53" using toDouble_close [OF r] .
  have y2: "r / 2 \<le> ?y" using toDouble_half [OF r] .
  have y0: "0 < ?y" using y2 r by linarith
  have z0: "0 < ?z" using d0 y0 by simp
  have cz: "\<bar>toDouble ?z - ?z\<bar> \<le> ?z / 2 ^ 53" using toDouble_close [OF z0] .
  have "\<bar>?z - d * r\<bar> = d * \<bar>?y - r\<bar>"
    using d0 by (simp add: abs_mult right_diff_distrib [symmetric])
  also have "\<dots> \<le> d * (r / 2 ^ 53)"
    using cy d by (intro mult_left_mono) simp_all
  finally have c1: "\<bar>?z - d * r\<bar> \<le> d * r / 2 ^ 53" by simp
  have "d * r / 2 ^ 53 \<le> d * r" using d0 r by simp
  then have z2: "?z \<le> 2 * (d * r)" using c1 by linarith
  have "?z / 2 ^ 53 \<le> 2 * (d * r) / 2 ^ 53" using z2 by (intro divide_right_mono) simp_all
  then show ?thesis using c1 cz by linarith
qed

lemma Math_round_floor: "of_int (Math_round q) \<le> q + 1 / 2 \<and> q + 1 / 2 < of_int (Math_round q) + 1"
  unfolding Math_round_def by linarith

lemma round_of_quotient:
  fixes a c :: int and q \<delta> :: rat
  assumes c: "0 < c"
    and close: "\<bar>q - of_int a / of_int c\<bar> \<le> \<delta>"
    and small: "2 * of_int c * \<delta> < 1"
  shows "\<bar>of_int (Math_round q) - (of_int a :: rat) / of_int c\<bar> \<le> 1 / 2"
proof -
  define n where "n = Math_round q"
  define E where "E = (of_int a :: rat) / of_int c"
  have c0: "(0::rat) < of_int c" using c by simp
  have Ec: "E * (2 * of_int c) = 2 * of_int a" unfolding E_def using c0 by simp
  have f1: "of_int n \<le> q + 1 / 2" and f2: "q + 1 / 2 < of_int n + 1"
    using Math_round_floor [of q] unfolding n_def by simp_all
  have cl: "q - E \<le> \<delta>" "E - q \<le> \<delta>"
    using close unfolding E_def by (simp_all add: abs_le_iff)
  have lo: "of_int n - 1 / 2 - \<delta> \<le> E" using f1 cl(1) by linarith
  have hi: "E < of_int n + 1 / 2 + \<delta>" using f2 cl(2) by linarith
  have "(of_int n - 1 / 2 - \<delta>) * (2 * of_int c) \<le> E * (2 * of_int c)"
    using lo c0 by (intro mult_right_mono) simp_all
  then have "2 * of_int c * of_int n - of_int c - 2 * of_int c * \<delta> \<le> 2 * (of_int a :: rat)"
    unfolding Ec by (simp add: algebra_simps)
  then have "(of_int (2 * c * n - c - 1) :: rat) < of_int (2 * a)"
    using small by simp
  then have i1: "2 * c * n - c - 1 < 2 * a" by (simp only: of_int_less_iff)
  have "E * (2 * of_int c) < (of_int n + 1 / 2 + \<delta>) * (2 * of_int c)"
    using hi c0 by (intro mult_strict_right_mono) simp_all
  then have "2 * (of_int a :: rat) < 2 * of_int c * of_int n + of_int c + 2 * of_int c * \<delta>"
    unfolding Ec by (simp add: algebra_simps)
  then have "(of_int (2 * a) :: rat) < of_int (2 * c * n + c + 1)"
    using small by simp
  then have i2: "2 * a < 2 * c * n + c + 1" by (simp only: of_int_less_iff)
  have "2 * c * n - c \<le> 2 * a" using i1 by simp
  then have "(of_int (2 * c * n - c) :: rat) \<le> of_int (2 * a)"
    by (simp only: of_int_le_iff)
  then have "(of_int n - E) * (2 * of_int c) \<le> 1 / 2 * (2 * of_int c)"
    using Ec by (simp add: algebra_simps)
  then have k1: "of_int n - E \<le> 1 / 2"
    by (rule mult_right_le_imp_le) (use c0 in simp)
  have "2 * a \<le> 2 * c * n + c" using i2 by simp
  then have "(of_int (2 * a) :: rat) \<le> of_int (2 * c * n + c)"
    by (simp only: of_int_le_iff)
  then have "- (1 / 2) * (2 * of_int c) \<le> (of_int n - E) * (2 * of_int c)"
    using Ec by (simp add: algebra_simps)
  then have k2: "- (1 / 2) \<le> of_int n - E"
    by (rule mult_right_le_imp_le) (use c0 in simp)
  have "\<bar>of_int n - E\<bar> \<le> 1 / 2" using k1 k2 by linarith
  then show ?thesis unfolding n_def E_def .
qed

subsection \<open>The drawn size\<close>

lemma resizeLogic_landscape:
  assumes "h < w" and "D < w"
  shows "resizeLogic w h D =
     (int D, Math_round (toDouble (of_nat D / toDouble (of_nat w / of_nat h))))"
  using assms unfolding resizeLogic_def by (simp add: Let_def)

lemma resizeLogic_portrait:
  assumes "w \<le> h" and "D < h"
  shows "resizeLogic w h D =
     (Math_round (toDouble (of_nat D * toDouble (of_nat w / of_nat h))), int D)"
  using assms unfolding resizeLogic_def by (simp add: Let_def)

lemma resizeLogic_small:
  assumes "w \<le> D" and "h \<le> D"
  shows "resizeLogic w h D = (int w, int h)"
  using assms unfolding resizeLogic_def by (simp add: Let_def)

lemma product_bound:
  fixes a b :: nat
  assumes "a < 2 ^ 25" and "b < 2 ^ 25"
  shows "8 * (of_nat a * of_nat b :: rat) / 2 ^ 53 < 1"
proof -
  have "a * b \<le> (2 ^ 25 - 1) * (2 ^ 25 - 1)"
    using assms by (intro mult_mono) simp_all
  then have "a * b < 2 ^ 50" by simp
  then have "(of_nat (a * b) :: rat) < of_nat (2 ^ 50)" by (simp only: of_nat_less_iff)
  then have "(of_nat a * of_nat b :: rat) < 2 ^ 50" by simp
  then show ?thesis by simp
qed

lemma scaled_landscape:
  fixes w h D :: nat
  assumes "0 < h" and "h < w" and "D < w" and "w < 2 ^ 25"
  shows "\<bar>of_int (Math_round (toDouble (of_nat D / toDouble (of_nat w / of_nat h))))
          - (of_nat D :: rat) * of_nat h / of_nat w\<bar> \<le> 1 / 2"
proof -
  let ?E = "(of_nat D :: rat) * of_nat h / of_nat w"
  let ?q = "toDouble (of_nat D / toDouble (of_nat w / of_nat h))"
  have r: "(0::rat) < of_nat w / of_nat h" using assms by simp
  have "\<bar>?q - of_nat D / (of_nat w / of_nat h)\<bar> \<le> 4 * (of_nat D / (of_nat w / of_nat h)) / 2 ^ 53"
    by (rule quotient_error [OF r]) simp
  then have close: "\<bar>?q - of_int (int (D * h)) / of_int (int w)\<bar> \<le> 4 * ?E / 2 ^ 53"
    by simp
  have "2 * of_int (int w) * (4 * ?E / 2 ^ 53) = 8 * (of_nat D * of_nat h :: rat) / 2 ^ 53"
    using assms by simp
  also have "\<dots> < 1"
    using assms by (intro product_bound) simp_all
  finally have small: "2 * of_int (int w) * (4 * ?E / 2 ^ 53) < 1" .
  have "\<bar>of_int (Math_round ?q) - (of_int (int (D * h)) :: rat) / of_int (int w)\<bar> \<le> 1 / 2"
    by (rule round_of_quotient [OF _ close small]) (use assms in simp)
  then show ?thesis by simp
qed

lemma scaled_portrait:
  fixes w h D :: nat
  assumes "0 < w" and "w \<le> h" and "D < h" and "h < 2 ^ 25"
  shows "\<bar>of_int (Math_round (toDouble (of_nat D * toDouble (of_nat w / of_nat h))))
          - (of_nat D :: rat) * of_nat w / of_nat h\<bar> \<le> 1 / 2"
proof -
  let ?E = "(of_nat D :: rat) * of_nat w / of_nat h"
  let ?q = "toDouble (of_nat D * toDouble (of_nat w / of_nat h))"
  have r: "(0::rat) < of_nat w / of_nat h" using assms by simp
  have "\<bar>?q - of_nat D * (of_nat w / of_nat h)\<bar> \<le> 4 * (of_nat D * (of_nat w / of_nat h)) / 2 ^ 53"
    by (rule product_error [OF r]) simp
  then have close: "\<bar>?q - of_int (int (D * w)) / of_int (int h)\<bar> \<le> 4 * ?E / 2 ^ 53"
    by simp
  have "2 * of_int (int h) * (4 * ?E / 2 ^ 53) = 8 * (of_nat D * of_nat w :: rat) / 2 ^ 53"
    using assms by simp
  also have "\<dots> < 1"
    using assms by (intro product_bound) simp_all
  finally have small: "2 * of_int (int h) * (4 * ?E / 2 ^ 53) < 1" .
  have "\<bar>of_int (Math_round ?q) - (of_int (int (D * w)) :: rat) / of_int (int h)\<bar> \<le> 1 / 2"
    by (rule round_of_quotient [OF _ close small]) (use assms in simp)
  then show ?thesis by simp
qed

lemma scaled_less:
  fixes a b c :: nat
  assumes "0 < c" and "a < c"
  shows "(of_nat b :: rat) * of_nat a / of_nat c \<le> of_nat b"
proof -
  have "(of_nat a :: rat) / of_nat c \<le> 1"
    using assms by (simp add: divide_le_eq_1)
  then have "(of_nat b :: rat) * (of_nat a / of_nat c) \<le> of_nat b * 1"
    by (intro mult_left_mono) simp_all
  then show ?thesis by simp
qed

lemma near_bounds:
  fixes n :: int and E :: rat and m :: nat
  assumes "\<bar>of_int n - E\<bar> \<le> 1 / 2" and "0 \<le> E" and "E \<le> of_nat m"
  shows "0 \<le> n \<and> n \<le> int m"
proof -
  have c: "of_int n - E \<le> 1 / 2" "E - of_int n \<le> 1 / 2"
    using assms(1) by linarith+
  have "(of_int n :: rat) < of_nat m + 1" using c assms(2,3) by linarith
  then have "(of_int n :: rat) < of_int (int m + 1)" by simp
  then have a: "n < int m + 1" by (simp only: of_int_less_iff)
  have "(- 1 :: rat) < of_int n" using c assms(2,3) by linarith
  then have "(of_int (- 1) :: rat) < of_int n" by simp
  then have b: "- 1 < n" by (simp only: of_int_less_iff)
  show ?thesis using a b by simp
qed

lemma resizeLogic_props:
  assumes "0 < w" and "0 < h" and "w < 2 ^ 25" and "h < 2 ^ 25"
    and "resizeLogic w h D = (dw, dh)"
  shows "0 \<le> dw \<and> dw \<le> int D \<and> 0 \<le> dh \<and> dh \<le> int D
     \<and> dw \<le> int w \<and> dh \<le> int h
     \<and> (h < w \<and> D < w \<longrightarrow>
          dw = int D \<and> \<bar>of_int dh - (of_nat D :: rat) * of_nat h / of_nat w\<bar> \<le> 1 / 2)
     \<and> (w \<le> h \<and> D < h \<longrightarrow>
          dh = int D \<and> \<bar>of_int dw - (of_nat D :: rat) * of_nat w / of_nat h\<bar> \<le> 1 / 2)
     \<and> (w \<le> D \<and> h \<le> D \<longrightarrow> dw = int w \<and> dh = int h)"
proof -
  consider (land) "h < w" "D < w" | (port) "w \<le> h" "D < h" | (small) "w \<le> D" "h \<le> D"
    by linarith
  then show ?thesis
  proof cases
    case land
    let ?E = "(of_nat D :: rat) * of_nat h / of_nat w"
    have eq: "dw = int D"
      "dh = Math_round (toDouble (of_nat D / toDouble (of_nat w / of_nat h)))"
      using resizeLogic_landscape [OF land] assms(5) by simp_all
    have close: "\<bar>of_int dh - ?E\<bar> \<le> 1 / 2"
      unfolding eq(2) by (rule scaled_landscape [OF assms(2) land assms(3)])
    have E0: "0 \<le> ?E" by simp
    have ED: "?E \<le> of_nat D" using scaled_less [of w h D] assms(1) land(1) by simp
    have Eh: "?E \<le> of_nat h"
      using scaled_less [of w D h] assms(1) land(2) by (simp add: mult.commute)
    note b1 = near_bounds [OF close E0 ED] and b2 = near_bounds [OF close E0 Eh]
    show ?thesis using eq(1) b1 b2 close land by simp
  next
    case port
    let ?E = "(of_nat D :: rat) * of_nat w / of_nat h"
    have eq: "dh = int D"
      "dw = Math_round (toDouble (of_nat D * toDouble (of_nat w / of_nat h)))"
      using resizeLogic_portrait [OF port] assms(5) by simp_all
    have close: "\<bar>of_int dw - ?E\<bar> \<le> 1 / 2"
      unfolding eq(2) by (rule scaled_portrait [OF assms(1) port assms(4)])
    have E0: "0 \<le> ?E" by simp
    have ED: "?E \<le> of_nat D"
    proof -
      have "(of_nat w :: rat) / of_nat h \<le> 1" using port(1) assms(2) by (simp add: divide_le_eq_1)
      then have "(of_nat D :: rat) * (of_nat w / of_nat h) \<le> of_nat D * 1"
        by (intro mult_left_mono) simp_all
      then show ?thesis by simp
    qed
    have Ew: "?E \<le> of_nat w"
      using scaled_less [of h D w] assms(2) port(2) by (simp add: mult.commute)
    note b1 = near_bounds [OF close E0 ED] and b2 = near_bounds [OF close E0 Ew]
    show ?thesis using eq(1) b1 b2 close port by simp
  next
    case small
    have eq: "dw = int w" "dh = int h"
      using resizeLogic_small [OF small] assms(5) by simp_all
    show ?thesis using eq small assms(1,2) by simp
  qed
qed

text \<open>
  C5. For a source image that decodes, of width \<open>w\<close> and height \<open>h\<close> (both positive and
  below \<open>2^25\<close>), and every target dimension \<open>D\<close>, in a browser that hands out the two 2d
  contexts: \<^verbatim>\<open>resizeImageForOpenAI\<close> returns the encodings of an image canvas and of a
  mask canvas that are both exactly \<open>D\<close> by \<open>D\<close>; nothing is drawn on the mask; the image
  is drawn once, with equal margins left and right and equal margins above and below,
  none of them negative, so the drawn region is centred inside the canvas. When an edge
  exceeds \<open>D\<close> the longest edge is drawn with length exactly \<open>D\<close> and the other edge with
  the integer that the double computation of lines 15 to 25 yields, which is at most one
  half away from the exact proportional length \<open>D * h / w\<close> (or \<open>D * w / h\<close>): the ratio
  of \<open>w\<close> to \<open>h\<close> is kept within integer rounding. When both edges are at most \<open>D\<close> the
  image is drawn at its original size; it is never enlarged.
\<close>

theorem C5_resize_geometry:
  assumes "loadImage br src = Some (w, h)" and "0 < w" and "0 < h"
    and "w < 2 ^ 25" and "h < 2 ^ 25"
    and "canvasContext br" and "maskContext br"
  shows "\<exists>x y dw dh.
       resizeCanvases br src D =
         Inr (\<lparr>canvas_width = D, canvas_height = D,
               canvas_drawn = Some \<lparr>draw_x = x, draw_y = y, draw_w = dw, draw_h = dh\<rparr>\<rparr>,
              \<lparr>canvas_width = D, canvas_height = D, canvas_drawn = None\<rparr>)
     \<and> resizeImageForOpenAI br src D =
         Inr (toDataURL br \<lparr>canvas_width = D, canvas_height = D,
               canvas_drawn = Some \<lparr>draw_x = x, draw_y = y, draw_w = dw, draw_h = dh\<rparr>\<rparr>,
              toDataURL br \<lparr>canvas_width = D, canvas_height = D, canvas_drawn = None\<rparr>)
     \<and> 0 \<le> x \<and> 0 \<le> y \<and> 0 \<le> dw \<and> 0 \<le> dh
     \<and> x + of_int dw + x = of_nat D \<and> y + of_int dh + y = of_nat D
     \<and> (h < w \<and> D < w \<longrightarrow>
          dw = int D \<and> \<bar>of_int dh - (of_nat D :: rat) * of_nat h / of_nat w\<bar> \<le> 1 / 2)
     \<and> (w \<le> h \<and> D < h \<longrightarrow>
          dh = int D \<and> \<bar>of_int dw - (of_nat D :: rat) * of_nat w / of_nat h\<bar> \<le> 1 / 2)
     \<and> (w \<le> D \<and> h \<le> D \<longrightarrow> dw = int w \<and> dh = int h)
     \<and> dw \<le> int w \<and> dh \<le> int h"
proof -
  obtain dw dh where rl: "resizeLogic w h D = (dw, dh)"
    by (cases "resizeLogic w h D")
  note props = resizeLogic_props [OF assms(2,3,4,5) rl]
  let ?x = "(of_nat D - of_int dw :: rat) / 2"
  let ?y = "(of_nat D - of_int dh :: rat) / 2"
  have cv: "resizeCanvases br src D =
         Inr (\<lparr>canvas_width = D, canvas_height = D,
               canvas_drawn = Some \<lparr>draw_x = ?x, draw_y = ?y, draw_w = dw, draw_h = dh\<rparr>\<rparr>,
              \<lparr>canvas_width = D, canvas_height = D, canvas_drawn = None\<rparr>)"
    unfolding resizeCanvases_def using assms(1,6,7) rl by (simp add: Let_def)
  have im: "resizeImageForOpenAI br src D =
         Inr (toDataURL br \<lparr>canvas_width = D, canvas_height = D,
               canvas_drawn = Some \<lparr>draw_x = ?x, draw_y = ?y, draw_w = dw, draw_h = dh\<rparr>\<rparr>,
              toDataURL br \<lparr>canvas_width = D, canvas_height = D, canvas_drawn = None\<rparr>)"
    unfolding resizeImageForOpenAI_def cv by simp
  have x0: "0 \<le> ?x" and y0: "0 \<le> ?y"
    using props by simp_all
  have cx: "?x + of_int dw + ?x = of_nat D" and cy: "?y + of_int dh + ?y = of_nat D"
    by (simp_all add: field_simps)
  show ?thesis
    using cv im x0 y0 cx cy props by blast
qed

lemma resizeLogic_examples:
  "resizeLogic 1024 773 512 = (512, 386)"
  "resizeLogic 1000 333 512 = (512, 170)"
  "resizeLogic 333 1000 512 = (170, 512)"
  "resizeLogic 300 200 512 = (300, 200)"
  by code_simp+

theorem C5_resize_geometry_witness:
  "resizeCanvases (example_browser (1024, 773)) ''data:image/jpeg;base64,AAAA'' 512 =
     Inr (\<lparr>canvas_width = 512, canvas_height = 512,
           canvas_drawn = Some \<lparr>draw_x = 0, draw_y = 63, draw_w = 512, draw_h = 386\<rparr>\<rparr>,
          \<lparr>canvas_width = 512, canvas_height = 512, canvas_drawn = None\<rparr>)
   \<and> resizeCanvases (example_browser (333, 1000)) ''data:image/jpeg;base64,AAAA'' 512 =
     Inr (\<lparr>canvas_width = 512, canvas_height = 512,
           canvas_drawn = Some \<lparr>draw_x = 171, draw_y = 0, draw_w = 170, draw_h = 512\<rparr>\<rparr>,
          \<lparr>canvas_width = 512, canvas_height = 512, canvas_drawn = None\<rparr>)
   \<and> resizeCanvases (example_browser (300, 200)) ''data:image/jpeg;base64,AAAA'' 512 =
     Inr (\<lparr>canvas_width = 512, canvas_height = 512,
           canvas_drawn = Some \<lparr>draw_x = 106, draw_y = 156, draw_w = 300, draw_h = 200\<rparr>\<rparr>,
          \<lparr>canvas_width = 512, canvas_height = 512, canvas_drawn = None\<rparr>)"
  using C5_resize_geometry [of "example_browser (1024, 773)" "''data:image/jpeg;base64,AAAA''" 1024 773 512]
    C5_resize_geometry [of "example_browser (333, 1000)" "''data:image/jpeg;base64,AAAA''" 333 1000 512]
    C5_resize_geometry [of "example_browser (300, 200)" "''data:image/jpeg;base64,AAAA''" 300 200 512]
  by (simp add: example_browser_def resizeCanvases_def resizeLogic_examples Let_def)

section \<open>Properties of generateAIImage\<close>

lemma imageRequests_append [simp]:
  "imageRequests (xs @ ys) = imageRequests xs @ imageRequests ys"
  by (simp add: imageRequests_def)

lemma detectorRequests_append [simp]:
  "detectorRequests (xs @ ys) = detectorRequests xs @ detectorRequests ys"
  by (simp add: detectorRequests_def)

lemma imageRequests_genRequest [simp]:
  "imageRequests (GenerateContent (genRequest r p c mt model f) # cs) =
     genRequest r p c mt model f # imageRequests cs"
  by (simp add: imageRequests_def genRequest_def)

lemma detectorRequests_genRequest [simp]:
  "detectorRequests (GenerateContent (genRequest r p c mt model f) # cs) = detectorRequests cs"
  by (simp add: detectorRequests_def genRequest_def)

lemma requests_Nil [simp]: "imageRequests [] = []" "detectorRequests [] = []"
  by (simp_all add: imageRequests_def detectorRequests_def)

lemma requests_FetchOpenAI [simp]:
  "imageRequests (FetchOpenAI p # cs) = imageRequests cs"
  "detectorRequests (FetchOpenAI p # cs) = detectorRequests cs"
  by (simp_all add: imageRequests_def detectorRequests_def)

lemma requests_detect [simp]:
  "imageRequests (GenerateContent (detectRequest c mt) # cs) = imageRequests cs"
  "detectorRequests (GenerateContent (detectRequest c mt) # cs) = detectRequest c mt # detectorRequests cs"
  by (simp_all add: imageRequests_def detectorRequests_def detectRequest_def)

lemma openaiFlow_requests [simp]:
  "imageRequests (fst (openaiFlow env src prompt sz)) = []"
  "detectorRequests (fst (openaiFlow env src prompt sz)) = []"
  unfolding openaiFlow_def by (simp_all add: Let_def split: sum.splits prod.splits)

lemma smartDetection_requests [simp]:
  "imageRequests (fst (smartDetection env key c mt s)) = []"
  "detectorRequests (fst (smartDetection env key c mt s)) =
     (if s = ''auto'' then [detectRequest c mt] else [])"
  unfolding smartDetection_def detectPeopleCount_def by simp_all

lemma runGenAI_pro_failed:
  assumes "str_includes m ''pro''" and "ai (mk ''gemini-3-pro-image-preview'' True) = Inl e"
  shows "runGenAI ai mk m =
     ([GenerateContent (mk ''gemini-3-pro-image-preview'' True),
       GenerateContent (mk ''gemini-2.5-flash-image'' False)],
      (case ai (mk ''gemini-2.5-flash-image'' False) of
         Inl e' \<Rightarrow> Inl e' | Inr response \<Rightarrow> readResponse response))"
  using assms unfolding runGenAI_def by (simp split: sum.splits)


lemma runGenAI_flash:
  assumes "\<not> str_includes m ''pro''"
  shows "runGenAI ai mk m =
     ([GenerateContent (mk ''gemini-2.5-flash-image'' False)],
      (case ai (mk ''gemini-2.5-flash-image'' False) of
         Inl e' \<Rightarrow> Inl e' | Inr response \<Rightarrow> readResponse response))"
  using assms unfolding runGenAI_def by (simp split: sum.splits)

lemma geminiFlow_with_key:
  assumes "API_KEY env = Some key" and "key \<noteq> []"
  shows "geminiFlow env src prompt ratio s =
     (fst (smartDetection env key (cleanBase64Of src) (mimeTypeOf src) s)
        @ fst (runGenAI (generateContent env key)
                 (genRequest (apiAspectRatio ratio) prompt (cleanBase64Of src) (mimeTypeOf src))
                 (snd (smartDetection env key (cleanBase64Of src) (mimeTypeOf src) s))),
      snd (runGenAI (generateContent env key)
             (genRequest (apiAspectRatio ratio) prompt (cleanBase64Of src) (mimeTypeOf src))
             (snd (smartDetection env key (cleanBase64Of src) (mimeTypeOf src) s))))"
  unfolding geminiFlow_def using assms by (simp add: Let_def)

lemma geminiFlow_without_key:
  assumes "\<not> present (API_KEY env)"
  shows "geminiFlow env src prompt ratio s =
     ([], Inl (Error ''API Key missing. Please create a .env file with API_KEY=AIzaSy...''))"
  unfolding geminiFlow_def using assms by (cases "API_KEY env") simp_all

lemma generateAIImage_resolved:
  assumes "resolvedModel env src prompt = Some (key, m)"
  shows "\<exists>pre. fst (generateAIImage env src prompt ratio) =
            pre @ fst (runGenAI (generateContent env key)
                 (genRequest (apiAspectRatio ratio) prompt (cleanBase64Of src) (mimeTypeOf src)) m)
          \<and> imageRequests pre = []
          \<and> snd (generateAIImage env src prompt ratio) =
             snd (runGenAI (generateContent env key)
                 (genRequest (apiAspectRatio ratio) prompt (cleanBase64Of src) (mimeTypeOf src)) m)"
proof -
  obtain selected gptSize where rs: "readSettings env = Inr (selected, gptSize)"
    using assms unfolding resolvedModel_def by (auto split: sum.splits)
  have key: "API_KEY env = Some key" "key \<noteq> []"
    using assms rs unfolding resolvedModel_def
    by (auto split: sum.splits option.splits if_splits)
  show ?thesis
  proof (cases "selected = ''gpt-image-1.5''")
    case True
    obtain calls out where of: "openaiFlow env src prompt gptSize = (calls, out)"
      by (cases "openaiFlow env src prompt gptSize")
    obtain err where out: "out = Inl err"
      using assms rs True of unfolding resolvedModel_def by (cases out) simp_all
    have m: "m = snd (smartDetection env key (cleanBase64Of src) (mimeTypeOf src) ''gemini-2.5-flash-image'')"
      using assms rs True of out key unfolding resolvedModel_def by simp
    have ic: "imageRequests calls = []"
      using openaiFlow_requests(1) [of env src prompt gptSize] of by simp
    show ?thesis
      unfolding generateAIImage_def
      using rs True of out m ic by (simp add: geminiFlow_with_key [OF key])
  next
    case False
    have m: "m = snd (smartDetection env key (cleanBase64Of src) (mimeTypeOf src) selected)"
      using assms rs False key unfolding resolvedModel_def by simp
    show ?thesis
      unfolding generateAIImage_def
      using rs False m by (simp add: geminiFlow_with_key [OF key])
  qed
qed

lemma firstInlineData_find:
  assumes "find (\<lambda>q. inlineData q \<noteq> None) ps = Some q" and "inlineData q = Some b"
  shows "firstInlineData ps =
     Some (''data:image/png;base64,'' @ (case blob_data b of None \<Rightarrow> ''undefined'' | Some d \<Rightarrow> d))"
  using assms by (induction ps) (auto split: if_splits option.splits)

lemma readResponse_payload:
  assumes "inlinePayload response = Some g"
  shows "readResponse response = Inr (JStr (''data:image/png;base64,'' @ g))"
proof -
  obtain c cs where c: "candidates response = Some (c # cs)"
    using assms unfolding inlinePayload_def by (auto split: option.splits list.splits)
  obtain ct where ct: "candidate_content c = Some ct"
    using assms c unfolding inlinePayload_def by (auto split: option.splits)
  obtain ps where ps: "parts ct = Some ps"
    using assms c ct unfolding inlinePayload_def by (auto split: option.splits)
  obtain q where q: "find (\<lambda>q. inlineData q \<noteq> None) ps = Some q"
    using assms c ct ps unfolding inlinePayload_def by (auto split: option.splits)
  obtain b where b: "inlineData q = Some b" "blob_data b = Some g"
    using assms c ct ps q unfolding inlinePayload_def by (auto split: option.splits)
  show ?thesis
    unfolding readResponse_def using c ct ps firstInlineData_find [OF q b(1)] b(2) by simp
qed

text \<open>
  C1. When line 204 is reached with a selected model that contains \<^verbatim>\<open>pro\<close> and the call
  to \<^verbatim>\<open>gemini-3-pro-image-preview\<close> fails, the run makes exactly one more image request,
  to \<^verbatim>\<open>gemini-2.5-flash-image\<close>. If that call answers, the result of \<^verbatim>\<open>generateAIImage\<close>
  is what lines 220 to 228 read from the answer of the flash tier: when the flash
  response carries inline data \<open>g\<close>, the result is \<^verbatim>\<open>data:image/png;base64,\<close> followed by
  \<open>g\<close>, the image the flash tier returned. If the flash call fails, the flash tier's
  error is thrown to the caller unchanged. When the selected model does not contain
  \<^verbatim>\<open>pro\<close>, the flash tier is the only image request, and its error is thrown to the
  caller unchanged.
\<close>

theorem C1_pro_falls_back_to_flash:
  "(resolvedModel env src prompt = Some (key, m) \<and> str_includes m ''pro''
      \<and> generateContent env key
           (genRequest (apiAspectRatio ratio) prompt (cleanBase64Of src) (mimeTypeOf src)
              ''gemini-3-pro-image-preview'' True) = Inl e \<longrightarrow>
      imageRequests (fst (generateAIImage env src prompt ratio)) =
        [genRequest (apiAspectRatio ratio) prompt (cleanBase64Of src) (mimeTypeOf src)
           ''gemini-3-pro-image-preview'' True,
         genRequest (apiAspectRatio ratio) prompt (cleanBase64Of src) (mimeTypeOf src)
           ''gemini-2.5-flash-image'' False]
      \<and> snd (generateAIImage env src prompt ratio) =
          (case generateContent env key
                  (genRequest (apiAspectRatio ratio) prompt (cleanBase64Of src) (mimeTypeOf src)
                     ''gemini-2.5-flash-image'' False) of
             Inl e' \<Rightarrow> Inl e'
           | Inr response \<Rightarrow> readResponse response))
   \<and> (resolvedModel env src prompt = Some (key, m) \<and> str_includes m ''pro''
      \<and> generateContent env key
           (genRequest (apiAspectRatio ratio) prompt (cleanBase64Of src) (mimeTypeOf src)
              ''gemini-3-pro-image-preview'' True) = Inl e
      \<and> generateContent env key
           (genRequest (apiAspectRatio ratio) prompt (cleanBase64Of src) (mimeTypeOf src)
              ''gemini-2.5-flash-image'' False) = Inr flashResponse
      \<and> inlinePayload flashResponse = Some g \<longrightarrow>
      snd (generateAIImage env src prompt ratio) = Inr (JStr (''data:image/png;base64,'' @ g)))
   \<and> (resolvedModel env src prompt = Some (key, m) \<and> str_includes m ''pro''
      \<and> generateContent env key
           (genRequest (apiAspectRatio ratio) prompt (cleanBase64Of src) (mimeTypeOf src)
              ''gemini-3-pro-image-preview'' True) = Inl e
      \<and> generateContent env key
           (genRequest (apiAspectRatio ratio) prompt (cleanBase64Of src) (mimeTypeOf src)
              ''gemini-2.5-flash-image'' False) = Inl flashError \<longrightarrow>
      snd (generateAIImage env src prompt ratio) = Inl flashError)
   \<and> (resolvedModel env src prompt = Some (key, m) \<and> \<not> str_includes m ''pro''
      \<and> generateContent env key
           (genRequest (apiAspectRatio ratio) prompt (cleanBase64Of src) (mimeTypeOf src)
              ''gemini-2.5-flash-image'' False) = Inl e \<longrightarrow>
      imageRequests (fst (generateAIImage env src prompt ratio)) =
        [genRequest (apiAspectRatio ratio) prompt (cleanBase64Of src) (mimeTypeOf src)
           ''gemini-2.5-flash-image'' False]
      \<and> snd (generateAIImage env src prompt ratio) = Inl e)"
proof -
  let ?mk = "genRequest (apiAspectRatio ratio) prompt (cleanBase64Of src) (mimeTypeOf src)"
  let ?gc = "generateContent env key"
  have failed: "imageRequests (fst (generateAIImage env src prompt ratio)) =
        [?mk ''gemini-3-pro-image-preview'' True, ?mk ''gemini-2.5-flash-image'' False]
      \<and> snd (generateAIImage env src prompt ratio) =
          (case ?gc (?mk ''gemini-2.5-flash-image'' False) of
             Inl e' \<Rightarrow> Inl e'
           | Inr response \<Rightarrow> readResponse response)"
    if h: "resolvedModel env src prompt = Some (key, m)" "str_includes m ''pro''"
      "?gc (?mk ''gemini-3-pro-image-preview'' True) = Inl e"
  proof -
    obtain pre where pre:
      "fst (generateAIImage env src prompt ratio) = pre @ fst (runGenAI ?gc ?mk m)"
      "imageRequests pre = []"
      "snd (generateAIImage env src prompt ratio) = snd (runGenAI ?gc ?mk m)"
      using generateAIImage_resolved [OF h(1), of ratio] by blast
    have run: "runGenAI ?gc ?mk m =
       ([GenerateContent (?mk ''gemini-3-pro-image-preview'' True),
         GenerateContent (?mk ''gemini-2.5-flash-image'' False)],
        (case ?gc (?mk ''gemini-2.5-flash-image'' False) of
           Inl e' \<Rightarrow> Inl e' | Inr response \<Rightarrow> readResponse response))"
      using runGenAI_pro_failed [of m ?gc ?mk e] h(2,3) by blast
    show ?thesis using pre run by simp
  qed
  have primary: "imageRequests (fst (generateAIImage env src prompt ratio)) =
        [?mk ''gemini-2.5-flash-image'' False]
      \<and> snd (generateAIImage env src prompt ratio) = Inl e"
    if h: "resolvedModel env src prompt = Some (key, m)" "\<not> str_includes m ''pro''"
      "?gc (?mk ''gemini-2.5-flash-image'' False) = Inl e"
  proof -
    obtain pre where pre:
      "fst (generateAIImage env src prompt ratio) = pre @ fst (runGenAI ?gc ?mk m)"
      "imageRequests pre = []"
      "snd (generateAIImage env src prompt ratio) = snd (runGenAI ?gc ?mk m)"
      using generateAIImage_resolved [OF h(1), of ratio] by blast
    have run: "runGenAI ?gc ?mk m = ([GenerateContent (?mk ''gemini-2.5-flash-image'' False)], Inl e)"
      using runGenAI_flash [of m ?gc ?mk] h(2,3) by simp
    show ?thesis using pre run by simp
  qed
  show ?thesis
  proof (intro conjI impI)
    assume "resolvedModel env src prompt = Some (key, m) \<and> str_includes m ''pro''
      \<and> ?gc (?mk ''gemini-3-pro-image-preview'' True) = Inl e"
    then show "imageRequests (fst (generateAIImage env src prompt ratio)) =
        [?mk ''gemini-3-pro-image-preview'' True, ?mk ''gemini-2.5-flash-image'' False]"
      and "snd (generateAIImage env src prompt ratio) =
          (case ?gc (?mk ''gemini-2.5-flash-image'' False) of
             Inl e' \<Rightarrow> Inl e'
           | Inr response \<Rightarrow> readResponse response)"
      using failed by blast+
  next
    assume h: "resolvedModel env src prompt = Some (key, m) \<and> str_includes m ''pro''
      \<and> ?gc (?mk ''gemini-3-pro-image-preview'' True) = Inl e
      \<and> ?gc (?mk ''gemini-2.5-flash-image'' False) = Inr flashResponse
      \<and> inlinePayload flashResponse = Some g"
    then have "snd (generateAIImage env src prompt ratio) = readResponse flashResponse"
      using failed by simp
    then show "snd (generateAIImage env src prompt ratio) =
        Inr (JStr (''data:image/png;base64,'' @ g))"
      using readResponse_payload [of flashResponse g] h by simp
  next
    assume h: "resolvedModel env src prompt = Some (key, m) \<and> str_includes m ''pro''
      \<and> ?gc (?mk ''gemini-3-pro-image-preview'' True) = Inl e
      \<and> ?gc (?mk ''gemini-2.5-flash-image'' False) = Inl flashError"
    then show "snd (generateAIImage env src prompt ratio) = Inl flashError"
      using failed by simp
  next
    assume "resolvedModel env src prompt = Some (key, m) \<and> \<not> str_includes m ''pro''
      \<and> ?gc (?mk ''gemini-2.5-flash-image'' False) = Inl e"
    then show "imageRequests (fst (generateAIImage env src prompt ratio)) =
        [?mk ''gemini-2.5-flash-image'' False]"
      and "snd (generateAIImage env src prompt ratio) = Inl e"
      using primary by blast+
  qed
qed

lemma parseInt_sizes:
  "parseInt ''512'' = Some 512" "parseInt ''720'' = Some 720" "parseInt ''1024'' = Some 1024"
  by code_simp+

lemma pro_includes_pro: "str_includes ''gemini-3-pro-image-preview'' ''pro''"
  by code_simp

lemma flash_excludes_pro: "\<not> str_includes ''gemini-2.5-flash-image'' ''pro''"
  by code_simp

lemma readSettings_example:
  "model \<noteq> [] \<Longrightarrow> readSettings (example_client_env model ai) = Inr (model, 720)"
  by (simp add: readSettings_def example_client_env_def parseInt_sizes)

lemma resolvedModel_example:
  assumes "model \<noteq> []" and "model \<noteq> ''gpt-image-1.5''" and "model \<noteq> ''auto''"
  shows "resolvedModel (example_client_env model ai) src prompt = Some (''AIzaSyTest'', model)"
  using assms
  by (simp add: resolvedModel_def readSettings_example)
     (simp add: example_client_env_def smartDetection_def)

lemma readResponse_example:
  "readResponse (example_image_response p) = Inr (JStr (''data:image/png;base64,'' @ p))"
  by (simp add: readResponse_def example_image_response_def)

lemma inlinePayload_example: "inlinePayload (example_image_response p) = Some p"
  by (simp add: inlinePayload_def example_image_response_def)

theorem C1_pro_falls_back_to_flash_witness:
  "map gen_model (imageRequests (fst (generateAIImage
       (example_client_env ''gemini-3-pro-image-preview''
          (example_ai (Inl (Error ''unused'')) (Inl (Error ''overloaded''))
             (Inr (example_image_response ''iVBOR''))))
       ''data:image/jpeg;base64,AAAA'' ''as a cartoon'' Ratio_9_16))) =
     [''gemini-3-pro-image-preview'', ''gemini-2.5-flash-image'']
   \<and> inlinePayload (example_image_response ''iVBOR'') = Some ''iVBOR''
   \<and> snd (generateAIImage
       (example_client_env ''gemini-3-pro-image-preview''
          (example_ai (Inl (Error ''unused'')) (Inl (Error ''overloaded''))
             (Inr (example_image_response ''iVBOR''))))
       ''data:image/jpeg;base64,AAAA'' ''as a cartoon'' Ratio_9_16) =
     Inr (JStr ''data:image/png;base64,iVBOR'')
   \<and> snd (generateAIImage
       (example_client_env ''gemini-3-pro-image-preview''
          (example_ai (Inl (Error ''unused'')) (Inl (Error ''overloaded''))
             (Inl (Error ''quota''))))
       ''data:image/jpeg;base64,AAAA'' ''as a cartoon'' Ratio_9_16) =
     Inl (Error ''quota'')
   \<and> snd (generateAIImage
       (example_client_env ''gemini-2.5-flash-image''
          (example_ai (Inl (Error ''unused'')) (Inl (Error ''unused''))
             (Inl (Error ''quota''))))
       ''data:image/jpeg;base64,AAAA'' ''as a cartoon'' Ratio_9_16) =
     Inl (Error ''quota'')"
  using
    C1_pro_falls_back_to_flash [of
      "example_client_env ''gemini-3-pro-image-preview''
          (example_ai (Inl (Error ''unused'')) (Inl (Error ''overloaded''))
             (Inr (example_image_response ''iVBOR'')))"
      "''data:image/jpeg;base64,AAAA''" "''as a cartoon''" "''AIzaSyTest''"
      "''gemini-3-pro-image-preview''" Ratio_9_16 "Error ''overloaded''"
      "example_image_response ''iVBOR''" "''iVBOR''" "Error ''unused''"]
    C1_pro_falls_back_to_flash [of
      "example_client_env ''gemini-3-pro-image-preview''
          (example_ai (Inl (Error ''unused'')) (Inl (Error ''overloaded''))
             (Inl (Error ''quota'')))"
      "''data:image/jpeg;base64,AAAA''" "''as a cartoon''" "''AIzaSyTest''"
      "''gemini-3-pro-image-preview''" Ratio_9_16 "Error ''overloaded''"
      "example_image_response ''iVBOR''" "''iVBOR''" "Error ''quota''"]
    C1_pro_falls_back_to_flash [of
      "example_client_env ''gemini-2.5-flash-image''
          (example_ai (Inl (Error ''unused'')) (Inl (Error ''unused''))
             (Inl (Error ''quota'')))"
      "''data:image/jpeg;base64,AAAA''" "''as a cartoon''" "''AIzaSyTest''"
      "''gemini-2.5-flash-image''" Ratio_9_16 "Error ''quota''"
      "example_image_response ''iVBOR''" "''iVBOR''" "Error ''quota''"]
  by (simp add: resolvedModel_example pro_includes_pro flash_excludes_pro readResponse_example
        inlinePayload_example)
     (simp add: example_client_env_def example_ai_def genRequest_def readResponse_example
        inlinePayload_example)

lemma smartDetection_settings:
  "smartDetection (env\<lparr>pb_settings := x\<rparr>) k c mt s = smartDetection env k c mt s"
  by (simp add: smartDetection_def detectPeopleCount_def)

lemma geminiFlow_settings:
  "geminiFlow (env\<lparr>pb_settings := x\<rparr>) src prompt ratio s = geminiFlow env src prompt ratio s"
  by (simp add: geminiFlow_def smartDetection_settings split: option.splits)

lemma openaiResult_not_ok:
  assumes "\<not> ok r"
  shows "\<exists>e. openaiResult (Inr r) = Inl e"
  using assms unfolding openaiResult_def by (simp split: sum.splits)

text \<open>
  C2. With the stored model \<^verbatim>\<open>gpt-image-1.5\<close>, whenever the OpenAI flow throws, whatever
  the error, \<^verbatim>\<open>generateAIImage\<close> goes on with the Gemini flow for
  \<^verbatim>\<open>gemini-2.5-flash-image\<close> (lines 149 to 228) and its result is the result of that
  flow, the same as that of a run whose stored model is \<^verbatim>\<open>gemini-2.5-flash-image\<close>; the
  OpenAI error is not part of it. A preprocessing error and a response that is not 2xx
  both make the OpenAI flow throw.
\<close>

theorem C2_openai_failure_falls_back:
  "(readSettings env = Inr (''gpt-image-1.5'', sz) \<and> snd (openaiFlow env src prompt sz) = Inl e \<longrightarrow>
      generateAIImage env src prompt ratio =
        (fst (openaiFlow env src prompt sz)
           @ fst (geminiFlow env src prompt ratio ''gemini-2.5-flash-image''),
         snd (geminiFlow env src prompt ratio ''gemini-2.5-flash-image''))
      \<and> snd (generateAIImage env src prompt ratio) =
          snd (generateAIImage
                 (env\<lparr>pb_settings := Some (Inr \<lparr>selectedModel = ''gemini-2.5-flash-image'',
                                                  gptModelSize = None\<rparr>)\<rparr>)
                 src prompt ratio))
   \<and> (resizeImageForOpenAI (the_browser env) src sz = Inl e \<longrightarrow>
        openaiFlow env src prompt sz = ([], Inl e))
   \<and> (resizeImageForOpenAI (the_browser env) src sz = Inr (resized, msk)
        \<and> fetchOpenAI env
             \<lparr>post_prompt = prompt @ '' photorealistic, highly detailed, preserve identity'',
              post_imageBase64 = resized, post_maskBase64 = msk, post_size = sz\<rparr> = Inr r
        \<and> \<not> ok r \<longrightarrow>
        (\<exists>e'. snd (openaiFlow env src prompt sz) = Inl e'))"
proof (intro conjI impI)
  assume h: "readSettings env = Inr (''gpt-image-1.5'', sz)
     \<and> snd (openaiFlow env src prompt sz) = Inl e"
  obtain calls where of: "openaiFlow env src prompt sz = (calls, Inl e)"
    using h by (cases "openaiFlow env src prompt sz") simp
  show g: "generateAIImage env src prompt ratio =
        (fst (openaiFlow env src prompt sz)
           @ fst (geminiFlow env src prompt ratio ''gemini-2.5-flash-image''),
         snd (geminiFlow env src prompt ratio ''gemini-2.5-flash-image''))"
    unfolding generateAIImage_def using h of by (simp split: prod.splits)
  have "generateAIImage
          (env\<lparr>pb_settings := Some (Inr \<lparr>selectedModel = ''gemini-2.5-flash-image'',
                                           gptModelSize = None\<rparr>)\<rparr>) src prompt ratio =
        geminiFlow env src prompt ratio ''gemini-2.5-flash-image''"
    unfolding generateAIImage_def by (simp add: readSettings_def geminiFlow_settings)
  then show "snd (generateAIImage env src prompt ratio) =
          snd (generateAIImage
                 (env\<lparr>pb_settings := Some (Inr \<lparr>selectedModel = ''gemini-2.5-flash-image'',
                                                  gptModelSize = None\<rparr>)\<rparr>)
                 src prompt ratio)"
    using g by simp
next
  assume "resizeImageForOpenAI (the_browser env) src sz = Inl e"
  then show "openaiFlow env src prompt sz = ([], Inl e)"
    unfolding openaiFlow_def by simp
next
  assume h: "resizeImageForOpenAI (the_browser env) src sz = Inr (resized, msk)
        \<and> fetchOpenAI env
             \<lparr>post_prompt = prompt @ '' photorealistic, highly detailed, preserve identity'',
              post_imageBase64 = resized, post_maskBase64 = msk, post_size = sz\<rparr> = Inr r
        \<and> \<not> ok r"
  then obtain e' where "openaiResult (Inr r) = Inl e'"
    using openaiResult_not_ok by blast
  then show "\<exists>e'. snd (openaiFlow env src prompt sz) = Inl e'"
    unfolding openaiFlow_def using h by (simp add: Let_def)
qed


lemma resize_example:
  "resizeImageForOpenAI (example_browser (1000, 333)) src 720 =
     Inr (''data:image/png;base64,iVBORw0KGgo'', ''data:image/png;base64,iVBORw0KGgo'')"
  by (simp add: resizeImageForOpenAI_def resizeCanvases_def example_browser_def Let_def
      split: prod.splits)

lemma openaiFlow_example:
  "snd (openaiFlow (example_client_env model ai) src prompt 720) = Inl (Error ''upstream'')"
  by (simp add: openaiFlow_def example_client_env_def resize_example openaiResult_def orElse_def
      Let_def)

lemma geminiFlow_example_flash:
  "snd (geminiFlow (example_client_env model (example_ai d p (Inr (example_image_response ''iVBOR''))))
         src prompt ratio ''gemini-2.5-flash-image'') =
     Inr (JStr ''data:image/png;base64,iVBOR'')"
  by (simp add: geminiFlow_def example_client_env_def smartDetection_def runGenAI_flash
      flash_excludes_pro example_ai_def genRequest_def readResponse_example Let_def)

theorem C2_openai_failure_falls_back_witness:
  "snd (generateAIImage
          (example_client_env ''gpt-image-1.5''
             (example_ai (Inl (Error ''unused'')) (Inl (Error ''unused''))
                (Inr (example_image_response ''iVBOR''))))
          ''data:image/jpeg;base64,AAAA'' ''as a cartoon'' Ratio_9_16) =
     Inr (JStr ''data:image/png;base64,iVBOR'')
   \<and> openaiFlow
        ((example_client_env ''gpt-image-1.5''
             (example_ai (Inl (Error ''unused'')) (Inl (Error ''unused''))
                (Inr (example_image_response ''iVBOR''))))
           \<lparr>the_browser := (example_browser (0, 0))\<lparr>loadImage := (\<lambda>s. None)\<rparr>\<rparr>)
        ''data:image/jpeg;base64,AAAA'' ''as a cartoon'' 720 = ([], Inl ErrorEvent)
   \<and> snd (openaiFlow
        (example_client_env ''gpt-image-1.5''
             (example_ai (Inl (Error ''unused'')) (Inl (Error ''unused''))
                (Inr (example_image_response ''iVBOR''))))
        ''data:image/jpeg;base64,AAAA'' ''as a cartoon'' 720) = Inl (Error ''upstream'')"
  using
    C2_openai_failure_falls_back [of
      "example_client_env ''gpt-image-1.5''
             (example_ai (Inl (Error ''unused'')) (Inl (Error ''unused''))
                (Inr (example_image_response ''iVBOR'')))"
      720 "''data:image/jpeg;base64,AAAA''" "''as a cartoon''" "Error ''upstream''" Ratio_9_16]
    C2_openai_failure_falls_back [of
      "(example_client_env ''gpt-image-1.5''
             (example_ai (Inl (Error ''unused'')) (Inl (Error ''unused''))
                (Inr (example_image_response ''iVBOR''))))
           \<lparr>the_browser := (example_browser (0, 0))\<lparr>loadImage := (\<lambda>s. None)\<rparr>\<rparr>"
      720 "''data:image/jpeg;base64,AAAA''" "''as a cartoon''" ErrorEvent]
  by (simp add: readSettings_example openaiFlow_example geminiFlow_example_flash)
     (simp add: resizeImageForOpenAI_def resizeCanvases_def example_browser_def
        example_client_env_def)

lemma gen_model_genRequest [simp]: "gen_model (genRequest r p c mt model f) = model"
  by (simp add: genRequest_def)

lemma runGenAI_detectorRequests [simp]:
  "detectorRequests (fst (runGenAI ai (genRequest r p c mt) m)) = []"
  unfolding runGenAI_def by (simp split: sum.splits)

lemma runGenAI_models:
  "map gen_model (imageRequests (fst (runGenAI ai (genRequest r p c mt) m))) =
     (if str_includes m ''pro'' then
        (case ai (genRequest r p c mt ''gemini-3-pro-image-preview'' True) of
           Inr response \<Rightarrow> [''gemini-3-pro-image-preview'']
         | Inl e \<Rightarrow> [''gemini-3-pro-image-preview'', ''gemini-2.5-flash-image''])
      else [''gemini-2.5-flash-image''])"
  unfolding runGenAI_def by (simp split: sum.splits)

lemma generateAIImage_unresolved:
  assumes "resolvedModel env src prompt = None"
  shows "imageRequests (fst (generateAIImage env src prompt ratio)) = []
     \<and> detectorRequests (fst (generateAIImage env src prompt ratio)) = []"
proof (cases "readSettings env")
  case (Inl e)
  then show ?thesis unfolding generateAIImage_def by simp
next
  case (Inr sel)
  obtain selected gptSize where sel: "sel = (selected, gptSize)" by (cases sel)
  note rs = Inr [unfolded sel]
  show ?thesis
  proof (cases "selected = ''gpt-image-1.5''")
    case True
    obtain calls out where of: "openaiFlow env src prompt gptSize = (calls, out)"
      by (cases "openaiFlow env src prompt gptSize")
    have ic: "imageRequests calls = []" "detectorRequests calls = []"
      using openaiFlow_requests [of env src prompt gptSize] of by simp_all
    show ?thesis
    proof (cases out)
      case (Inr v)
      then show ?thesis unfolding generateAIImage_def using rs True of ic by simp
    next
      case (Inl err)
      have "\<not> present (API_KEY env)"
        using assms rs True of Inl unfolding resolvedModel_def
        by (cases "API_KEY env") (auto split: if_splits)
      then show ?thesis
        unfolding generateAIImage_def using rs True of Inl ic
        by (simp add: geminiFlow_without_key)
    qed
  next
    case False
    have "\<not> present (API_KEY env)"
      using assms rs False unfolding resolvedModel_def
      by (cases "API_KEY env") (auto split: if_splits)
    then show ?thesis
      unfolding generateAIImage_def using rs False by (simp add: geminiFlow_without_key)
  qed
qed

lemma generateAIImage_models:
  assumes "resolvedModel env src prompt = Some (key, m)"
  shows "map gen_model (imageRequests (fst (generateAIImage env src prompt ratio))) =
     (if str_includes m ''pro'' then
        (case generateContent env key
                (genRequest (apiAspectRatio ratio) prompt (cleanBase64Of src) (mimeTypeOf src)
                   ''gemini-3-pro-image-preview'' True) of
           Inr response \<Rightarrow> [''gemini-3-pro-image-preview'']
         | Inl e \<Rightarrow> [''gemini-3-pro-image-preview'', ''gemini-2.5-flash-image''])
      else [''gemini-2.5-flash-image''])"
proof -
  obtain pre where pre:
    "fst (generateAIImage env src prompt ratio) =
       pre @ fst (runGenAI (generateContent env key)
          (genRequest (apiAspectRatio ratio) prompt (cleanBase64Of src) (mimeTypeOf src)) m)"
    "imageRequests pre = []"
    using generateAIImage_resolved [OF assms, of ratio] by blast
  show ?thesis
    unfolding pre(1) using pre(2) by (simp add: runGenAI_models)
qed

text \<open>
  C9, as amended. Whatever the stored model preference is, every image request of a run
  names one of the two models \<^verbatim>\<open>gemini-3-pro-image-preview\<close> and
  \<^verbatim>\<open>gemini-2.5-flash-image\<close>, so the preference string is never what decides the name
  passed to the API. When line 204 is reached and the resolved preference contains
  \<^verbatim>\<open>pro\<close>, the run makes one image request, to the pro model, when that call answers, and
  two, to the pro model and then to the flash model, when it fails: the retry after a
  failed pro call is the only other image request. When the resolved preference does
  not contain \<^verbatim>\<open>pro\<close>, the run makes one image request, to the flash model. A run that
  ends before line 204 makes no image request.
\<close>

theorem C9_model_ids:
  "(\<forall>rq \<in> set (imageRequests (fst (generateAIImage env src prompt ratio))).
       gen_model rq = ''gemini-3-pro-image-preview'' \<or> gen_model rq = ''gemini-2.5-flash-image'')
   \<and> (resolvedModel env src prompt = Some (key, m) \<and> str_includes m ''pro''
        \<and> generateContent env key
             (genRequest (apiAspectRatio ratio) prompt (cleanBase64Of src) (mimeTypeOf src)
                ''gemini-3-pro-image-preview'' True) = Inr response \<longrightarrow>
        map gen_model (imageRequests (fst (generateAIImage env src prompt ratio))) =
          [''gemini-3-pro-image-preview''])
   \<and> (resolvedModel env src prompt = Some (key, m) \<and> str_includes m ''pro''
        \<and> generateContent env key
             (genRequest (apiAspectRatio ratio) prompt (cleanBase64Of src) (mimeTypeOf src)
                ''gemini-3-pro-image-preview'' True) = Inl e \<longrightarrow>
        map gen_model (imageRequests (fst (generateAIImage env src prompt ratio))) =
          [''gemini-3-pro-image-preview'', ''gemini-2.5-flash-image''])
   \<and> (resolvedModel env src prompt = Some (key, m) \<and> \<not> str_includes m ''pro'' \<longrightarrow>
        map gen_model (imageRequests (fst (generateAIImage env src prompt ratio))) =
          [''gemini-2.5-flash-image''])
   \<and> (resolvedModel env src prompt = None \<longrightarrow>
        imageRequests (fst (generateAIImage env src prompt ratio)) = [])"
proof (intro conjI impI ballI)
  fix rq
  assume rq: "rq \<in> set (imageRequests (fst (generateAIImage env src prompt ratio)))"
  show "gen_model rq = ''gemini-3-pro-image-preview'' \<or> gen_model rq = ''gemini-2.5-flash-image''"
  proof (cases "resolvedModel env src prompt")
    case None
    then show ?thesis using generateAIImage_unresolved [of env src prompt ratio] rq by simp
  next
    case (Some km)
    obtain k' m' where km: "km = (k', m')" by (cases km)
    have "gen_model rq \<in> set (map gen_model (imageRequests (fst (generateAIImage env src prompt ratio))))"
      using rq by simp
    then show ?thesis
      unfolding generateAIImage_models [OF Some [unfolded km], of ratio]
      by (auto split: if_splits sum.splits)
  qed
next
  assume "resolvedModel env src prompt = Some (key, m) \<and> str_includes m ''pro''
        \<and> generateContent env key
             (genRequest (apiAspectRatio ratio) prompt (cleanBase64Of src) (mimeTypeOf src)
                ''gemini-3-pro-image-preview'' True) = Inr response"
  then show "map gen_model (imageRequests (fst (generateAIImage env src prompt ratio))) =
          [''gemini-3-pro-image-preview'']"
    using generateAIImage_models [of env src prompt key m ratio] by simp
next
  assume "resolvedModel env src prompt = Some (key, m) \<and> str_includes m ''pro''
        \<and> generateContent env key
             (genRequest (apiAspectRatio ratio) prompt (cleanBase64Of src) (mimeTypeOf src)
                ''gemini-3-pro-image-preview'' True) = Inl e"
  then show "map gen_model (imageRequests (fst (generateAIImage env src prompt ratio))) =
          [''gemini-3-pro-image-preview'', ''gemini-2.5-flash-image'']"
    using generateAIImage_models [of env src prompt key m ratio] by simp
next
  assume "resolvedModel env src prompt = Some (key, m) \<and> \<not> str_includes m ''pro''"
  then show "map gen_model (imageRequests (fst (generateAIImage env src prompt ratio))) =
          [''gemini-2.5-flash-image'']"
    using generateAIImage_models [of env src prompt key m ratio] by simp
next
  assume "resolvedModel env src prompt = None"
  then show "imageRequests (fst (generateAIImage env src prompt ratio)) = []"
    using generateAIImage_unresolved by blast
qed

text \<open>
  The claim as first stated lets every image request name the pro model when the
  resolved preference contains \<^verbatim>\<open>pro\<close>. In this run the preference is
  \<^verbatim>\<open>gemini-3-pro-image-preview\<close>, the pro call fails, and the second image request names
  the flash model.
\<close>

theorem C9_counterexample:
  "resolvedModel
       (example_client_env ''gemini-3-pro-image-preview''
          (example_ai (Inl (Error ''unused'')) (Inl (Error ''overloaded''))
             (Inr (example_image_response ''iVBOR''))))
       ''data:image/jpeg;base64,AAAA'' ''as a cartoon'' =
     Some (''AIzaSyTest'', ''gemini-3-pro-image-preview'')
   \<and> str_includes ''gemini-3-pro-image-preview'' ''pro''
   \<and> map gen_model (imageRequests (fst (generateAIImage
       (example_client_env ''gemini-3-pro-image-preview''
          (example_ai (Inl (Error ''unused'')) (Inl (Error ''overloaded''))
             (Inr (example_image_response ''iVBOR''))))
       ''data:image/jpeg;base64,AAAA'' ''as a cartoon'' Ratio_9_16))) =
     [''gemini-3-pro-image-preview'', ''gemini-2.5-flash-image'']"
proof -
  have r: "resolvedModel
       (example_client_env ''gemini-3-pro-image-preview''
          (example_ai (Inl (Error ''unused'')) (Inl (Error ''overloaded''))
             (Inr (example_image_response ''iVBOR''))))
       ''data:image/jpeg;base64,AAAA'' ''as a cartoon'' =
     Some (''AIzaSyTest'', ''gemini-3-pro-image-preview'')"
    by (rule resolvedModel_example) simp_all
  show ?thesis
    using r generateAIImage_models [OF r, of Ratio_9_16] pro_includes_pro
    by (simp add: example_client_env_def example_ai_def)
qed

lemma custom_models:
  "\<not> str_includes ''my-custom-model'' ''pro''" "str_includes ''improved-v2'' ''pro''"
  by code_simp+

theorem C9_model_ids_witness:
  "map gen_model (imageRequests (fst (generateAIImage
       (example_client_env ''my-custom-model''
          (example_ai (Inl (Error ''unused'')) (Inl (Error ''unused''))
             (Inr (example_image_response ''iVBOR''))))
       ''data:image/jpeg;base64,AAAA'' ''as a cartoon'' Ratio_9_16))) =
     [''gemini-2.5-flash-image'']
   \<and> map gen_model (imageRequests (fst (generateAIImage
       (example_client_env ''improved-v2''
          (example_ai (Inl (Error ''unused'')) (Inr (example_image_response ''iVBOR''))
             (Inl (Error ''unused''))))
       ''data:image/jpeg;base64,AAAA'' ''as a cartoon'' Ratio_9_16))) =
     [''gemini-3-pro-image-preview'']
   \<and> map gen_model (imageRequests (fst (generateAIImage
       (example_client_env ''improved-v2''
          (example_ai (Inl (Error ''unused'')) (Inl (Error ''overloaded''))
             (Inr (example_image_response ''iVBOR''))))
       ''data:image/jpeg;base64,AAAA'' ''as a cartoon'' Ratio_9_16))) =
     [''gemini-3-pro-image-preview'', ''gemini-2.5-flash-image'']
   \<and> imageRequests (fst (generateAIImage
       ((example_client_env ''improved-v2''
          (example_ai (Inl (Error ''unused'')) (Inl (Error ''unused''))
             (Inl (Error ''unused''))))\<lparr>API_KEY := None\<rparr>)
       ''data:image/jpeg;base64,AAAA'' ''as a cartoon'' Ratio_9_16)) = []"
proof -
  have r1: "resolvedModel
       (example_client_env ''my-custom-model''
          (example_ai (Inl (Error ''unused'')) (Inl (Error ''unused''))
             (Inr (example_image_response ''iVBOR''))))
       ''data:image/jpeg;base64,AAAA'' ''as a cartoon'' = Some (''AIzaSyTest'', ''my-custom-model'')"
    by (rule resolvedModel_example) simp_all
  have r2: "resolvedModel
       (example_client_env ''improved-v2''
          (example_ai (Inl (Error ''unused'')) (Inr (example_image_response ''iVBOR''))
             (Inl (Error ''unused''))))
       ''data:image/jpeg;base64,AAAA'' ''as a cartoon'' = Some (''AIzaSyTest'', ''improved-v2'')"
    by (rule resolvedModel_example) simp_all
  have r3: "resolvedModel
       (example_client_env ''improved-v2''
          (example_ai (Inl (Error ''unused'')) (Inl (Error ''overloaded''))
             (Inr (example_image_response ''iVBOR''))))
       ''data:image/jpeg;base64,AAAA'' ''as a cartoon'' = Some (''AIzaSyTest'', ''improved-v2'')"
    by (rule resolvedModel_example) simp_all
  have r4: "resolvedModel
       ((example_client_env ''improved-v2''
          (example_ai (Inl (Error ''unused'')) (Inl (Error ''unused''))
             (Inl (Error ''unused''))))\<lparr>API_KEY := None\<rparr>)
       ''data:image/jpeg;base64,AAAA'' ''as a cartoon'' = None"
    by (simp add: resolvedModel_def readSettings_def example_client_env_def parseInt_sizes)
  have g2: "generateContent
       (example_client_env ''improved-v2''
          (example_ai (Inl (Error ''unused'')) (Inr (example_image_response ''iVBOR''))
             (Inl (Error ''unused''))))
       ''AIzaSyTest''
       (genRequest (apiAspectRatio Ratio_9_16) ''as a cartoon''
          (cleanBase64Of ''data:image/jpeg;base64,AAAA'') (mimeTypeOf ''data:image/jpeg;base64,AAAA'')
          ''gemini-3-pro-image-preview'' True) = Inr (example_image_response ''iVBOR'')"
    by (simp add: example_client_env_def example_ai_def)
  have g3: "generateContent
       (example_client_env ''improved-v2''
          (example_ai (Inl (Error ''unused'')) (Inl (Error ''overloaded''))
             (Inr (example_image_response ''iVBOR''))))
       ''AIzaSyTest''
       (genRequest (apiAspectRatio Ratio_9_16) ''as a cartoon''
          (cleanBase64Of ''data:image/jpeg;base64,AAAA'') (mimeTypeOf ''data:image/jpeg;base64,AAAA'')
          ''gemini-3-pro-image-preview'' True) = Inl (Error ''overloaded'')"
    by (simp add: example_client_env_def example_ai_def)
  have a: "map gen_model (imageRequests (fst (generateAIImage
       (example_client_env ''my-custom-model''
          (example_ai (Inl (Error ''unused'')) (Inl (Error ''unused''))
             (Inr (example_image_response ''iVBOR''))))
       ''data:image/jpeg;base64,AAAA'' ''as a cartoon'' Ratio_9_16))) =
     [''gemini-2.5-flash-image'']"
    using
      C9_model_ids [of
       "example_client_env ''my-custom-model''
          (example_ai (Inl (Error ''unused'')) (Inl (Error ''unused''))
             (Inr (example_image_response ''iVBOR'')))"
       "''data:image/jpeg;base64,AAAA''" "''as a cartoon''" Ratio_9_16
       "''AIzaSyTest''" "''my-custom-model''"]
      r1 custom_models(1) by simp
  have b: "map gen_model (imageRequests (fst (generateAIImage
       (example_client_env ''improved-v2''
          (example_ai (Inl (Error ''unused'')) (Inr (example_image_response ''iVBOR''))
             (Inl (Error ''unused''))))
       ''data:image/jpeg;base64,AAAA'' ''as a cartoon'' Ratio_9_16))) =
     [''gemini-3-pro-image-preview'']"
    using
      C9_model_ids [of
       "example_client_env ''improved-v2''
          (example_ai (Inl (Error ''unused'')) (Inr (example_image_response ''iVBOR''))
             (Inl (Error ''unused'')))"
       "''data:image/jpeg;base64,AAAA''" "''as a cartoon''" Ratio_9_16
       "''AIzaSyTest''" "''improved-v2''" "example_image_response ''iVBOR''"]
      r2 g2 custom_models(2) by simp
  have c: "map gen_model (imageRequests (fst (generateAIImage
       (example_client_env ''improved-v2''
          (example_ai (Inl (Error ''unused'')) (Inl (Error ''overloaded''))
             (Inr (example_image_response ''iVBOR''))))
       ''data:image/jpeg;base64,AAAA'' ''as a cartoon'' Ratio_9_16))) =
     [''gemini-3-pro-image-preview'', ''gemini-2.5-flash-image'']"
    using
      C9_model_ids [of
       "example_client_env ''improved-v2''
          (example_ai (Inl (Error ''unused'')) (Inl (Error ''overloaded''))
             (Inr (example_image_response ''iVBOR'')))"
       "''data:image/jpeg;base64,AAAA''" "''as a cartoon''" Ratio_9_16
       "''AIzaSyTest''" "''improved-v2''" _ "Error ''overloaded''"]
      r3 g3 custom_models(2) by simp
  have d: "imageRequests (fst (generateAIImage
       ((example_client_env ''improved-v2''
          (example_ai (Inl (Error ''unused'')) (Inl (Error ''unused''))
             (Inl (Error ''unused''))))\<lparr>API_KEY := None\<rparr>)
       ''data:image/jpeg;base64,AAAA'' ''as a cartoon'' Ratio_9_16)) = []"
    using
      C9_model_ids [of
       "(example_client_env ''improved-v2''
          (example_ai (Inl (Error ''unused'')) (Inl (Error ''unused''))
             (Inl (Error ''unused''))))\<lparr>API_KEY := None\<rparr>"
       "''data:image/jpeg;base64,AAAA''" "''as a cartoon''" Ratio_9_16]
      r4 by simp
  show ?thesis
    using a b c d by simp
qed

section \<open>The payload of the data URIs\<close>








lemma example_source:
  "cleanBase64Of ''data:image/jpeg;base64,AAAA'' = Some ''AAAA''"
  "mimeTypeOf ''data:image/jpeg;base64,AAAA'' = ''image/jpeg''"
  by (simp_all add: cleanBase64Of_def mimeTypeOf_def startsWith_def)

lemma smartDetection_auto:
  "snd (smartDetection env key c mt ''auto'') =
     (if 1 < snd (detectPeopleCount env key c mt) then ''gemini-3-pro-image-preview''
      else ''gemini-2.5-flash-image'')"
  unfolding smartDetection_def by (simp split: prod.splits)

lemma first_model:
  assumes "m = ''gemini-3-pro-image-preview'' \<or> m = ''gemini-2.5-flash-image''"
  shows "map gen_model (take 1 (imageRequests (fst (runGenAI ai (genRequest r p c mt) m)))) = [m]"
proof -
  have "take 1 (map gen_model (imageRequests (fst (runGenAI ai (genRequest r p c mt) m)))) = [m]"
    unfolding runGenAI_models using assms pro_includes_pro flash_excludes_pro
    by (auto split: sum.splits)
  then show ?thesis by (simp add: take_map)
qed

text \<open>
  C4, as amended. When the stored model preference is \<^verbatim>\<open>auto\<close> and \<^verbatim>\<open>API_KEY\<close> is
  configured, a run of \<^verbatim>\<open>generateAIImage\<close> sends exactly one detector request; the model
  selected, which the first image request names, is \<^verbatim>\<open>gemini-3-pro-image-preview\<close> when
  the detected count is greater than 1 and \<^verbatim>\<open>gemini-2.5-flash-image\<close> otherwise. The
  count is 1 when the detector call throws, when the answer has no text, and when
  \<^verbatim>\<open>parseInt\<close> finds no integer at the start of the trimmed text; otherwise it is that
  integer.
\<close>

theorem C4_auto_detection:
  assumes "pb_settings env = Some (Inr ps)" and "selectedModel ps = ''auto''"
    and "API_KEY env = Some key" and "key \<noteq> []"
  shows "detectorRequests (fst (generateAIImage env src prompt ratio)) =
       [detectRequest (cleanBase64Of src) (mimeTypeOf src)]
     \<and> resolvedModel env src prompt =
         Some (key,
           if 1 < snd (detectPeopleCount env key (cleanBase64Of src) (mimeTypeOf src))
           then ''gemini-3-pro-image-preview'' else ''gemini-2.5-flash-image'')
     \<and> map gen_model (take 1 (imageRequests (fst (generateAIImage env src prompt ratio)))) =
         [if 1 < snd (detectPeopleCount env key (cleanBase64Of src) (mimeTypeOf src))
          then ''gemini-3-pro-image-preview'' else ''gemini-2.5-flash-image'']
     \<and> (generateContent env key (detectRequest (cleanBase64Of src) (mimeTypeOf src)) = Inl e \<longrightarrow>
          snd (detectPeopleCount env key (cleanBase64Of src) (mimeTypeOf src)) = 1)
     \<and> (generateContent env key (detectRequest (cleanBase64Of src) (mimeTypeOf src)) = Inr result
          \<and> response_text result = None \<longrightarrow>
          snd (detectPeopleCount env key (cleanBase64Of src) (mimeTypeOf src)) = 1)
     \<and> (generateContent env key (detectRequest (cleanBase64Of src) (mimeTypeOf src)) = Inr result
          \<and> response_text result = Some t \<and> parseInt (trim t) = None \<longrightarrow>
          snd (detectPeopleCount env key (cleanBase64Of src) (mimeTypeOf src)) = 1)
     \<and> (generateContent env key (detectRequest (cleanBase64Of src) (mimeTypeOf src)) = Inr result
          \<and> response_text result = Some t \<and> t \<noteq> [] \<and> parseInt (trim t) = Some n \<longrightarrow>
          snd (detectPeopleCount env key (cleanBase64Of src) (mimeTypeOf src)) = n)"
proof -
  let ?c = "cleanBase64Of src" and ?mt = "mimeTypeOf src"
  let ?count = "snd (detectPeopleCount env key ?c ?mt)"
  let ?m = "if 1 < ?count then ''gemini-3-pro-image-preview'' else ''gemini-2.5-flash-image''"
  obtain sz where rs: "readSettings env = Inr (''auto'', sz)"
    unfolding readSettings_def using assms(1,2) by simp
  have res: "resolvedModel env src prompt = Some (key, ?m)"
    unfolding resolvedModel_def using rs assms(3,4) by (simp add: smartDetection_auto)
  have flow: "generateAIImage env src prompt ratio = geminiFlow env src prompt ratio ''auto''"
    unfolding generateAIImage_def using rs by simp
  have det: "detectorRequests (fst (generateAIImage env src prompt ratio)) = [detectRequest ?c ?mt]"
    unfolding flow geminiFlow_with_key [OF assms(3,4)] by simp
  have "map gen_model (take 1 (imageRequests (fst (generateAIImage env src prompt ratio)))) = [?m]"
    unfolding flow geminiFlow_with_key [OF assms(3,4)] smartDetection_auto
    using first_model [of ?m "generateContent env key" "apiAspectRatio ratio" prompt ?c ?mt]
    by simp
  moreover have "generateContent env key (detectRequest ?c ?mt) = Inl e \<longrightarrow> ?count = 1"
    unfolding detectPeopleCount_def by simp
  moreover have "generateContent env key (detectRequest ?c ?mt) = Inr result
          \<and> response_text result = None \<longrightarrow> ?count = 1"
    unfolding detectPeopleCount_def by simp
  moreover have "generateContent env key (detectRequest ?c ?mt) = Inr result
          \<and> response_text result = Some t \<and> parseInt (trim t) = None \<longrightarrow> ?count = 1"
    unfolding detectPeopleCount_def by simp
  moreover have "generateContent env key (detectRequest ?c ?mt) = Inr result
          \<and> response_text result = Some t \<and> t \<noteq> [] \<and> parseInt (trim t) = Some n \<longrightarrow> ?count = n"
    unfolding detectPeopleCount_def by simp
  ultimately show ?thesis using det res by blast
qed

lemma parseInt_examples:
  "parseInt (trim '' 3 '') = Some 3" "parseInt (trim ''two'') = None"
  by code_simp+

lemma detect_example:
  "gen_model (detectRequest c mt) = ''gemini-2.5-flash''"
  by (simp add: detectRequest_def)

theorem C4_auto_detection_witness:
  "detectorRequests (fst (generateAIImage
       (example_client_env ''auto''
          (example_ai (Inr \<lparr>response_text = Some '' 3 '', candidates = None\<rparr>)
             (Inr (example_image_response ''iVBOR'')) (Inl (Error ''unused''))))
       ''data:image/jpeg;base64,AAAA'' ''as a cartoon'' Ratio_9_16)) =
     [detectRequest (Some ''AAAA'') ''image/jpeg'']
   \<and> map gen_model (take 1 (imageRequests (fst (generateAIImage
       (example_client_env ''auto''
          (example_ai (Inr \<lparr>response_text = Some '' 3 '', candidates = None\<rparr>)
             (Inr (example_image_response ''iVBOR'')) (Inl (Error ''unused''))))
       ''data:image/jpeg;base64,AAAA'' ''as a cartoon'' Ratio_9_16)))) =
     [''gemini-3-pro-image-preview'']
   \<and> map gen_model (take 1 (imageRequests (fst (generateAIImage
       (example_client_env ''auto''
          (example_ai (Inl (Error ''detector down''))
             (Inl (Error ''unused'')) (Inr (example_image_response ''iVBOR''))))
       ''data:image/jpeg;base64,AAAA'' ''as a cartoon'' Ratio_9_16)))) =
     [''gemini-2.5-flash-image'']
   \<and> map gen_model (take 1 (imageRequests (fst (generateAIImage
       (example_client_env ''auto''
          (example_ai (Inr \<lparr>response_text = Some ''two'', candidates = None\<rparr>)
             (Inl (Error ''unused'')) (Inr (example_image_response ''iVBOR''))))
       ''data:image/jpeg;base64,AAAA'' ''as a cartoon'' Ratio_9_16)))) =
     [''gemini-2.5-flash-image'']"
  using
    C4_auto_detection [of
      "example_client_env ''auto''
          (example_ai (Inr \<lparr>response_text = Some '' 3 '', candidates = None\<rparr>)
             (Inr (example_image_response ''iVBOR'')) (Inl (Error ''unused'')))"
      "\<lparr>selectedModel = ''auto'', gptModelSize = Some Size_720\<rparr>" "''AIzaSyTest''"
      "''data:image/jpeg;base64,AAAA''" "''as a cartoon''" Ratio_9_16
      "Error ''none''" "\<lparr>response_text = Some '' 3 '', candidates = None\<rparr>" "'' 3 ''" 3]
    C4_auto_detection [of
      "example_client_env ''auto''
          (example_ai (Inl (Error ''detector down''))
             (Inl (Error ''unused'')) (Inr (example_image_response ''iVBOR'')))"
      "\<lparr>selectedModel = ''auto'', gptModelSize = Some Size_720\<rparr>" "''AIzaSyTest''"
      "''data:image/jpeg;base64,AAAA''" "''as a cartoon''" Ratio_9_16
      "Error ''detector down''"]
    C4_auto_detection [of
      "example_client_env ''auto''
          (example_ai (Inr \<lparr>response_text = Some ''two'', candidates = None\<rparr>)
             (Inl (Error ''unused'')) (Inr (example_image_response ''iVBOR'')))"
      "\<lparr>selectedModel = ''auto'', gptModelSize = Some Size_720\<rparr>" "''AIzaSyTest''"
      "''data:image/jpeg;base64,AAAA''" "''as a cartoon''" Ratio_9_16
      "Error ''none''" "\<lparr>response_text = Some ''two'', candidates = None\<rparr>" "''two''"]
  by (simp add: example_client_env_def example_ai_def detect_example parseInt_examples
      example_source)

text \<open>
  The claim as first stated lets every run with the preference \<^verbatim>\<open>auto\<close> call the
  detector once. Without \<^verbatim>\<open>API_KEY\<close> the run throws at line 150, before the detection,
  and makes no call at all.
\<close>

theorem C4_counterexample:
  "readSettings ((example_client_env ''auto''
          (example_ai (Inr \<lparr>response_text = Some '' 3 '', candidates = None\<rparr>)
             (Inr (example_image_response ''iVBOR'')) (Inl (Error ''unused''))))
        \<lparr>API_KEY := None\<rparr>) = Inr (''auto'', 720)
   \<and> generateAIImage
       ((example_client_env ''auto''
          (example_ai (Inr \<lparr>response_text = Some '' 3 '', candidates = None\<rparr>)
             (Inr (example_image_response ''iVBOR'')) (Inl (Error ''unused''))))
        \<lparr>API_KEY := None\<rparr>)
       ''data:image/jpeg;base64,AAAA'' ''as a cartoon'' Ratio_9_16 =
     ([], Inl (Error ''API Key missing. Please create a .env file with API_KEY=AIzaSy...''))"
proof -
  have rs: "readSettings ((example_client_env ''auto'' ai)\<lparr>API_KEY := None\<rparr>) = Inr (''auto'', 720)"
    for ai
    by (simp add: readSettings_def example_client_env_def parseInt_sizes)
  show ?thesis
    unfolding generateAIImage_def rs
    by (simp add: geminiFlow_def)
qed

end
